theory Spec2Isabelle
  imports Main "HOL-Library.Sublist" "HOL-Library.AList"
begin

section \<open>Scaffold clean-up scripts of the Backstage plugin skills\<close>

text \<open>
  The repository ships two Node.js scripts, \<^verbatim>\<open>cleanup-scaffolding.js\<close> (frontend plugins)
  and \<^verbatim>\<open>cleanup-scaffolding-backend.js\<close> (backend plugins).  Both validate the plugin
  directory, then delete, rename and rewrite a fixed set of files below it.

  Conventions of the embedding.
  \<^item> Texts (file contents, identifiers, output lines) are lists of 8-bit characters: the
    bytes of the text in UTF-8, which is how the files hold them and how the scripts read
    and write them (a file that is not valid UTF-8, of which reading would replace the
    invalid bytes, is outside the embedding).  A character beyond ASCII is the sequence of its bytes; so are the
    characters of the class \<^verbatim>\<open>\s\<close> and those the scripts print.  Of \<^verbatim>\<open>toUpperCase\<close> only the
    ASCII letters are modelled (the tables of Unicode are no part of the scripts): what
    is stated of the upper-casing is stated for ASCII identifiers.
  \<^item> A path is the list of its segments below the root of the file system, already
    normalised; the file system is an association list from paths to nodes.  There are no
    symbolic links and no permissions, and names are case sensitive (POSIX).
  \<^item> Every \<^verbatim>\<open>fs\<close> call that can throw returns a sum; the scripts' \<^verbatim>\<open>try/catch\<close> turns the
    error into exit code 1.  What is written to stderr is not modelled, stdout is.
\<close>

subsection \<open>Strings: \<^verbatim>\<open>split\<close>, \<^verbatim>\<open>toUpperCase\<close>, \<^verbatim>\<open>toPascalCase\<close>\<close>

text \<open>\<^verbatim>\<open>str.split(c)\<close> for a one-character separator: never the empty list.\<close>

fun splitOn :: "char \<Rightarrow> string \<Rightarrow> string list" where
  "splitOn sep [] = [[]]"
| "splitOn sep (x # xs) =
     (if x = sep then [] # splitOn sep xs
      else (case splitOn sep xs of [] \<Rightarrow> [[x]] | w # ws \<Rightarrow> (x # w) # ws))"

text \<open>
  \<^verbatim>\<open>toUpperCase\<close> on a single ASCII character; a byte of a character beyond ASCII is left as
  it is, which is not what Unicode says for every letter (see \<open>ascii\<close> below).
\<close>

definition toUpperCaseChar :: "char \<Rightarrow> char" where
  "toUpperCaseChar c =
     (case map_of (zip ''abcdefghijklmnopqrstuvwxyz'' ''ABCDEFGHIJKLMNOPQRSTUVWXYZ'') c of
        Some u \<Rightarrow> u
      | None \<Rightarrow> c)"

text \<open>\<^verbatim>\<open>word.charAt(0).toUpperCase() + word.slice(1)\<close>; the empty word stays empty.\<close>

fun capitalize :: "string \<Rightarrow> string" where
  "capitalize [] = []"
| "capitalize (c # cs) = toUpperCaseChar c # cs"

text \<open>\<^verbatim>\<open>str.split('-').map(word => ...).join('')\<close>\<close>

definition toPascalCase :: "string \<Rightarrow> string" where
  "toPascalCase str = concat (map capitalize (splitOn (CHR ''-'') str))"

text \<open>\<^verbatim>\<open>const componentName = `${pluginName}Page`\<close> with \<^verbatim>\<open>pluginName = toPascalCase(pluginId)\<close>\<close>

definition componentName :: "string \<Rightarrow> string" where
  "componentName pluginId = toPascalCase pluginId @ ''Page''"

subsection \<open>Regular expressions and \<^verbatim>\<open>String.prototype.replace\<close>\<close>

text \<open>
  Every regular expression of the two scripts is a sequence of one-character atoms (a
  literal, a class such as \<^verbatim>\<open>['"]\<close> or \<^verbatim>\<open>\s\<close>), each taken once, optionally (\<^verbatim>\<open>?\<close>) or any
  number of times (\<^verbatim>\<open>*\<close>), all with the flag \<^verbatim>\<open>g\<close>.  An atom is the list of the characters it
  accepts, each as its bytes in UTF-8, and its quantifier.
\<close>

datatype quant = One | Opt | Star

type_synonym atom = "string list \<times> quant"

text \<open>The number of bytes of the character of the class that the text starts with.\<close>

fun matchChar :: "string list \<Rightarrow> string \<Rightarrow> nat option" where
  "matchChar [] s = None"
| "matchChar (a # alts) s =
     (if a \<noteq> [] \<and> prefix a s then Some (length a) else matchChar alts s)"

text \<open>
  The length of the match that starts at the head of the text, found as a backtracking
  matcher finds it: a greedy quantifier first takes the character and gives it back only
  when the rest of the pattern fails.  A character of \<open>k\<close> bytes at the head of \<open>c # s\<close>
  leaves \<open>drop (k - 1) s\<close>.
\<close>

fun matchHere :: "atom list \<Rightarrow> string \<Rightarrow> nat option" where
  "matchHere [] s = Some 0"
| "matchHere ((cs, One) # as) [] = None"
| "matchHere ((cs, One) # as) (c # s) =
     (case matchChar cs (c # s) of
        None \<Rightarrow> None
      | Some k \<Rightarrow> map_option (\<lambda>n. k + n) (matchHere as (drop (k - 1) s)))"
| "matchHere ((cs, Opt) # as) [] = matchHere as []"
| "matchHere ((cs, Opt) # as) (c # s) =
     (case matchChar cs (c # s) of
        None \<Rightarrow> matchHere as (c # s)
      | Some k \<Rightarrow>
          (case matchHere as (drop (k - 1) s) of
             Some n \<Rightarrow> Some (k + n)
           | None \<Rightarrow> matchHere as (c # s)))"
| "matchHere ((cs, Star) # as) [] = matchHere as []"
| "matchHere ((cs, Star) # as) (c # s) =
     (case matchChar cs (c # s) of
        None \<Rightarrow> matchHere as (c # s)
      | Some k \<Rightarrow>
          (case matchHere ((cs, Star) # as) (drop (k - 1) s) of
             Some n \<Rightarrow> Some (k + n)
           | None \<Rightarrow> matchHere as (c # s)))"

text \<open>
  The replacement text is a template (ECMAScript \<^verbatim>\<open>GetSubstitution\<close>): \<^verbatim>\<open>$$\<close> is a dollar,
  \<^verbatim>\<open>$&\<close> the match, \<^verbatim>\<open>$`\<close> the text before the match and \<^verbatim>\<open>$'\<close> the text after it.  None of
  the patterns has a capture group, so \<^verbatim>\<open>$1\<close> and \<^verbatim>\<open>$<name>\<close> stand for themselves.
\<close>

fun getSubstitution :: "string \<Rightarrow> string \<Rightarrow> string \<Rightarrow> string \<Rightarrow> string" where
  "getSubstitution matched pre post [] = []"
| "getSubstitution matched pre post [c] = [c]"
| "getSubstitution matched pre post (c # d # t) =
     (if c \<noteq> CHR ''$'' then c # getSubstitution matched pre post (d # t)
      else if d = CHR ''$'' then CHR ''$'' # getSubstitution matched pre post t
      else if d = CHR ''&'' then matched @ getSubstitution matched pre post t
      else if d = CHR 0x60 then pre @ getSubstitution matched pre post t
      else if d = CHR 0x27 then post @ getSubstitution matched pre post t
      else c # getSubstitution matched pre post (d # t))"

text \<open>
  \<^verbatim>\<open>str.replace(/pat/g, template)\<close>: the text is scanned from the left; \<open>pre\<close> is the text
  already passed and \<open>k\<close> the number of characters of the current match still to pass.
  After an empty match the scan copies one character and moves on.
\<close>

fun replaceFrom :: "atom list \<Rightarrow> string \<Rightarrow> string \<Rightarrow> string \<Rightarrow> nat \<Rightarrow> string" where
  "replaceFrom pat templ pre [] k =
     (if k = 0
      then (case matchHere pat [] of
              None \<Rightarrow> []
            | Some n \<Rightarrow> getSubstitution [] pre [] templ)
      else [])"
| "replaceFrom pat templ pre (c # s) k =
     (if 0 < k then replaceFrom pat templ (pre @ [c]) s (k - 1)
      else (case matchHere pat (c # s) of
              None \<Rightarrow> c # replaceFrom pat templ (pre @ [c]) s 0
            | Some n \<Rightarrow>
                getSubstitution (take n (c # s)) pre (drop n (c # s)) templ
                @ (if n = 0 then c # replaceFrom pat templ (pre @ [c]) s 0
                   else replaceFrom pat templ (pre @ [c]) s (n - 1))))"

definition replaceAll :: "atom list \<Rightarrow> string \<Rightarrow> string \<Rightarrow> string" where
  "replaceAll pat templ s = replaceFrom pat templ [] s 0"

text \<open>
  Atoms: the literal text, a class of ASCII characters such as \<^verbatim>\<open>['"]\<close>, and \<^verbatim>\<open>\s\<close>: the white
  space and the line terminators of ECMAScript, which are U+0009 to U+000D, U+0020, U+00A0,
  U+1680, U+2000 to U+200A, U+2028, U+2029, U+202F, U+205F, U+3000 and U+FEFF.
\<close>

definition lit :: "string \<Rightarrow> atom list" where
  "lit s = map (\<lambda>c. ([[c]], One)) s"

definition oneOf :: "string \<Rightarrow> string list" where
  "oneOf cs = map (\<lambda>c. [c]) cs"

definition quoteChars :: "string list" where
  "quoteChars = oneOf [CHR 0x27, CHR 0x22]"

definition whiteSpace :: "string list" where
  "whiteSpace =
     oneOf [CHR '' '', CHR 0x09, CHR 0x0A, CHR 0x0B, CHR 0x0C, CHR 0x0D]
     @ [[CHR 0xC2, CHR 0xA0], [CHR 0xE1, CHR 0x9A, CHR 0x80]]
     @ map (\<lambda>b. [CHR 0xE2, CHR 0x80, b])
         [CHR 0x80, CHR 0x81, CHR 0x82, CHR 0x83, CHR 0x84, CHR 0x85, CHR 0x86, CHR 0x87,
          CHR 0x88, CHR 0x89, CHR 0x8A, CHR 0xA8, CHR 0xA9, CHR 0xAF]
     @ [[CHR 0xE2, CHR 0x81, CHR 0x9F], [CHR 0xE3, CHR 0x80, CHR 0x80],
        [CHR 0xEF, CHR 0xBB, CHR 0xBF]]"

subsection \<open>The substitutions of the two scripts\<close>

text \<open>
  \<^verbatim>\<open>cleanup-scaffolding.js\<close>, step 3 (the component file):
  \<^verbatim>\<open>/import \{ ExampleFetchComponent \} from ['"]\.\.\/ExampleFetchComponent['"'];?\n?/g\<close>,
  \<^verbatim>\<open>/\s*<Grid item>\s*<ExampleFetchComponent \/>\s*<\/Grid>\s*/g\<close> and
  \<^verbatim>\<open>/export const ExampleComponent/g\<close>.
\<close>

definition fetchImportPattern :: "atom list" where
  "fetchImportPattern =
     lit ''import { ExampleFetchComponent } from '' @ [(quoteChars, One)]
     @ lit ''../ExampleFetchComponent''
     @ [(quoteChars, One), (oneOf '';'', Opt), (oneOf [CHR 0x0A], Opt)]"

definition fetchJsxPattern :: "atom list" where
  "fetchJsxPattern =
     [(whiteSpace, Star)] @ lit ''<Grid item>''
     @ [(whiteSpace, Star)] @ lit ''<ExampleFetchComponent />''
     @ [(whiteSpace, Star)] @ lit ''</Grid>'' @ [(whiteSpace, Star)]"

definition exportPattern :: "atom list" where
  "exportPattern = lit ''export const ExampleComponent''"

definition updateComponentContent :: "string \<Rightarrow> string \<Rightarrow> string" where
  "updateComponentContent name content =
     replaceAll exportPattern (''export const '' @ name)
       (replaceAll fetchJsxPattern []
         (replaceAll fetchImportPattern [] content))"

text \<open>
  Steps 4 and 5 (the test file and \<^verbatim>\<open>index.ts\<close>, the same two calls):
  \<^verbatim>\<open>/from ['"]\.\/ExampleComponent['"]/g\<close> and \<^verbatim>\<open>/ExampleComponent/g\<close>.
\<close>

definition fromImportPattern :: "atom list" where
  "fromImportPattern =
     lit ''from '' @ [(quoteChars, One)] @ lit ''./ExampleComponent'' @ [(quoteChars, One)]"

definition placeholderPattern :: "atom list" where
  "placeholderPattern = lit ''ExampleComponent''"

definition updateReferences :: "string \<Rightarrow> string \<Rightarrow> string" where
  "updateReferences name content =
     replaceAll placeholderPattern name
       (replaceAll fromImportPattern (''from '' @ [CHR 0x27] @ ''./'' @ name @ [CHR 0x27]) content)"

text \<open>
  Step 6 (\<^verbatim>\<open>src/plugin.ts\<close> of a frontend plugin):
  \<^verbatim>\<open>/import\(['"]\.\/components\/ExampleComponent['"]\)/g\<close> and \<^verbatim>\<open>/m\.ExampleComponent/g\<close>.
\<close>

definition lazyImportPattern :: "atom list" where
  "lazyImportPattern =
     lit ''import('' @ [(quoteChars, One)] @ lit ''./components/ExampleComponent''
     @ [(quoteChars, One)] @ lit '')''"

definition memberPattern :: "atom list" where
  "memberPattern = lit ''m.ExampleComponent''"

definition updatePluginContent :: "string \<Rightarrow> string \<Rightarrow> string" where
  "updatePluginContent name content =
     replaceAll memberPattern (''m.'' @ name)
       (replaceAll lazyImportPattern
          (''import('' @ [CHR 0x27] @ ''./components/'' @ name @ [CHR 0x27] @ '')'') content)"

text \<open>
  \<^verbatim>\<open>cleanup-scaffolding-backend.js\<close>, step 3 (\<^verbatim>\<open>src/plugin.ts\<close> of a backend plugin):
  \<^verbatim>\<open>/import \{ todoListServiceRef \} from ['"]\.\/services\/TodoListService['"'];?\n?/g\<close>,
  \<^verbatim>\<open>/\s*todoList: todoListServiceRef,?\n?/g\<close>, \<^verbatim>\<open>/,?\s*todoList\s*,?/g\<close> and
  \<^verbatim>\<open>/await createRouter\(\{\s*httpAuth,?\s*\}\)/g\<close>.
\<close>

definition todoImportPattern :: "atom list" where
  "todoImportPattern =
     lit ''import { todoListServiceRef } from '' @ [(quoteChars, One)]
     @ lit ''./services/TodoListService''
     @ [(quoteChars, One), (oneOf '';'', Opt), (oneOf [CHR 0x0A], Opt)]"

definition todoDepPattern :: "atom list" where
  "todoDepPattern =
     [(whiteSpace, Star)] @ lit ''todoList: todoListServiceRef''
     @ [(oneOf '','', Opt), (oneOf [CHR 0x0A], Opt)]"

definition todoParamPattern :: "atom list" where
  "todoParamPattern =
     [(oneOf '','', Opt), (whiteSpace, Star)] @ lit ''todoList''
     @ [(whiteSpace, Star), (oneOf '','', Opt)]"

definition createRouterPattern :: "atom list" where
  "createRouterPattern =
     lit ''await createRouter({'' @ [(whiteSpace, Star)] @ lit ''httpAuth''
     @ [(oneOf '','', Opt), (whiteSpace, Star)] @ lit ''})''"

definition updateBackendPluginContent :: "string \<Rightarrow> string" where
  "updateBackendPluginContent content =
     replaceAll createRouterPattern ''await createRouter({ httpAuth })''
       (replaceAll todoParamPattern []
         (replaceAll todoDepPattern []
           (replaceAll todoImportPattern [] content)))"

text \<open>The constant text that step 2 of the backend script writes to \<^verbatim>\<open>src/router.ts\<close>.\<close>

definition unlines :: "string list \<Rightarrow> string" where
  "unlines ls = concat (map (\<lambda>l. l @ [CHR 0x0A]) ls)"

definition simpleRouter :: string where
  \<open>simpleRouter = unlines
     [''import { HttpAuthService } from '@backstage/backend-plugin-api';'',
      ''import express from 'express';'',
      ''import Router from 'express-promise-router';'',
      [],
      ''export interface RouterOptions {'',
      ''  httpAuth: HttpAuthService;'',
      ''}'',
      [],
      ''export async function createRouter('',
      ''  options: RouterOptions,'',
      ''): Promise<express.Router> {'',
      ''  const router = Router();'',
      ''  router.use(express.json());'',
      [],
      ''  // Mark options as used to satisfy TypeScript when no auth is wired yet'',
      ''  void options;'',
      [],
      ''  router.get('/health', (_req, res) => {'',
      ''    res.json({ status: 'ok' });'',
      ''  });'',
      [],
      ''  return router;'',
      ''}'']\<close>

subsection \<open>The manifest: JSON values as \<^verbatim>\<open>JSON.parse\<close> returns them\<close>

text \<open>
  A number is kept as the text \<^verbatim>\<open>String(n)\<close> gives for it, which determines the number (and
  is \<^verbatim>\<open>0\<close> exactly for the two zeros); an object as its members in the order of the text.
\<close>

datatype json =
    JNull
  | JBool bool
  | JNum string
  | JStr string
  | JArr "json list"
  | JObj "(string \<times> json) list"

text \<open>
  \<^verbatim>\<open>value.key\<close> on a value other than \<^verbatim>\<open>null\<close>, for a key that no prototype defines (such
  as \<^verbatim>\<open>backstage\<close> and \<^verbatim>\<open>pluginId\<close>): \<open>None\<close> is \<^verbatim>\<open>undefined\<close>.  Of a repeated member
  \<^verbatim>\<open>JSON.parse\<close> keeps the last.
\<close>

fun getProp :: "json \<Rightarrow> string \<Rightarrow> json option" where
  "getProp (JObj members) key = map_of (rev members) key"
| "getProp v key = None"

datatype error =
    ENOENT | ENOTDIR | EISDIR | ENOTEMPTY | EINVAL | EBUSY | ERR_INVALID_ARG_VALUE
  | TypeError | SyntaxError

text \<open>\<^verbatim>\<open>packageJson.backstage?.pluginId\<close>: reading a member of \<^verbatim>\<open>null\<close> throws.\<close>

definition pluginIdOf :: "json \<Rightarrow> error + json option" where
  "pluginIdOf packageJson =
     (if packageJson = JNull then Inl TypeError
      else (case getProp packageJson ''backstage'' of
              None \<Rightarrow> Inr None
            | Some backstage \<Rightarrow>
                if backstage = JNull then Inr None else Inr (getProp backstage ''pluginId'')))"

text \<open>The values that \<^verbatim>\<open>!pluginId\<close> does not reject.\<close>

fun truthy :: "json option \<Rightarrow> bool" where
  "truthy None = False"
| "truthy (Some JNull) = False"
| "truthy (Some (JBool b)) = b"
| "truthy (Some (JNum n)) = (n \<noteq> ''0'')"
| "truthy (Some (JStr s)) = (s \<noteq> [])"
| "truthy (Some (JArr xs)) = True"
| "truthy (Some (JObj members)) = True"

text \<open>
  \<^verbatim>\<open>`${value}`\<close>, the conversion \<^verbatim>\<open>ToString\<close>: in an array \<^verbatim>\<open>null\<close> is the empty text, the
  elements are joined by commas.
\<close>

fun joinWith :: "string \<Rightarrow> string list \<Rightarrow> string" where
  "joinWith sep [] = []"
| "joinWith sep [x] = x"
| "joinWith sep (x # y # ys) = x @ sep @ joinWith sep (y # ys)"

text \<open>The results of a list of conversions, or the first error among them.\<close>

fun collect :: "(error + 'a) list \<Rightarrow> error + 'a list" where
  "collect [] = Inr []"
| "collect (Inl e # rs) = Inl e"
| "collect (Inr x # rs) = (case collect rs of Inl e \<Rightarrow> Inl e | Inr xs \<Rightarrow> Inr (x # xs))"

text \<open>
  An object is converted by its \<^verbatim>\<open>toString\<close>.  A member \<^verbatim>\<open>toString\<close> of the manifest hides the
  method of \<^verbatim>\<open>Object.prototype\<close>; it is no function, and \<^verbatim>\<open>valueOf\<close> (a member as well, or the
  method, which returns the object) gives no primitive value either: a \<^verbatim>\<open>TypeError\<close>.  An array
  converts its elements, so it throws when one of them does.
\<close>

fun jsToString :: "json \<Rightarrow> error + string" where
  "jsToString JNull = Inr ''null''"
| "jsToString (JBool b) = Inr (if b then ''true'' else ''false'')"
| "jsToString (JNum n) = Inr n"
| "jsToString (JStr s) = Inr s"
| "jsToString (JArr xs) =
     (case collect (map (\<lambda>x. if x = JNull then Inr [] else jsToString x) xs) of
        Inl e \<Rightarrow> Inl e
      | Inr texts \<Rightarrow> Inr (joinWith '','' texts))"
| "jsToString (JObj members) =
     (if ''toString'' \<in> set (map fst members) then Inl TypeError
      else Inr ''[object Object]'')"

subsection \<open>The file system and the \<^verbatim>\<open>fs\<close> and \<^verbatim>\<open>path\<close> calls\<close>

type_synonym path = "string list"

datatype node = File string | Dir

type_synonym filesystem = "(path \<times> node) list"

text \<open>The root of the file system is a directory; every other path is looked up.\<close>

definition lookup :: "filesystem \<Rightarrow> path \<Rightarrow> node option" where
  "lookup fs p = (if p = [] then Some Dir else map_of fs p)"

text \<open>A path with a NUL character is refused by every \<^verbatim>\<open>fs\<close> call.\<close>

definition hasNul :: "path \<Rightarrow> bool" where
  "hasNul p = list_ex (\<lambda>seg. CHR 0x00 \<in> set seg) p"

text \<open>\<^verbatim>\<open>fs.existsSync(p)\<close> never throws.\<close>

definition existsSync :: "filesystem \<Rightarrow> path \<Rightarrow> bool" where
  "existsSync fs p = (\<not> hasNul p \<and> lookup fs p \<noteq> None)"

text \<open>
  \<^verbatim>\<open>path.join(base, text)\<close> for a normalised \<open>base\<close>: the text is cut at the slashes; empty
  segments and \<^verbatim>\<open>.\<close> are dropped, \<^verbatim>\<open>..\<close> leaves the directory reached so far.
\<close>

definition joinSegment :: "path \<Rightarrow> string \<Rightarrow> path" where
  "joinSegment p seg =
     (if seg = [] \<or> seg = ''.'' then p else if seg = ''..'' then butlast p else p @ [seg])"

definition joinPath :: "path \<Rightarrow> string \<Rightarrow> path" where
  "joinPath base text = foldl joinSegment base (splitOn (CHR ''/'') text)"

text \<open>\<^verbatim>\<open>fs.rmSync(p, { recursive: true, force: true })\<close>: the node and all below it.\<close>

definition rmSync :: "path \<Rightarrow> filesystem \<Rightarrow> error + filesystem" where
  "rmSync p fs = Inr (filter (\<lambda>(q, n). \<not> prefix p q) fs)"

text \<open>\<^verbatim>\<open>fs.unlinkSync(p)\<close> removes a file and throws on a directory.\<close>

definition unlinkSync :: "path \<Rightarrow> filesystem \<Rightarrow> error + filesystem" where
  "unlinkSync p fs =
     (if hasNul p then Inl ERR_INVALID_ARG_VALUE
      else (case lookup fs p of
              None \<Rightarrow> Inl ENOENT
            | Some Dir \<Rightarrow> Inl EISDIR
            | Some (File c) \<Rightarrow> Inr (filter (\<lambda>(q, n). q \<noteq> p) fs)))"

text \<open>\<^verbatim>\<open>fs.readFileSync(p, 'utf8')\<close>\<close>

definition readFileSync :: "filesystem \<Rightarrow> path \<Rightarrow> error + string" where
  "readFileSync fs p =
     (if hasNul p then Inl ERR_INVALID_ARG_VALUE
      else (case lookup fs p of
              None \<Rightarrow> Inl ENOENT
            | Some Dir \<Rightarrow> Inl EISDIR
            | Some (File c) \<Rightarrow> Inr c))"

text \<open>
  \<^verbatim>\<open>fs.writeFileSync(p, content)\<close> replaces the content of a file, or creates the file in a
  directory that exists.
\<close>

definition writeFileSync :: "path \<Rightarrow> string \<Rightarrow> filesystem \<Rightarrow> error + filesystem" where
  "writeFileSync p content fs =
     (if hasNul p then Inl ERR_INVALID_ARG_VALUE
      else (case lookup fs p of
              Some Dir \<Rightarrow> Inl EISDIR
            | Some (File c) \<Rightarrow> Inr (AList.update p (File content) fs)
            | None \<Rightarrow>
                (case lookup fs (butlast p) of
                   None \<Rightarrow> Inl ENOENT
                 | Some (File c) \<Rightarrow> Inl ENOTDIR
                 | Some Dir \<Rightarrow> Inr (AList.update p (File content) fs))))"

text \<open>
  \<^verbatim>\<open>fs.renameSync(old, new)\<close>, as \<^verbatim>\<open>rename(2)\<close>: the target's directory must exist; a
  directory cannot move below itself; a directory replaces only an empty directory and a
  file replaces only a file.  The node moves with everything below it.
\<close>

definition hasEntries :: "filesystem \<Rightarrow> path \<Rightarrow> bool" where
  "hasEntries fs p = list_ex (\<lambda>(q, n). strict_prefix p q) fs"

definition movePath :: "path \<Rightarrow> path \<Rightarrow> path \<Rightarrow> path" where
  "movePath old new q = (if prefix old q then new @ drop (length old) q else q)"

definition moveTree :: "path \<Rightarrow> path \<Rightarrow> filesystem \<Rightarrow> filesystem" where
  "moveTree old new fs =
     map (\<lambda>(q, n). (movePath old new q, n)) (filter (\<lambda>(q, n). q \<noteq> new) fs)"

definition renameSync :: "path \<Rightarrow> path \<Rightarrow> filesystem \<Rightarrow> error + filesystem" where
  "renameSync old new fs =
     (if hasNul old \<or> hasNul new then Inl ERR_INVALID_ARG_VALUE
      else if old = [] \<or> new = [] then Inl EBUSY
      else (case lookup fs old of
              None \<Rightarrow> Inl ENOENT
            | Some n \<Rightarrow>
                if old = new then Inr fs
                else if lookup fs (butlast new) = None then Inl ENOENT
                else if lookup fs (butlast new) \<noteq> Some Dir then Inl ENOTDIR
                else if n = Dir \<and> strict_prefix old new then Inl EINVAL
                else (case lookup fs new of
                        None \<Rightarrow> Inr (moveTree old new fs)
                      | Some Dir \<Rightarrow>
                          if n \<noteq> Dir then Inl EISDIR
                          else if hasEntries fs new then Inl ENOTEMPTY
                          else Inr (moveTree old new fs)
                      | Some (File c) \<Rightarrow>
                          if n = Dir then Inl ENOTDIR else Inr (moveTree old new fs))))"

text \<open>
  The association list stands for a directory tree when no path occurs twice and every
  entry lies in a directory that is an entry itself (or the root).
\<close>

definition wellFormed :: "filesystem \<Rightarrow> bool" where
  "wellFormed fs =
     (distinct (map fst fs)
      \<and> list_all (\<lambda>(q, n). q \<noteq> [] \<and> lookup fs (butlast q) = Some Dir) fs)"

subsection \<open>The state of a run\<close>

text \<open>
  A run works on the file system and writes to stdout, one entry for each call of
  \<^verbatim>\<open>console.log\<close>.  The third component is the list of the file systems that the successful
  \<^verbatim>\<open>fs\<close> calls of the run have produced, one after each call, in order.
\<close>

record state =
  files :: filesystem
  stdout :: "string list"
  history :: "filesystem list"

text \<open>A statement either completes or throws, in the state it has reached.\<close>

type_synonym step = "state \<Rightarrow> error option \<times> state"

definition consoleLog :: "string \<Rightarrow> step" where
  "consoleLog line s = (None, s\<lparr>stdout := stdout s @ [line]\<rparr>)"

text \<open>\<^verbatim>\<open>console.log(`...${value}...`)\<close>: the conversion of the value may throw.\<close>

definition templateLog :: "(string \<Rightarrow> string) \<Rightarrow> json \<Rightarrow> step" where
  "templateLog line v s =
     (case jsToString v of
        Inl e \<Rightarrow> (Some e, s)
      | Inr text \<Rightarrow> consoleLog (line text) s)"

definition fsCall :: "(filesystem \<Rightarrow> error + filesystem) \<Rightarrow> step" where
  "fsCall f s =
     (case f (files s) of
        Inl e \<Rightarrow> (Some e, s)
      | Inr fs' \<Rightarrow> (None, s\<lparr>files := fs', history := history s @ [fs']\<rparr>))"

text \<open>Statements in sequence: the first that throws ends the block.\<close>

fun steps :: "step list \<Rightarrow> step" where
  "steps [] s = (None, s)"
| "steps (f # fs) s =
     (case f s of
        (None, s') \<Rightarrow> steps fs s'
      | (Some e, s') \<Rightarrow> (Some e, s'))"

text \<open>\<^verbatim>\<open>if (fs.existsSync(p)) { ... }\<close>\<close>

definition ifExists :: "path \<Rightarrow> step \<Rightarrow> step" where
  "ifExists p body s = (if existsSync (files s) p then body s else (None, s))"

text \<open>\<^verbatim>\<open>let content = fs.readFileSync(p, 'utf8'); ...\<close>\<close>

definition withFile :: "path \<Rightarrow> (string \<Rightarrow> step) \<Rightarrow> step" where
  "withFile p body s =
     (case readFileSync (files s) p of
        Inl e \<Rightarrow> (Some e, s)
      | Inr content \<Rightarrow> body content s)"

text \<open>The characters beyond ASCII of the messages, in UTF-8.\<close>

definition broom :: string where
  "broom = [CHR 0xF0, CHR 0x9F, CHR 0xA7, CHR 0xB9]"

definition fileFolder :: string where
  "fileFolder = [CHR 0xF0, CHR 0x9F, CHR 0x93, CHR 0x81]"

definition wrench :: string where
  "wrench = [CHR 0xF0, CHR 0x9F, CHR 0x94, CHR 0xA7]"

definition memo :: string where
  "memo = [CHR 0xF0, CHR 0x9F, CHR 0x93, CHR 0x9D]"

definition package :: string where
  "package = [CHR 0xF0, CHR 0x9F, CHR 0x93, CHR 0xA6]"

definition arrowsButton :: string where
  "arrowsButton = [CHR 0xF0, CHR 0x9F, CHR 0x94, CHR 0x84]"

definition rightArrow :: string where
  "rightArrow = [CHR 0xE2, CHR 0x86, CHR 0x92]"

definition checkMark :: string where
  "checkMark = [CHR 0xE2, CHR 0x9C, CHR 0x85]"

definition wastebasket :: string where
  "wastebasket = [CHR 0xF0, CHR 0x9F, CHR 0x97, CHR 0x91, CHR 0xEF, CHR 0xB8, CHR 0x8F]"

definition sparkles :: string where
  "sparkles = [CHR 0xE2, CHR 0x9C, CHR 0xA8]"

definition rocket :: string where
  "rocket = [CHR 0xF0, CHR 0x9F, CHR 0x9A, CHR 0x80]"

definition roundPushpin :: string where
  "roundPushpin = [CHR 0xF0, CHR 0x9F, CHR 0x93, CHR 0x8D]"

definition newline :: string where
  "newline = [CHR 0x0A]"

text \<open>The plugin path as the scripts print it.\<close>

definition pathText :: "path \<Rightarrow> string" where
  "pathText p = (if p = [] then ''/'' else concat (map (\<lambda>seg. CHR ''/'' # seg) p))"

subsection \<open>\<^verbatim>\<open>cleanup-scaffolding.js\<close>: the frontend script\<close>

definition componentsDir :: "path \<Rightarrow> path" where
  "componentsDir pluginPath = pluginPath @ [''src'', ''components'']"

definition exampleComponentDir :: "path \<Rightarrow> path" where
  "exampleComponentDir pluginPath = componentsDir pluginPath @ [''ExampleComponent'']"

definition newComponentDir :: "path \<Rightarrow> string \<Rightarrow> path" where
  "newComponentDir pluginPath name = joinPath (componentsDir pluginPath) name"

definition exampleFetchDir :: "path \<Rightarrow> path" where
  "exampleFetchDir pluginPath = componentsDir pluginPath @ [''ExampleFetchComponent'']"

definition pluginFilePath :: "path \<Rightarrow> path" where
  "pluginFilePath pluginPath = pluginPath @ [''src'', ''plugin.ts'']"

definition devDir :: "path \<Rightarrow> path" where
  "devDir pluginPath = pluginPath @ [''dev'']"

definition pluginTestPath :: "path \<Rightarrow> path" where
  "pluginTestPath pluginPath = pluginPath @ [''src'', ''plugin.test.ts'']"

definition packageJsonPath :: "path \<Rightarrow> path" where
  "packageJsonPath pluginPath = pluginPath @ [''package.json'']"

text \<open>Step 1: remove \<^verbatim>\<open>ExampleFetchComponent\<close>.\<close>

definition removeExampleFetch :: "path \<Rightarrow> step" where
  "removeExampleFetch pluginPath =
     ifExists (exampleFetchDir pluginPath)
       (steps [consoleLog ''  - Removing ExampleFetchComponent/ (mock data junk)'',
               fsCall (rmSync (exampleFetchDir pluginPath))])"

text \<open>Step 3: the component file, in the directory already renamed.\<close>

definition componentFilePath :: "path \<Rightarrow> path" where
  "componentFilePath newDir = newDir @ [''ExampleComponent.tsx'']"

definition newComponentFilePath :: "path \<Rightarrow> string \<Rightarrow> path" where
  "newComponentFilePath newDir name = joinPath newDir (name @ ''.tsx'')"

definition updateComponentFile :: "path \<Rightarrow> string \<Rightarrow> step" where
  "updateComponentFile newDir name =
     ifExists (componentFilePath newDir)
       (withFile (componentFilePath newDir) (\<lambda>content.
          steps [fsCall (writeFileSync (newComponentFilePath newDir name)
                           (updateComponentContent name content)),
                 fsCall (unlinkSync (componentFilePath newDir)),
                 consoleLog (''    '' @ checkMark @ '' ExampleComponent.tsx '' @ rightArrow
                             @ '' '' @ name @ ''.tsx'')]))"

text \<open>Step 4: the test file.\<close>

definition testFilePath :: "path \<Rightarrow> path" where
  "testFilePath newDir = newDir @ [''ExampleComponent.test.tsx'']"

definition newTestFilePath :: "path \<Rightarrow> string \<Rightarrow> path" where
  "newTestFilePath newDir name = joinPath newDir (name @ ''.test.tsx'')"

definition updateTestFile :: "path \<Rightarrow> string \<Rightarrow> step" where
  "updateTestFile newDir name =
     ifExists (testFilePath newDir)
       (withFile (testFilePath newDir) (\<lambda>testContent.
          steps [fsCall (writeFileSync (newTestFilePath newDir name)
                           (updateReferences name testContent)),
                 fsCall (unlinkSync (testFilePath newDir)),
                 consoleLog (''    '' @ checkMark @ '' ExampleComponent.test.tsx '' @ rightArrow
                             @ '' '' @ name @ ''.test.tsx'')]))"

text \<open>Step 5: \<^verbatim>\<open>index.ts\<close>, rewritten in place.\<close>

definition indexPath :: "path \<Rightarrow> path" where
  "indexPath newDir = newDir @ [''index.ts'']"

definition updateIndexFile :: "path \<Rightarrow> string \<Rightarrow> step" where
  "updateIndexFile newDir name =
     ifExists (indexPath newDir)
       (withFile (indexPath newDir) (\<lambda>indexContent.
          steps [fsCall (writeFileSync (indexPath newDir) (updateReferences name indexContent)),
                 consoleLog (''    '' @ checkMark @ '' index.ts updated'')]))"

text \<open>Steps 2 to 5: the block guarded by \<^verbatim>\<open>fs.existsSync(exampleComponentDir)\<close>.\<close>

definition renameComponent :: "path \<Rightarrow> string \<Rightarrow> step" where
  "renameComponent pluginPath name =
     ifExists (exampleComponentDir pluginPath)
       (steps [consoleLog (''  - Renaming ExampleComponent/ '' @ rightArrow @ '' '' @ name @ ''/''),
               fsCall (renameSync (exampleComponentDir pluginPath)
                         (newComponentDir pluginPath name)),
               consoleLog ''  - Updating component file...'',
               updateComponentFile (newComponentDir pluginPath name) name,
               updateTestFile (newComponentDir pluginPath name) name,
               updateIndexFile (newComponentDir pluginPath name) name])"

text \<open>Step 6: \<^verbatim>\<open>src/plugin.ts\<close>.\<close>

definition updatePluginFile :: "path \<Rightarrow> string \<Rightarrow> step" where
  "updatePluginFile pluginPath name =
     ifExists (pluginFilePath pluginPath)
       (withFile (pluginFilePath pluginPath) (\<lambda>pluginContent.
          steps [fsCall (writeFileSync (pluginFilePath pluginPath)
                           (updatePluginContent name pluginContent)),
                 consoleLog (''  '' @ checkMark @ '' Updated imports to use '' @ name)]))"

text \<open>Step 7: \<^verbatim>\<open>dev/\<close> and \<^verbatim>\<open>src/plugin.test.ts\<close>.\<close>

definition removeDevDir :: "path \<Rightarrow> step" where
  "removeDevDir pluginPath =
     ifExists (devDir pluginPath)
       (steps [consoleLog ''  - Removing dev/'', fsCall (rmSync (devDir pluginPath))])"

definition removePluginTest :: "path \<Rightarrow> step" where
  "removePluginTest pluginPath =
     ifExists (pluginTestPath pluginPath)
       (steps [consoleLog ''  - Removing plugin.test.ts'',
               fsCall (unlinkSync (pluginTestPath pluginPath))])"

text \<open>
  The body of the \<^verbatim>\<open>try\<close> block.  The second of the next steps is printed from a text in
  single quotes, so its \<^verbatim>\<open>${componentName}\<close> is printed as it stands.
\<close>

definition cleanupFrontend :: "path \<Rightarrow> string \<Rightarrow> step" where
  "cleanupFrontend pluginPath name =
     steps [consoleLog (newline @ package @ '' Removing junk components...''),
            removeExampleFetch pluginPath,
            consoleLog (newline @ arrowsButton @ '' Renaming ExampleComponent to match plugin...''),
            renameComponent pluginPath name,
            consoleLog (newline @ wrench @ '' Updating plugin.ts...''),
            updatePluginFile pluginPath name,
            consoleLog (newline @ wastebasket @ ''  Removing other junk files...''),
            removeDevDir pluginPath,
            removePluginTest pluginPath,
            consoleLog (newline @ sparkles @ '' Cleanup complete!''),
            consoleLog (newline @ memo @ '' What changed:''),
            consoleLog ''  - Removed ExampleFetchComponent (300+ lines of mock data)'',
            consoleLog (''  - Renamed ExampleComponent '' @ rightArrow @ '' '' @ name),
            consoleLog ''  - Updated all imports and references'',
            consoleLog ''  - Removed dev/ and example tests'',
            consoleLog (newline @ rocket @ '' Next steps:''),
            consoleLog ''  1. Update src/plugin.ts to use the New Frontend System'',
            consoleLog ''  2. Customize the component in src/components/${componentName}/'',
            consoleLog ''  3. Follow the conversion steps in backstage-frontend-plugin/SKILL.md'']"

text \<open>
  The script: the exit code and the final state.  \<open>parse\<close> is \<^verbatim>\<open>JSON.parse\<close> (\<open>None\<close> when
  it throws a \<^verbatim>\<open>SyntaxError\<close>); \<open>arg\<close> is \<^verbatim>\<open>process.argv[2]\<close>, \<open>None\<close> when it is missing or
  empty.  An error thrown before the \<^verbatim>\<open>try\<close> block ends the process with code 1 as well:
  reading a directory as the manifest, a manifest that is no JSON text or is \<^verbatim>\<open>null\<close>, and
  \<^verbatim>\<open>toPascalCase\<close> of a plugin identifier that is no string (it has no \<^verbatim>\<open>split\<close>).
\<close>

definition afterBanner :: "path \<Rightarrow> string \<Rightarrow> state \<Rightarrow> state" where
  "afterBanner pluginPath banner s =
     s\<lparr>stdout := stdout s @ [broom @ banner, fileFolder @ '' Plugin path: '' @ pathText pluginPath]\<rparr>"

definition exitWith :: "error option \<times> state \<Rightarrow> nat \<times> state" where
  "exitWith r = (case r of (None, s) \<Rightarrow> (0, s) | (Some e, s) \<Rightarrow> (1, s))"

definition runFrontend :: "(string \<Rightarrow> json option) \<Rightarrow> path option \<Rightarrow> state \<Rightarrow> nat \<times> state" where
  "runFrontend parse arg s0 =
     (case arg of
        None \<Rightarrow> (1, s0)
      | Some pluginPath \<Rightarrow>
          let s = afterBanner pluginPath '' Cleaning up scaffolding junk from plugin...'' s0 in
          if \<not> existsSync (files s) pluginPath then (1, s)
          else if \<not> existsSync (files s) (packageJsonPath pluginPath) then (1, s)
          else (case readFileSync (files s) (packageJsonPath pluginPath) of
                  Inl e \<Rightarrow> (1, s)
                | Inr text \<Rightarrow>
                    (case parse text of
                       None \<Rightarrow> (1, s)
                     | Some packageJson \<Rightarrow>
                         (case pluginIdOf packageJson of
                            Inl e \<Rightarrow> (1, s)
                          | Inr pluginId \<Rightarrow>
                              if \<not> truthy pluginId then (1, s)
                              else (case pluginId of
                                      Some (JStr ident) \<Rightarrow>
                                        exitWith
                                          (steps [consoleLog (wrench @ '' Plugin ID: '' @ ident),
                                                  consoleLog (memo @ '' Component name: ''
                                                              @ componentName ident),
                                                  cleanupFrontend pluginPath (componentName ident)]
                                             s)
                                    | _ \<Rightarrow> (1, s))))))"

subsection \<open>\<^verbatim>\<open>cleanup-scaffolding-backend.js\<close>: the backend script\<close>

definition servicesDir :: "path \<Rightarrow> path" where
  "servicesDir pluginPath = pluginPath @ [''src'', ''services'']"

definition routerPath :: "path \<Rightarrow> path" where
  "routerPath pluginPath = pluginPath @ [''src'', ''router.ts'']"

definition routerTestPath :: "path \<Rightarrow> path" where
  "routerTestPath pluginPath = pluginPath @ [''src'', ''router.test.ts'']"

text \<open>Step 1: remove \<^verbatim>\<open>src/services\<close>.\<close>

definition removeServicesDir :: "path \<Rightarrow> step" where
  "removeServicesDir pluginPath =
     ifExists (servicesDir pluginPath)
       (steps [consoleLog ''  - Removing services/ (TodoListService with 150+ lines)'',
               fsCall (rmSync (servicesDir pluginPath))])"

text \<open>Step 2: \<^verbatim>\<open>src/router.ts\<close> is written, not read.\<close>

definition simplifyRouter :: "path \<Rightarrow> step" where
  "simplifyRouter pluginPath =
     ifExists (routerPath pluginPath)
       (steps [fsCall (writeFileSync (routerPath pluginPath) simpleRouter),
               consoleLog (''  '' @ checkMark @ '' Replaced with simple /health endpoint'')])"

text \<open>Step 3: \<^verbatim>\<open>src/plugin.ts\<close>.\<close>

definition updateBackendPluginFile :: "path \<Rightarrow> step" where
  "updateBackendPluginFile pluginPath =
     ifExists (pluginFilePath pluginPath)
       (withFile (pluginFilePath pluginPath) (\<lambda>pluginContent.
          steps [fsCall (writeFileSync (pluginFilePath pluginPath)
                           (updateBackendPluginContent pluginContent)),
                 consoleLog (''  '' @ checkMark @ '' Removed todoList service dependency'')]))"

text \<open>Step 4: the example tests (\<^verbatim>\<open>src/plugin.test.ts\<close> as in the frontend script).\<close>

definition removeRouterTest :: "path \<Rightarrow> step" where
  "removeRouterTest pluginPath =
     ifExists (routerTestPath pluginPath)
       (steps [consoleLog ''  - Removing router.test.ts'',
               fsCall (unlinkSync (routerTestPath pluginPath))])"

text \<open>The body of the \<^verbatim>\<open>try\<close> block; step 5 removes \<^verbatim>\<open>dev/\<close> as the frontend script does.\<close>

definition cleanupBackend :: "path \<Rightarrow> json \<Rightarrow> step" where
  "cleanupBackend pluginPath pluginId =
     steps [consoleLog (newline @ package @ '' Removing example services...''),
            removeServicesDir pluginPath,
            consoleLog (newline @ wrench @ '' Simplifying router.ts...''),
            simplifyRouter pluginPath,
            consoleLog (newline @ wrench @ '' Updating plugin.ts...''),
            updateBackendPluginFile pluginPath,
            consoleLog (newline @ wastebasket @ ''  Removing example tests...''),
            removePluginTest pluginPath,
            removeRouterTest pluginPath,
            removeDevDir pluginPath,
            consoleLog (newline @ sparkles @ '' Cleanup complete!''),
            consoleLog (newline @ memo @ '' What changed:''),
            consoleLog ''  - Removed services/TodoListService.ts (150+ lines of example code)'',
            consoleLog ''  - Simplified router.ts to just /health endpoint'',
            consoleLog ''  - Removed todoList service from plugin.ts'',
            consoleLog ''  - Removed example tests (plugin.test.ts, router.test.ts)'',
            consoleLog ''  - Removed dev/ directory'',
            consoleLog (newline @ rocket @ '' Next steps:''),
            consoleLog ''  1. Add your own routes in src/router.ts'',
            consoleLog ''  2. Create services if needed in src/services/'',
            consoleLog ''  3. Follow backstage-backend-plugin/SKILL.md for best practices'',
            templateLog (\<lambda>text. newline @ roundPushpin
                                 @ '' Test with: curl http://localhost:7007/api/''
                                 @ text @ ''/health'') pluginId]"

text \<open>
  The script.  The plugin identifier is only printed, so any value that \<^verbatim>\<open>!pluginId\<close> does
  not reject and that can be printed passes.  The first line with the identifier is
  printed before the \<^verbatim>\<open>try\<close> block: when its conversion throws, the process ends with code 1
  as it does for an error in the block, and nothing has been changed.
\<close>

definition runBackend :: "(string \<Rightarrow> json option) \<Rightarrow> path option \<Rightarrow> state \<Rightarrow> nat \<times> state" where
  "runBackend parse arg s0 =
     (case arg of
        None \<Rightarrow> (1, s0)
      | Some pluginPath \<Rightarrow>
          let s = afterBanner pluginPath '' Cleaning up backend scaffolding junk...'' s0 in
          if \<not> existsSync (files s) pluginPath then (1, s)
          else if \<not> existsSync (files s) (packageJsonPath pluginPath) then (1, s)
          else (case readFileSync (files s) (packageJsonPath pluginPath) of
                  Inl e \<Rightarrow> (1, s)
                | Inr text \<Rightarrow>
                    (case parse text of
                       None \<Rightarrow> (1, s)
                     | Some packageJson \<Rightarrow>
                         (case pluginIdOf packageJson of
                            Inl e \<Rightarrow> (1, s)
                          | Inr pluginId \<Rightarrow>
                              if \<not> truthy pluginId then (1, s)
                              else (case pluginId of
                                      None \<Rightarrow> (1, s)
                                    | Some ident \<Rightarrow>
                                        exitWith
                                          (steps [templateLog
                                                    (\<lambda>text. wrench @ '' Plugin ID: '' @ text)
                                                    ident,
                                                  cleanupBackend pluginPath ident]
                                             s))))))"

subsection \<open>The removal blocks of each script, taken alone\<close>

text \<open>
  The statements of each script that remove its fixed targets, in the order of the script
  and without the statements between them.
\<close>

definition removerFrontend :: "path \<Rightarrow> step" where
  "removerFrontend pluginPath =
     steps [removeExampleFetch pluginPath, removeDevDir pluginPath, removePluginTest pluginPath]"

definition removerBackend :: "path \<Rightarrow> step" where
  "removerBackend pluginPath =
     steps [removeServicesDir pluginPath, removePluginTest pluginPath,
            removeRouterTest pluginPath, removeDevDir pluginPath]"

subsection \<open>Assertions used in the proofs\<close>

text \<open>The last segment of a path ends with the given text.\<close>

definition endsWith :: "string \<Rightarrow> path \<Rightarrow> bool" where
  "endsWith u p = (p \<noteq> [] \<and> suffix u (last p))"

text \<open>The text is ASCII: every byte is a character of its own, below 128.\<close>

definition ascii :: "string \<Rightarrow> bool" where
  "ascii s = list_all (\<lambda>c. \<not> digit7 c) s"

text \<open>
  A block started in a state that satisfies \<open>P\<close> ends in a state that satisfies \<open>Q\<close>
  when it completes and \<open>E\<close> when it throws.
\<close>

definition holds :: "(state \<Rightarrow> bool) \<Rightarrow> step \<Rightarrow> (state \<Rightarrow> bool) \<Rightarrow> (state \<Rightarrow> bool) \<Rightarrow> bool" where
  "holds P f Q E = (\<forall>s. P s \<longrightarrow> (case f s of (None, s') \<Rightarrow> Q s' | (Some e, s') \<Rightarrow> E s'))"

text \<open>An assertion that every statement of a block keeps, whether it completes or throws.\<close>

definition invariant :: "(state \<Rightarrow> bool) \<Rightarrow> step \<Rightarrow> bool" where
  "invariant I f = holds I f I I"

text \<open>
  The manifest has the given node, the plugin directory is a directory, and the manifest
  had that node after every change made so far.
\<close>

definition manifestKept :: "path \<Rightarrow> node option \<Rightarrow> state \<Rightarrow> bool" where
  "manifestKept root m s =
     (lookup (files s) (packageJsonPath root) = m
      \<and> lookup (files s) root = Some Dir
      \<and> list_all (\<lambda>f. lookup f (packageJsonPath root) = m) (history s))"

text \<open>The given path has the given node, or none.\<close>

definition nodeIs :: "path \<Rightarrow> node option \<Rightarrow> state \<Rightarrow> bool" where
  "nodeIs q v s = (lookup (files s) q = v)"

text \<open>
  Write before delete.  Between two consecutive file systems \<open>a\<close> and \<open>b\<close>: if the file
  \<open>old\<close> with content \<open>c\<close> is gone in \<open>b\<close>, then \<open>new\<close> holds the rewritten content \<open>f c\<close>
  already in \<open>a\<close>, and still in \<open>b\<close>.  A list of file systems satisfies it when each step
  from one to the next does.
\<close>

definition removalOK :: "path \<Rightarrow> path \<Rightarrow> (string \<Rightarrow> string) \<Rightarrow> filesystem \<Rightarrow> filesystem \<Rightarrow> bool" where
  "removalOK old new f a b =
     (case lookup a old of
        Some (File c) \<Rightarrow>
          (if lookup b old = None
           then lookup a new = Some (File (f c)) \<and> lookup b new = Some (File (f c))
           else True)
      | _ \<Rightarrow> True)"

fun writtenBeforeRemoved :: "path \<Rightarrow> path \<Rightarrow> (string \<Rightarrow> string) \<Rightarrow> filesystem list \<Rightarrow> bool" where
  "writtenBeforeRemoved old new f (a # b # rest) =
     (removalOK old new f a b \<and> writtenBeforeRemoved old new f (b # rest))"
| "writtenBeforeRemoved old new f rest = True"

text \<open>
  The changes made since the file system \<open>fs0\<close> (when the history had \<open>n0\<close> entries)
  satisfy it, and the last of them is the current file system.
\<close>

definition tracked ::
  "path \<Rightarrow> path \<Rightarrow> (string \<Rightarrow> string) \<Rightarrow> filesystem \<Rightarrow> nat \<Rightarrow> state \<Rightarrow> bool" where
  "tracked old new f fs0 n0 s =
     (writtenBeforeRemoved old new f (fs0 # drop n0 (history s))
      \<and> last (fs0 # drop n0 (history s)) = files s
      \<and> n0 \<le> length (history s))"


text \<open>
  What a block does to the file system alone: its outcome and the file system it leaves,
  started without output and history.  A block is \<open>regular\<close> when this is what it does to
  the file system of every state, whatever has been printed and recorded before.
\<close>

definition onFiles :: "step \<Rightarrow> filesystem \<Rightarrow> error option \<times> filesystem" where
  "onFiles f fs = (case f \<lparr>files = fs, stdout = [], history = []\<rparr> of (r, s') \<Rightarrow> (r, files s'))"

definition regular :: "step \<Rightarrow> bool" where
  "regular f = (\<forall>s. (case f s of (r, s') \<Rightarrow> (r, files s')) = onFiles f (files s))"

text \<open>The file system with the file at the path, if it is one, rewritten by \<open>f\<close>.\<close>

definition rewritten :: "path \<Rightarrow> (string \<Rightarrow> string) \<Rightarrow> filesystem \<Rightarrow> filesystem" where
  "rewritten p f fs =
     (case lookup fs p of
        Some (File c) \<Rightarrow> AList.update p (File (f c)) fs
      | _ \<Rightarrow> fs)"

subsection \<open>Example packages\<close>

text \<open>
  The manifests of the examples and what \<^verbatim>\<open>JSON.parse\<close> returns for them; on other texts
  this stand-in throws.
\<close>

definition manifestMyService :: string where
  \<open>manifestMyService = ''{"backstage":{"pluginId":"my-service"}}''\<close>

definition manifestExampleComponent :: string where
  \<open>manifestExampleComponent = ''{"backstage":{"pluginId":"example-component"}}''\<close>

definition manifestNoIdentifier :: string where
  \<open>manifestNoIdentifier = ''{"name":"my-service"}''\<close>

definition manifestEmptyIdentifier :: string where
  \<open>manifestEmptyIdentifier = ''{"backstage":{"pluginId":""}}''\<close>

definition parseExample :: "string \<Rightarrow> json option" where
  "parseExample text =
     (if text = manifestMyService
      then Some (JObj [(''backstage'', JObj [(''pluginId'', JStr ''my-service'')])])
      else if text = manifestExampleComponent
      then Some (JObj [(''backstage'', JObj [(''pluginId'', JStr ''example-component'')])])
      else if text = manifestNoIdentifier
      then Some (JObj [(''name'', JStr ''my-service'')])
      else if text = manifestEmptyIdentifier
      then Some (JObj [(''backstage'', JObj [(''pluginId'', JStr [])])])
      else None)"

definition startState :: "filesystem \<Rightarrow> state" where
  "startState fs = \<lparr>files = fs, stdout = [], history = []\<rparr>"

text \<open>A plugin directory \<^verbatim>\<open>/plugins/demo\<close> with a source file and the given manifest, if any.\<close>

definition demoPath :: path where
  "demoPath = [''plugins'', ''demo'']"

definition bareTree :: filesystem where
  "bareTree =
     [([''plugins''], Dir),
      ([''plugins'', ''demo''], Dir),
      ([''plugins'', ''demo'', ''src''], Dir),
      ([''plugins'', ''demo'', ''src'', ''index.ts''], File ''export {};'')]"

definition withManifest :: "string \<Rightarrow> filesystem \<Rightarrow> filesystem" where
  "withManifest text fs = fs @ [([''plugins'', ''demo'', ''package.json''], File text)]"

text \<open>A frontend plugin as the generator leaves it, with the given manifest and sources.\<close>

definition componentSource :: string where
  "componentSource = ''export const ExampleComponent = () => null;''"


definition testSource :: string where
  \<open>testSource = ''import { ExampleComponent } from './ExampleComponent';''\<close>

definition indexSource :: string where
  \<open>indexSource = ''export { ExampleComponent } from './ExampleComponent';''\<close>

definition pluginSource :: string where
  \<open>pluginSource = ''import('./components/ExampleComponent').then(m => m.ExampleComponent)''\<close>

definition frontendTree :: "string \<Rightarrow> string \<Rightarrow> string \<Rightarrow> filesystem" where
  "frontendTree manifest component plugin =
     [([''plugins''], Dir),
      ([''plugins'', ''demo''], Dir),
      ([''plugins'', ''demo'', ''package.json''], File manifest),
      ([''plugins'', ''demo'', ''src''], Dir),
      ([''plugins'', ''demo'', ''src'', ''plugin.ts''], File plugin),
      ([''plugins'', ''demo'', ''src'', ''plugin.test.ts''], File ''test''),
      ([''plugins'', ''demo'', ''src'', ''components''], Dir),
      ([''plugins'', ''demo'', ''src'', ''components'', ''ExampleComponent''], Dir),
      ([''plugins'', ''demo'', ''src'', ''components'', ''ExampleComponent'',
        ''ExampleComponent.tsx''], File component),
      ([''plugins'', ''demo'', ''src'', ''components'', ''ExampleComponent'',
        ''ExampleComponent.test.tsx''], File testSource),
      ([''plugins'', ''demo'', ''src'', ''components'', ''ExampleComponent'', ''index.ts''],
       File indexSource),
      ([''plugins'', ''demo'', ''src'', ''components'', ''ExampleFetchComponent''], Dir),
      ([''plugins'', ''demo'', ''src'', ''components'', ''ExampleFetchComponent'',
        ''ExampleFetchComponent.tsx''], File ''fetch''),
      ([''plugins'', ''demo'', ''dev''], Dir),
      ([''plugins'', ''demo'', ''dev'', ''index.tsx''], File ''dev'')]"

text \<open>
  A frontend plugin as the script leaves it, with the given component name and the given
  texts of the manifest and the sources.
\<close>

definition cleanedFrontendTree ::
  "string \<Rightarrow> string \<Rightarrow> string \<Rightarrow> string \<Rightarrow> string \<Rightarrow> string \<Rightarrow> filesystem" where
  "cleanedFrontendTree name manifest component test index plugin =
     [([''plugins''], Dir),
      ([''plugins'', ''demo''], Dir),
      ([''plugins'', ''demo'', ''package.json''], File manifest),
      ([''plugins'', ''demo'', ''src''], Dir),
      ([''plugins'', ''demo'', ''src'', ''plugin.ts''], File plugin),
      ([''plugins'', ''demo'', ''src'', ''components''], Dir),
      ([''plugins'', ''demo'', ''src'', ''components'', name], Dir),
      ([''plugins'', ''demo'', ''src'', ''components'', name, ''index.ts''], File index),
      ([''plugins'', ''demo'', ''src'', ''components'', name, name @ ''.tsx''], File component),
      ([''plugins'', ''demo'', ''src'', ''components'', name, name @ ''.test.tsx''], File test)]"

text \<open>A backend plugin as the generator leaves it.\<close>

definition backendTree :: "string \<Rightarrow> string \<Rightarrow> string \<Rightarrow> filesystem" where
  "backendTree manifest router plugin =
     [([''plugins''], Dir),
      ([''plugins'', ''demo''], Dir),
      ([''plugins'', ''demo'', ''package.json''], File manifest),
      ([''plugins'', ''demo'', ''src''], Dir),
      ([''plugins'', ''demo'', ''src'', ''plugin.ts''], File plugin),
      ([''plugins'', ''demo'', ''src'', ''plugin.test.ts''], File ''test''),
      ([''plugins'', ''demo'', ''src'', ''router.ts''], File router),
      ([''plugins'', ''demo'', ''src'', ''router.test.ts''], File ''test''),
      ([''plugins'', ''demo'', ''src'', ''services''], Dir),
      ([''plugins'', ''demo'', ''src'', ''services'', ''TodoListService''], Dir),
      ([''plugins'', ''demo'', ''src'', ''services'', ''TodoListService'', ''index.ts''],
       File ''todo''),
      ([''plugins'', ''demo'', ''dev''], Dir),
      ([''plugins'', ''demo'', ''dev'', ''index.ts''], File ''dev'')]"

text \<open>
  A backend plugin as the script leaves it, and a \<^verbatim>\<open>plugin.ts\<close> of a backend plugin that uses
  the service of the example.
\<close>

definition cleanedBackendTree :: "string \<Rightarrow> string \<Rightarrow> filesystem" where
  "cleanedBackendTree manifest plugin =
     [([''plugins''], Dir),
      ([''plugins'', ''demo''], Dir),
      ([''plugins'', ''demo'', ''package.json''], File manifest),
      ([''plugins'', ''demo'', ''src''], Dir),
      ([''plugins'', ''demo'', ''src'', ''plugin.ts''], File plugin),
      ([''plugins'', ''demo'', ''src'', ''router.ts''], File simpleRouter)]"

definition backendPluginSource :: string where
  "backendPluginSource = ''const router = await createRouter({ httpAuth, todoList });''"

text \<open>
  The frontend plugin without the main component file and without the test file, and the
  one without the main component file and without \<^verbatim>\<open>index.ts\<close>.
\<close>

definition withoutFiles :: "path list \<Rightarrow> filesystem \<Rightarrow> filesystem" where
  "withoutFiles ps fs = filter (\<lambda>(q, n). q \<notin> set ps) fs"

definition treeWithIndexOnly :: filesystem where
  "treeWithIndexOnly =
     withoutFiles [exampleComponentDir demoPath @ [''ExampleComponent.tsx''],
                   exampleComponentDir demoPath @ [''ExampleComponent.test.tsx'']]
       (frontendTree manifestMyService componentSource pluginSource)"

definition treeWithTestOnly :: filesystem where
  "treeWithTestOnly =
     withoutFiles [exampleComponentDir demoPath @ [''ExampleComponent.tsx''],
                   exampleComponentDir demoPath @ [''index.ts'']]
       (frontendTree manifestMyService componentSource pluginSource)"

section \<open>Properties\<close>

subsection \<open>Splitting texts\<close>

lemma splitOn_no_sep: "sep \<notin> set w \<Longrightarrow> splitOn sep w = [w]"
  by (induction w) auto

lemma splitOn_append_sep:
  "sep \<notin> set w \<Longrightarrow> splitOn sep (w @ sep # rest) = w # splitOn sep rest"
  by (induction w) auto

lemma splitOn_joinWith:
  "list_all (\<lambda>w. sep \<notin> set w) ws \<Longrightarrow> ws \<noteq> [] \<Longrightarrow> splitOn sep (joinWith [sep] ws) = ws"
proof (induction ws)
  case Nil
  then show ?case by simp
next
  case (Cons x xs)
  show ?case
  proof (cases xs)
    case Nil
    with Cons.prems show ?thesis by (simp add: splitOn_no_sep)
  next
    case (Cons y ys)
    with Cons.IH Cons.prems have "splitOn sep (joinWith [sep] (y # ys)) = y # ys"
      by simp
    with Cons Cons.prems show ?thesis by (simp add: splitOn_append_sep)
  qed
qed

subsection \<open>The file-system calls, path by path\<close>

lemma map_of_filter_key:
  "map_of (filter (\<lambda>(k, v). P k) al) k = (if P k then map_of al k else None)"
  by (induction al) auto

lemma map_of_rekey_moved:
  assumes "\<forall>k \<in> fst ` set al. (f k = q) = (k = k0)"
  shows "map_of (map (\<lambda>(k, v). (f k, v)) al) q = map_of al k0"
  using assms
proof (induction al)
  case Nil
  then show ?case by simp
next
  case (Cons a al)
  obtain k v where a: "a = (k, v)" by (cases a)
  from Cons.prems a have hd: "(f k = q) = (k = k0)" by simp
  from Cons.prems have "\<forall>k \<in> fst ` set al. (f k = q) = (k = k0)" by simp
  with Cons.IH have "map_of (map (\<lambda>(k, v). (f k, v)) al) q = map_of al k0" by simp
  with hd a show ?case by auto
qed

lemma map_of_rekey_none:
  assumes "\<forall>k \<in> fst ` set al. f k \<noteq> q"
  shows "map_of (map (\<lambda>(k, v). (f k, v)) al) q = None"
  using assms by (induction al) auto

lemma lookup_rmSync:
  "rmSync p fs = Inr fs' \<Longrightarrow>
   lookup fs' q = (if q \<noteq> [] \<and> prefix p q then None else lookup fs q)"
  by (auto simp: rmSync_def lookup_def map_of_filter_key)

lemma lookup_unlinkSync:
  "unlinkSync p fs = Inr fs' \<Longrightarrow> lookup fs' q = (if q = p then None else lookup fs q)"
  by (auto simp: unlinkSync_def lookup_def map_of_filter_key
      split: if_splits option.splits node.splits)

lemma lookup_writeFileSync:
  "writeFileSync p c fs = Inr fs' \<Longrightarrow>
   lookup fs' q = (if q = p then Some (File c) else lookup fs q)"
  by (auto simp: writeFileSync_def lookup_def update_conv'
      split: if_splits option.splits node.splits)

lemma writeFileSync_parent:
  "writeFileSync p c fs = Inr fs' \<Longrightarrow>
   lookup fs p \<noteq> Some Dir \<and> (lookup fs p = None \<longrightarrow> lookup fs (butlast p) = Some Dir)"
  by (auto simp: writeFileSync_def split: if_splits option.splits node.splits)

lemma lookup_renameSync_other:
  assumes "renameSync old new fs = Inr fs'" "\<not> prefix old q" "\<not> prefix new q"
  shows "lookup fs' q = lookup fs q"
proof (cases "old = new")
  case True
  with assms show ?thesis
    by (auto simp: renameSync_def split: if_splits option.splits node.splits)
next
  case False
  with assms have fs': "fs' = moveTree old new fs"
    by (auto simp: renameSync_def split: if_splits option.splits node.splits)
  have "q \<noteq> new" using assms(3) by auto
  have "map_of (map (\<lambda>(k, v). (movePath old new k, v)) (filter (\<lambda>(k, n). k \<noteq> new) fs)) q
          = map_of (filter (\<lambda>(k, n). k \<noteq> new) fs) q"
    using assms(2,3) by (intro map_of_rekey_moved) (auto simp: movePath_def)
  also have "\<dots> = map_of fs q"
    using \<open>q \<noteq> new\<close> by (simp add: map_of_filter_key)
  finally show ?thesis by (simp add: fs' moveTree_def lookup_def)
qed

subsection \<open>Well-formed trees\<close>

lemma wellFormed_entry:
  "wellFormed fs \<Longrightarrow> (q, n) \<in> set fs \<Longrightarrow> q \<noteq> [] \<and> lookup fs (butlast q) = Some Dir"
  by (auto simp: wellFormed_def list_all_iff)

lemma lookup_in_set: "q \<noteq> [] \<Longrightarrow> lookup fs q = Some n \<Longrightarrow> (q, n) \<in> set fs"
  by (simp add: lookup_def map_of_SomeD)

lemma wellFormed_parent:
  "wellFormed fs \<Longrightarrow> lookup fs q \<noteq> None \<Longrightarrow> lookup fs (butlast q) = Some Dir"
  by (cases "q = []") (auto simp: lookup_def dest: wellFormed_entry map_of_SomeD)

lemma wellFormed_ancestor:
  "wellFormed fs \<Longrightarrow> lookup fs (p @ r) \<noteq> None \<Longrightarrow> r \<noteq> [] \<Longrightarrow> lookup fs p = Some Dir"
proof (induction r rule: rev_induct)
  case Nil
  then show ?case by simp
next
  case (snoc x r)
  from snoc.prems(1,2) have par: "lookup fs (p @ r) = Some Dir"
    using wellFormed_parent [of fs "p @ r @ [x]"] by (simp add: butlast_append)
  show ?case
  proof (cases "r = []")
    case True
    with par show ?thesis by simp
  next
    case False
    with snoc.IH snoc.prems(1) par show ?thesis by simp
  qed
qed

lemma wellFormed_strict_prefix:
  "wellFormed fs \<Longrightarrow> lookup fs q \<noteq> None \<Longrightarrow> strict_prefix p q \<Longrightarrow> lookup fs p = Some Dir"
  by (auto simp: strict_prefix_def prefix_def dest: wellFormed_ancestor)

lemma hasEntries_iff: "hasEntries fs p \<longleftrightarrow> (\<exists>q n. (q, n) \<in> set fs \<and> strict_prefix p q)"
  by (auto simp: hasEntries_def list_ex_iff)

lemma wellFormed_rmSync:
  assumes "wellFormed fs" "rmSync p fs = Inr fs'"
  shows "wellFormed fs'"
proof -
  have fs': "fs' = filter (\<lambda>(q, n). \<not> prefix p q) fs"
    using assms(2) by (simp add: rmSync_def)
  have d: "distinct (map fst fs')"
    using assms(1) by (simp add: fs' wellFormed_def distinct_map_filter)
  have "q \<noteq> [] \<and> lookup fs' (butlast q) = Some Dir" if "(q, n) \<in> set fs'" for q n
  proof -
    from that have in_fs: "(q, n) \<in> set fs" and np: "\<not> prefix p q"
      by (auto simp: fs')
    from wellFormed_entry [OF assms(1) in_fs]
    have ne: "q \<noteq> []" and par: "lookup fs (butlast q) = Some Dir" by auto
    have "\<not> prefix p (butlast q)"
      using np by (meson prefix_order.trans prefixeq_butlast)
    with par assms(2) have "lookup fs' (butlast q) = Some Dir"
      by (simp add: lookup_rmSync)
    with ne show ?thesis by simp
  qed
  with d show ?thesis
    by (auto simp: wellFormed_def list_all_iff)
qed


subsection \<open>Renaming in a well-formed tree\<close>

lemma renameSync_success:
  assumes "renameSync old new fs = Inr fs'" "old \<noteq> new"
  shows "fs' = moveTree old new fs" "old \<noteq> []" "new \<noteq> []" "lookup fs old \<noteq> None"
    "lookup fs (butlast new) = Some Dir"
    "lookup fs new = Some Dir \<longrightarrow> \<not> hasEntries fs new"
    "lookup fs old = Some Dir \<longrightarrow> \<not> strict_prefix old new"
  using assms
  by (auto simp: renameSync_def split: if_splits option.splits node.splits)

lemma renameSync_not_nested:
  assumes wf: "wellFormed fs" and ok: "renameSync old new fs = Inr fs'" and ne: "old \<noteq> new"
  shows "\<not> prefix new old" "\<not> prefix old new"
proof -
  note s = renameSync_success [OF ok ne]
  from s(4) obtain n where n: "lookup fs old = Some n" by auto
  with s(2) have mem: "(old, n) \<in> set fs" by (simp add: lookup_in_set)
  show "\<not> prefix new old"
  proof
    assume "prefix new old"
    with ne have sp: "strict_prefix new old" by (simp add: strict_prefix_def)
    with mem have "hasEntries fs new" by (auto simp: hasEntries_iff)
    moreover from wf s(4) sp have "lookup fs new = Some Dir"
      by (rule wellFormed_strict_prefix)
    ultimately show False using s(6) by simp
  qed
  show "\<not> prefix old new"
  proof
    assume "prefix old new"
    with ne have sp: "strict_prefix old new" by (simp add: strict_prefix_def)
    then obtain r where new: "new = old @ r" and r: "r \<noteq> []"
      by (auto simp: strict_prefix_def prefix_def)
    from new r have bl: "butlast new = old @ butlast r" by (simp add: butlast_append)
    have "lookup fs old = Some Dir"
    proof (cases "butlast r = []")
      case True
      with bl s(5) show ?thesis by simp
    next
      case False
      from s(5) bl have "lookup fs (old @ butlast r) \<noteq> None" by simp
      with wf show ?thesis using False by (rule wellFormed_ancestor)
    qed
    with s(7) sp show False by simp
  qed
qed

lemma lookup_renameSync_old:
  assumes wf: "wellFormed fs" and ok: "renameSync old new fs = Inr fs'" and ne: "old \<noteq> new"
  shows "lookup fs' old = None"
proof -
  note s = renameSync_success [OF ok ne]
  note nn = renameSync_not_nested [OF wf ok ne]
  have "movePath old new k \<noteq> old" for k
  proof (cases "prefix old k")
    case True
    have "prefix new (new @ drop (length old) k)" by simp
    with nn(1) have "new @ drop (length old) k \<noteq> old" by metis
    with True show ?thesis by (simp add: movePath_def)
  next
    case False
    then show ?thesis by (auto simp: movePath_def)
  qed
  then have "\<forall>k \<in> fst ` set (filter (\<lambda>(k, n). k \<noteq> new) fs). movePath old new k \<noteq> old"
    by blast
  then have "map_of (map (\<lambda>(k, v). (movePath old new k, v)) (filter (\<lambda>(k, n). k \<noteq> new) fs)) old
               = None"
    by (rule map_of_rekey_none)
  with s(1,2) show ?thesis by (simp add: moveTree_def lookup_def)
qed

lemma lookup_renameSync_moved:
  assumes wf: "wellFormed fs" and ok: "renameSync old new fs = Inr fs'" and ne: "old \<noteq> new"
  shows "lookup fs' (new @ r) = lookup fs (old @ r)"
proof -
  note s = renameSync_success [OF ok ne]
  note nn = renameSync_not_nested [OF wf ok ne]
  let ?al = "filter (\<lambda>(k, n). k \<noteq> new) fs"
  have "(movePath old new k = new @ r) = (k = old @ r)" if k: "k \<in> fst ` set ?al" for k
  proof (cases "prefix old k")
    case True
    then show ?thesis by (auto simp: movePath_def prefix_def)
  next
    case False
    have "k \<noteq> new @ r"
    proof
      assume eq: "k = new @ r"
      from k obtain n where mem: "(k, n) \<in> set fs" and kn: "k \<noteq> new" by auto
      with eq have sp: "strict_prefix new k" by (auto simp: strict_prefix_def)
      with mem have he: "hasEntries fs new" by (auto simp: hasEntries_iff)
      from mem have "map_of fs k \<noteq> None"
        by (metis weak_map_of_SomeI option.distinct(1))
      with eq s(3) have "lookup fs k \<noteq> None" by (simp add: lookup_def)
      with wf sp have "lookup fs new = Some Dir" by (auto intro: wellFormed_strict_prefix)
      with he s(6) show False by simp
    qed
    with False show ?thesis by (auto simp: movePath_def)
  qed
  then have "map_of (map (\<lambda>(k, v). (movePath old new k, v)) ?al) (new @ r) = map_of ?al (old @ r)"
    by (intro map_of_rekey_moved) blast
  also have "\<dots> = map_of fs (old @ r)"
    using nn(2) by (auto simp: map_of_filter_key)
  finally show ?thesis using s(1,2,3) by (simp add: moveTree_def lookup_def)
qed

subsection \<open>Paths built by \<open>joinPath\<close>\<close>

lemma splitOn_not_Nil: "splitOn sep t \<noteq> []"
  by (induction t) (auto split: list.splits)

lemma splitOn_append_no_sep:
  "sep \<notin> set u \<Longrightarrow>
   splitOn sep (t @ u) = butlast (splitOn sep t) @ [last (splitOn sep t) @ u]"
proof (induction t)
  case Nil
  then show ?case by (simp add: splitOn_no_sep)
next
  case (Cons x t)
  then show ?case
    using splitOn_not_Nil [of sep t] splitOn_not_Nil [of sep "t @ u"]
    by (cases "splitOn sep t"; cases "butlast (splitOn sep t)") (auto split: list.splits)
qed

lemma joinPath_endsWith:
  assumes "CHR ''/'' \<notin> set u" "3 \<le> length u"
  shows "endsWith u (joinPath base (t @ u))"
proof -
  let ?S = "splitOn (CHR ''/'') t"
  have ne: "last ?S @ u \<noteq> []" "last ?S @ u \<noteq> ''.''" "last ?S @ u \<noteq> ''..''"
    using assms(2) by (auto dest: arg_cong [where f = length])
  have "joinPath base (t @ u) = foldl joinSegment base (butlast ?S) @ [last ?S @ u]"
    using ne by (simp add: joinPath_def splitOn_append_no_sep [OF assms(1)] joinSegment_def)
  then show ?thesis by (simp add: endsWith_def suffix_def)
qed

lemma endsWith_neq: "endsWith u p \<Longrightarrow> \<not> suffix u seg \<Longrightarrow> p \<noteq> q @ [seg]"
  by (auto simp: endsWith_def)

lemma endsWith_snoc: "endsWith u (q @ [seg]) = suffix u seg"
  by (simp add: endsWith_def)

lemma prefix_snoc2: "prefix p (r @ [a, b]) \<longleftrightarrow> p = r @ [a, b] \<or> p = r @ [a] \<or> prefix p r"
  using prefix_snoc [of p "r @ [a]" b] prefix_snoc [of p r a] by auto

lemma prefix_snoc3:
  "prefix p (r @ [a, b, c]) \<longleftrightarrow> p = r @ [a, b, c] \<or> p = r @ [a, b] \<or> p = r @ [a] \<or> prefix p r"
  using prefix_snoc [of p "r @ [a, b]" c] prefix_snoc2 [of p r a b] by auto

subsection \<open>Rules for blocks of statements\<close>

lemma holdsD:
  "holds P f Q E \<Longrightarrow> P s \<Longrightarrow> f s = (r, s') \<Longrightarrow> (r = None \<longrightarrow> Q s') \<and> (r \<noteq> None \<longrightarrow> E s')"
  by (auto simp: holds_def split: option.splits)

lemma holds_weaken:
  "holds P f Q E \<Longrightarrow> (\<And>s. P' s \<Longrightarrow> P s) \<Longrightarrow> (\<And>s. Q s \<Longrightarrow> Q' s) \<Longrightarrow> (\<And>s. E s \<Longrightarrow> E' s) \<Longrightarrow>
   holds P' f Q' E'"
  by (fastforce simp: holds_def split: option.splits prod.splits)

lemma holds_consoleLog:
  "(\<And>s. P s \<Longrightarrow> Q (s\<lparr>stdout := stdout s @ [l]\<rparr>)) \<Longrightarrow> holds P (consoleLog l) Q E"
  by (simp add: holds_def consoleLog_def)

lemma holds_templateLog:
  "(\<And>s l. P s \<Longrightarrow> Q (s\<lparr>stdout := stdout s @ [l]\<rparr>)) \<Longrightarrow> (\<And>s. P s \<Longrightarrow> E s) \<Longrightarrow>
   holds P (templateLog line v) Q E"
  by (simp add: holds_def templateLog_def consoleLog_def split: sum.splits)

lemma holds_fsCall:
  "(\<And>s fs'. P s \<Longrightarrow> g (files s) = Inr fs' \<Longrightarrow>
      Q (s\<lparr>files := fs', history := history s @ [fs']\<rparr>)) \<Longrightarrow>
   (\<And>s e. P s \<Longrightarrow> g (files s) = Inl e \<Longrightarrow> E s) \<Longrightarrow>
   holds P (fsCall g) Q E"
  by (auto simp: holds_def fsCall_def split: sum.splits)

lemma holds_steps_Nil: "(\<And>s. P s \<Longrightarrow> Q s) \<Longrightarrow> holds P (steps []) Q E"
  by (simp add: holds_def)

lemma holds_steps_Cons:
  "holds P f R E \<Longrightarrow> holds R (steps fs) Q E \<Longrightarrow> holds P (steps (f # fs)) Q E"
  by (fastforce simp: holds_def split: option.splits prod.splits)

lemma holds_ifExists:
  "holds (\<lambda>s. P s \<and> existsSync (files s) p) body Q E \<Longrightarrow>
   (\<And>s. P s \<Longrightarrow> \<not> existsSync (files s) p \<Longrightarrow> Q s) \<Longrightarrow>
   holds P (ifExists p body) Q E"
  by (auto simp: holds_def ifExists_def)

lemma holds_withFile:
  "(\<And>c. holds (\<lambda>s. P s \<and> readFileSync (files s) p = Inr c) (body c) Q E) \<Longrightarrow>
   (\<And>s e. P s \<Longrightarrow> readFileSync (files s) p = Inl e \<Longrightarrow> E s) \<Longrightarrow>
   holds P (withFile p body) Q E"
  by (auto simp: holds_def withFile_def split: sum.splits)

lemma invariant_consoleLog:
  "(\<And>s. I s \<Longrightarrow> I (s\<lparr>stdout := stdout s @ [l]\<rparr>)) \<Longrightarrow> invariant I (consoleLog l)"
  by (simp add: invariant_def holds_consoleLog)

lemma invariant_templateLog:
  "(\<And>s l. I s \<Longrightarrow> I (s\<lparr>stdout := stdout s @ [l]\<rparr>)) \<Longrightarrow> invariant I (templateLog line v)"
  by (simp add: invariant_def holds_templateLog)

lemma invariant_fsCall:
  "(\<And>s fs'. I s \<Longrightarrow> g (files s) = Inr fs' \<Longrightarrow>
      I (s\<lparr>files := fs', history := history s @ [fs']\<rparr>)) \<Longrightarrow>
   invariant I (fsCall g)"
  by (simp add: invariant_def holds_fsCall)

lemma invariant_steps: "list_all (invariant I) fs \<Longrightarrow> invariant I (steps fs)"
  unfolding invariant_def
  by (induction fs) (auto intro: holds_steps_Nil holds_steps_Cons)

lemma invariant_ifExists: "invariant I body \<Longrightarrow> invariant I (ifExists p body)"
  by (auto simp: invariant_def holds_def ifExists_def)

lemma invariant_withFile: "(\<And>c. invariant I (body c)) \<Longrightarrow> invariant I (withFile p body)"
  by (auto simp: invariant_def holds_def withFile_def split: sum.splits)

lemma invariantD: "invariant I f \<Longrightarrow> I s \<Longrightarrow> I (snd (f s))"
  by (cases "f s") (auto simp: invariant_def dest: holdsD)

subsection \<open>Unfolding the examples\<close>

lemmas example_defs =
  manifestMyService_def manifestExampleComponent_def manifestNoIdentifier_def
  manifestEmptyIdentifier_def parseExample_def startState_def demoPath_def bareTree_def
  withManifest_def componentSource_def testSource_def indexSource_def pluginSource_def
  frontendTree_def backendTree_def

lemmas path_defs =
  componentsDir_def exampleComponentDir_def newComponentDir_def exampleFetchDir_def
  pluginFilePath_def devDir_def pluginTestPath_def packageJsonPath_def componentFilePath_def
  newComponentFilePath_def testFilePath_def newTestFilePath_def indexPath_def servicesDir_def
  routerPath_def routerTestPath_def

subsection \<open>Nodes that a call leaves alone\<close>

lemma nodeIs_stdout [simp]: "nodeIs q v (s\<lparr>stdout := out\<rparr>) = nodeIs q v s"
  by (simp add: nodeIs_def)

lemma nodeIs_consoleLog: "invariant (nodeIs q v) (consoleLog l)"
  by (rule invariant_consoleLog) simp

lemma nodeIs_templateLog: "invariant (nodeIs q v) (templateLog line x)"
  by (rule invariant_templateLog) simp

lemma nodeIs_writeFileSync: "p \<noteq> q \<Longrightarrow> invariant (nodeIs q v) (fsCall (writeFileSync p c))"
  by (rule invariant_fsCall) (simp add: nodeIs_def lookup_writeFileSync)

lemma nodeIs_unlinkSync: "p \<noteq> q \<Longrightarrow> invariant (nodeIs q v) (fsCall (unlinkSync p))"
  by (rule invariant_fsCall) (simp add: nodeIs_def lookup_unlinkSync)

lemma nodeIs_rmSync: "\<not> prefix d q \<Longrightarrow> invariant (nodeIs q v) (fsCall (rmSync d))"
  by (rule invariant_fsCall) (simp add: nodeIs_def lookup_rmSync)

lemma hasNul_append [simp]: "hasNul (p @ q) = (hasNul p \<or> hasNul q)"
  by (simp add: hasNul_def list_ex_iff) blast

lemma hasNul_simps [simp]: "hasNul [] = False" "hasNul (seg # p) = (CHR 0x00 \<in> set seg \<or> hasNul p)"
  by (simp_all add: hasNul_def)

subsection \<open>Replacing a literal text\<close>

lemma matchHere_lit:
  "matchHere (lit p) s = (if prefix p s then Some (length p) else None)"
proof (induction p arbitrary: s)
  case Nil
  then show ?case by (simp add: lit_def)
next
  case (Cons c p)
  then show ?case by (cases s) (auto simp: lit_def)
qed

lemma matchHere_first_literal:
  "x \<noteq> c \<Longrightarrow> matchHere (([[c]], One) # pat) (x # s) = None"
  by simp

lemma getSubstitution_plain:
  "CHR ''$'' \<notin> set templ \<Longrightarrow> getSubstitution m pre post templ = templ"
  by (induction m pre post templ rule: getSubstitution.induct) auto

lemma replaceFrom_pre:
  "CHR ''$'' \<notin> set templ \<Longrightarrow> replaceFrom pat templ pre s k = replaceFrom pat templ pre' s k"
proof (induction s arbitrary: pre pre' k)
  case Nil
  then show ?case by (simp add: getSubstitution_plain split: option.splits)
next
  case (Cons c s)
  from Cons.prems have g: "\<And>m a b. getSubstitution m a b templ = templ"
    by (simp add: getSubstitution_plain)
  from Cons.IH [OF Cons.prems]
  have ih: "\<And>k. replaceFrom pat templ (pre @ [c]) s k = replaceFrom pat templ (pre' @ [c]) s k"
    by blast
  show ?case by (simp add: g ih split: option.splits)
qed

lemma replaceFrom_skip:
  "replaceFrom pat templ pre (x @ s) (length x + k) = replaceFrom pat templ (pre @ x) s k"
  by (induction x arbitrary: pre) auto

lemma replaceAll_Nil_lit: "p \<noteq> [] \<Longrightarrow> replaceAll (lit p) templ [] = []"
  by (simp add: replaceAll_def matchHere_lit)

lemma replaceAll_lit_match:
  assumes "CHR ''$'' \<notin> set templ" "p \<noteq> []"
  shows "replaceAll (lit p) templ (p @ s) = templ @ replaceAll (lit p) templ s"
proof -
  obtain c p' where p: "p = c # p'" using assms(2) by (cases p) auto
  have "replaceFrom (lit p) templ [] (c # p' @ s) 0
      = templ @ replaceFrom (lit p) templ [c] (p' @ s) (length p')"
    using assms(1) by (simp add: matchHere_lit p getSubstitution_plain)
  also have "replaceFrom (lit p) templ [c] (p' @ s) (length p')
      = replaceFrom (lit p) templ ([c] @ p') s 0"
    using replaceFrom_skip [of "lit p" templ "[c]" p' s 0] by simp
  also have "\<dots> = replaceFrom (lit p) templ [] s 0"
    using assms(1) by (rule replaceFrom_pre)
  finally show ?thesis by (simp add: replaceAll_def p)
qed

lemma replaceAll_no_match_head:
  assumes "CHR ''$'' \<notin> set templ" "matchHere pat (x # s) = None"
  shows "replaceAll pat templ (x # s) = x # replaceAll pat templ s"
  using assms replaceFrom_pre [of templ pat "[x]" s 0 "[]"]
  by (simp add: replaceAll_def)

lemma replaceAll_lit_no_match:
  assumes "CHR ''$'' \<notin> set templ" "\<not> prefix p (x # s)"
  shows "replaceAll (lit p) templ (x # s) = x # replaceAll (lit p) templ s"
  using assms by (intro replaceAll_no_match_head) (simp_all add: matchHere_lit)

lemma replaceAll_skip_other:
  assumes "CHR ''$'' \<notin> set templ" "c \<notin> set w"
  shows "replaceAll (([[c]], One) # pat) templ (w @ s) = w @ replaceAll (([[c]], One) # pat) templ s"
  using assms(2)
proof (induction w)
  case Nil
  then show ?case by simp
next
  case (Cons x w)
  then have "matchHere (([[c]], One) # pat) (x # w @ s) = None" by auto
  with assms(1) have "replaceAll (([[c]], One) # pat) templ (x # w @ s)
      = x # replaceAll (([[c]], One) # pat) templ (w @ s)"
    by (rule replaceAll_no_match_head)
  with Cons show ?case by simp
qed

subsection \<open>Following a file through the changes\<close>

lemma writtenBeforeRemoved_snoc:
  "xs \<noteq> [] \<Longrightarrow>
   writtenBeforeRemoved old new f (xs @ [b])
     = (writtenBeforeRemoved old new f xs \<and> removalOK old new f (last xs) b)"
proof (induction xs)
  case Nil
  then show ?case by simp
next
  case (Cons a xs)
  show ?case
  proof (cases xs)
    case Nil
    then show ?thesis by simp
  next
    case (Cons c ys)
    with Cons.IH show ?thesis by auto
  qed
qed

lemma tracked_stdout [simp]:
  "tracked old new f fs0 n0 (s\<lparr>stdout := out\<rparr>) = tracked old new f fs0 n0 s"
  by (simp add: tracked_def)

lemma tracked_step:
  assumes "tracked old new f fs0 n0 s" "removalOK old new f (files s) fs'"
  shows "tracked old new f fs0 n0 (s\<lparr>files := fs', history := history s @ [fs']\<rparr>)"
proof -
  from assms(1) have n: "n0 \<le> length (history s)"
    and w: "writtenBeforeRemoved old new f (fs0 # drop n0 (history s))"
    and l: "last (fs0 # drop n0 (history s)) = files s"
    by (simp_all add: tracked_def)
  have "writtenBeforeRemoved old new f ((fs0 # drop n0 (history s)) @ [fs'])"
    using w l assms(2) by (subst writtenBeforeRemoved_snoc) simp_all
  with n show ?thesis by (simp add: tracked_def)
qed

lemma tracked_start: "tracked old new f (files s) (length (history s)) s"
  by (simp add: tracked_def)

lemma removalOK_writeFileSync:
  "writeFileSync p c fs = Inr fs' \<Longrightarrow> removalOK old new f fs fs'"
  by (auto simp: removalOK_def lookup_writeFileSync split: option.splits node.splits)

lemma removalOK_unlinkSync_other:
  "unlinkSync p fs = Inr fs' \<Longrightarrow> p \<noteq> old \<Longrightarrow> removalOK old new f fs fs'"
  by (auto simp: removalOK_def lookup_unlinkSync split: option.splits node.splits)

lemma removalOK_unlinkSync_written:
  "unlinkSync old fs = Inr fs' \<Longrightarrow> lookup fs old = Some (File c) \<Longrightarrow>
   lookup fs new = Some (File (f c)) \<Longrightarrow> new \<noteq> old \<Longrightarrow> removalOK old new f fs fs'"
  by (auto simp: removalOK_def lookup_unlinkSync split: option.splits node.splits)

lemma removalOK_renameSync:
  assumes wf: "wellFormed fs" and ok: "renameSync src dst fs = Inr fs'" and ne: "src \<noteq> dst"
  shows "removalOK (dst @ [x]) new f fs fs'"
proof -
  note s = renameSync_success [OF ok ne]
  have "lookup fs (dst @ [x]) = None"
  proof (rule ccontr)
    assume a: "lookup fs (dst @ [x]) \<noteq> None"
    with wf have "lookup fs dst = Some Dir"
      by (rule wellFormed_ancestor) simp
    moreover from a obtain n where "(dst @ [x], n) \<in> set fs"
      by (auto simp: lookup_def dest: map_of_SomeD)
    then have "hasEntries fs dst"
      by (auto simp: hasEntries_iff strict_prefix_def)
    ultimately show False using s(6) by simp
  qed
  then show ?thesis by (simp add: removalOK_def)
qed

text \<open>The statements that rewrite a file under a new name, for the file they move.\<close>

lemma tracked_own_rewrite:
  assumes ne: "new \<noteq> old"
  shows "invariant (tracked old new f fs0 n0)
     (ifExists old (withFile old (\<lambda>content.
        steps [fsCall (writeFileSync new (f content)), fsCall (unlinkSync old),
               consoleLog msg])))"
  unfolding invariant_def
proof (intro holds_ifExists holds_withFile)
  fix c
  let ?T = "tracked old new f fs0 n0"
  let ?W = "\<lambda>s. ?T s \<and> lookup (files s) old = Some (File c)
                 \<and> lookup (files s) new = Some (File (f c))"
  have w: "holds (\<lambda>s. (?T s \<and> existsSync (files s) old) \<and> readFileSync (files s) old = Inr c)
      (fsCall (writeFileSync new (f c))) ?W ?T"
  proof (rule holds_fsCall)
    fix s :: state and fs'
    assume pre: "(?T s \<and> existsSync (files s) old) \<and> readFileSync (files s) old = Inr c"
      and ok: "writeFileSync new (f c) (files s) = Inr fs'"
    from pre have "lookup (files s) old = Some (File c)"
      by (auto simp: readFileSync_def split: if_splits option.splits node.splits)
    with pre ok ne show "?W (s\<lparr>files := fs', history := history s @ [fs']\<rparr>)"
      by (auto intro: tracked_step removalOK_writeFileSync simp: lookup_writeFileSync)
  qed simp
  have u: "holds ?W (fsCall (unlinkSync old)) ?T ?T"
  proof (rule holds_fsCall)
    fix s :: state and fs'
    assume "?W s" and "unlinkSync old (files s) = Inr fs'"
    with ne show "?T (s\<lparr>files := fs', history := history s @ [fs']\<rparr>)"
      by (auto intro!: tracked_step removalOK_unlinkSync_written)
  qed simp
  have l: "holds ?T (steps [consoleLog msg]) ?T ?T"
    by (intro holds_steps_Cons holds_steps_Nil holds_consoleLog) simp_all
  show "holds (\<lambda>s. (?T s \<and> existsSync (files s) old) \<and> readFileSync (files s) old = Inr c)
      (steps [fsCall (writeFileSync new (f c)), fsCall (unlinkSync old), consoleLog msg]) ?T ?T"
    by (rule holds_steps_Cons [OF w holds_steps_Cons [OF u l]])
qed simp_all

text \<open>Statements that do not remove the file.\<close>

lemma tracked_consoleLog: "invariant (tracked old new f fs0 n0) (consoleLog l)"
  by (rule invariant_consoleLog) simp

lemma tracked_writeFileSync: "invariant (tracked old new f fs0 n0) (fsCall (writeFileSync q c))"
  by (rule invariant_fsCall) (auto intro: tracked_step removalOK_writeFileSync)

lemma tracked_unlinkSync_other:
  "p \<noteq> old \<Longrightarrow> invariant (tracked old new f fs0 n0) (fsCall (unlinkSync p))"
  by (rule invariant_fsCall) (auto intro: tracked_step removalOK_unlinkSync_other)

lemma tracked_other_rewrite:
  assumes ne: "p \<noteq> old"
  shows "invariant (tracked old new f fs0 n0)
     (ifExists p (withFile p (\<lambda>content.
        steps [fsCall (writeFileSync q (g content)), fsCall (unlinkSync p),
               consoleLog msg])))"
  by (intro invariant_ifExists invariant_withFile invariant_steps)
    (simp add: tracked_consoleLog tracked_writeFileSync tracked_unlinkSync_other [OF ne])

lemma tracked_updateIndexFile:
  "invariant (tracked old new f fs0 n0) (updateIndexFile newDir name)"
  unfolding updateIndexFile_def
  by (intro invariant_ifExists invariant_withFile invariant_steps)
    (simp add: tracked_consoleLog tracked_writeFileSync)

subsection \<open>Running a block step by step\<close>

lemma steps_Cons_completes: "f s = (None, s') \<Longrightarrow> steps (f # fs) s = steps fs s'"
  by simp

lemma fsCall_completes:
  "g (files s) = Inr fs' \<Longrightarrow>
   fsCall g s = (None, s\<lparr>files := fs', history := history s @ [fs']\<rparr>)"
  by (simp add: fsCall_def)

lemma templateLog_shown:
  "jsToString v = Inr text \<Longrightarrow> templateLog line v = consoleLog (line text)"
  by (rule ext) (simp add: templateLog_def)

lemma ifExists_absent: "\<not> existsSync (files s) p \<Longrightarrow> ifExists p body s = (None, s)"
  by (simp add: ifExists_def)

lemma ifExists_present: "existsSync (files s) p \<Longrightarrow> ifExists p body s = body s"
  by (simp add: ifExists_def)

lemma withFile_content: "readFileSync (files s) p = Inr c \<Longrightarrow> withFile p body s = body c s"
  by (simp add: withFile_def)

lemma lookup_update: "p \<noteq> [] \<Longrightarrow>
  lookup (AList.update p n fs) q = (if q = p then Some n else lookup fs q)"
  by (simp add: lookup_def update_conv')

lemma lookup_filter_neq:
  "lookup (filter (\<lambda>(k, n). k \<noteq> p) fs) q = (if q = p \<and> p \<noteq> [] then None else lookup fs q)"
  by (auto simp: lookup_def map_of_filter_key)

lemma writeFileSync_creates:
  "\<not> hasNul p \<Longrightarrow> lookup fs p = None \<Longrightarrow> lookup fs (butlast p) = Some Dir \<Longrightarrow>
   writeFileSync p c fs = Inr (AList.update p (File c) fs)"
  by (simp add: writeFileSync_def)

lemma writeFileSync_replaces:
  "\<not> hasNul p \<Longrightarrow> lookup fs p = Some (File c0) \<Longrightarrow>
   writeFileSync p c fs = Inr (AList.update p (File c) fs)"
  by (simp add: writeFileSync_def)

lemma unlinkSync_removes:
  "\<not> hasNul p \<Longrightarrow> lookup fs p = Some (File c) \<Longrightarrow>
   unlinkSync p fs = Inr (filter (\<lambda>(k, n). k \<noteq> p) fs)"
  by (simp add: unlinkSync_def)

lemma readFileSync_file:
  "\<not> hasNul p \<Longrightarrow> lookup fs p = Some (File c) \<Longrightarrow> readFileSync fs p = Inr c"
  by (simp add: readFileSync_def)

lemma joinPath_simple:
  "CHR ''/'' \<notin> set text \<Longrightarrow> text \<noteq> [] \<Longrightarrow> text \<noteq> ''.'' \<Longrightarrow> text \<noteq> ''..'' \<Longrightarrow>
   joinPath base text = base @ [text]"
  by (simp add: joinPath_def splitOn_no_sep joinSegment_def)

lemma componentName_not_dots:
  "componentName ident \<noteq> []" "componentName ident \<noteq> ''.''" "componentName ident \<noteq> ''..''"
  "componentName ident @ ext \<noteq> []" "componentName ident @ ext \<noteq> ''.''"
  "componentName ident @ ext \<noteq> ''..''"
  by (auto simp: componentName_def dest: arg_cong [where f = length])

lemma renameSync_noNul: "renameSync old new fs = Inr fs' \<Longrightarrow> \<not> hasNul old \<and> \<not> hasNul new"
  by (auto simp: renameSync_def split: if_splits)

lemma updateComponentFile_skipped:
  "lookup (files s) (d @ [''ExampleComponent.tsx'']) = None \<Longrightarrow>
   updateComponentFile d name s = (None, s)"
  by (simp add: updateComponentFile_def ifExists_def existsSync_def componentFilePath_def)

lemma updateTestFile_runs:
  assumes "\<not> hasNul d" "CHR 0x00 \<notin> set name"
    and "lookup (files s) (d @ [''ExampleComponent.test.tsx'']) = Some (File t)"
    and "lookup (files s) (d @ [name @ ''.test.tsx'']) \<noteq> Some Dir"
    and "lookup (files s) d = Some Dir"
    and "newTestFilePath d name = d @ [name @ ''.test.tsx'']"
    and "name @ ''.test.tsx'' \<noteq> ''ExampleComponent.test.tsx''"
  shows "updateTestFile d name s =
     (None, s\<lparr>files := filter (\<lambda>(k, n). k \<noteq> d @ [''ExampleComponent.test.tsx''])
                 (AList.update (d @ [name @ ''.test.tsx'']) (File (updateReferences name t)) (files s)),
              history := history s @
                [AList.update (d @ [name @ ''.test.tsx'']) (File (updateReferences name t)) (files s),
                 filter (\<lambda>(k, n). k \<noteq> d @ [''ExampleComponent.test.tsx''])
                   (AList.update (d @ [name @ ''.test.tsx'']) (File (updateReferences name t)) (files s))],
              stdout := stdout s @ [''    '' @ checkMark @ '' ExampleComponent.test.tsx '' @ rightArrow
                             @ '' '' @ name @ ''.test.tsx'']\<rparr>)"
proof -
  let ?old = "d @ [''ExampleComponent.test.tsx'']"
  let ?new = "d @ [name @ ''.test.tsx'']"
  let ?fs2 = "AList.update ?new (File (updateReferences name t)) (files s)"
  have ex: "existsSync (files s) ?old"
    using assms(1,3) by (simp add: existsSync_def)
  have rd: "readFileSync (files s) ?old = Inr t"
    using assms(1,3) by (simp add: readFileSync_file)
  have w: "writeFileSync ?new (updateReferences name t) (files s) = Inr ?fs2"
    using assms(1,2,4,5)
    by (auto simp: writeFileSync_def butlast_append split: option.splits node.splits)
  have "lookup ?fs2 ?old = Some (File t)"
    using assms(3,7) by (simp add: lookup_update)
  then have u: "unlinkSync ?old ?fs2 = Inr (filter (\<lambda>(k, n). k \<noteq> ?old) ?fs2)"
    using assms(1) by (intro unlinkSync_removes) simp_all
  show ?thesis
    unfolding updateTestFile_def testFilePath_def assms(6)
    by (simp add: ifExists_present [OF ex] withFile_content [OF rd] fsCall_def w u consoleLog_def)
qed

lemma updateIndexFile_runs:
  assumes "\<not> hasNul d"
    and "lookup (files s) (d @ [''index.ts'']) = Some (File i)"
  shows "updateIndexFile d name s =
     (None, s\<lparr>files := AList.update (d @ [''index.ts'']) (File (updateReferences name i)) (files s),
              history := history s @
                [AList.update (d @ [''index.ts'']) (File (updateReferences name i)) (files s)],
              stdout := stdout s @ [''    '' @ checkMark @ '' index.ts updated'']\<rparr>)"
proof -
  let ?p = "d @ [''index.ts'']"
  have ex: "existsSync (files s) ?p"
    using assms by (simp add: existsSync_def)
  have rd: "readFileSync (files s) ?p = Inr i"
    using assms by (simp add: readFileSync_file)
  have w: "writeFileSync ?p (updateReferences name i) (files s)
      = Inr (AList.update ?p (File (updateReferences name i)) (files s))"
    using assms by (intro writeFileSync_replaces) simp_all
  show ?thesis
    unfolding updateIndexFile_def indexPath_def
    by (simp add: ifExists_present [OF ex] withFile_content [OF rd] fsCall_def w consoleLog_def)
qed

lemma updateTestFile_skipped:
  "lookup (files s) (d @ [''ExampleComponent.test.tsx'']) = None \<Longrightarrow>
   updateTestFile d name s = (None, s)"
  by (simp add: updateTestFile_def ifExists_def existsSync_def testFilePath_def)

lemma updateIndexFile_skipped:
  "lookup (files s) (d @ [''index.ts'']) = None \<Longrightarrow> updateIndexFile d name s = (None, s)"
  by (simp add: updateIndexFile_def ifExists_def existsSync_def indexPath_def)

lemma updateTestFile_outcome:
  assumes "\<not> hasNul d" "CHR 0x00 \<notin> set name"
    and "lookup (files s) (d @ [''ExampleComponent.test.tsx'']) = map_option File tc"
    and "lookup (files s) (d @ [name @ ''.test.tsx'']) \<noteq> Some Dir"
    and "tc \<noteq> None \<longrightarrow> lookup (files s) d = Some Dir"
    and "newTestFilePath d name = d @ [name @ ''.test.tsx'']"
    and "name @ ''.test.tsx'' \<noteq> ''ExampleComponent.test.tsx''"
  shows "\<exists>s'. updateTestFile d name s = (None, s')
      \<and> length (history s') = length (history s) + (case tc of None \<Rightarrow> 0 | Some t \<Rightarrow> 2)
      \<and> (\<forall>q. lookup (files s') q =
            (if q = d @ [name @ ''.test.tsx'']
             then (case tc of
                     None \<Rightarrow> lookup (files s) q
                   | Some t \<Rightarrow> Some (File (updateReferences name t)))
             else if q = d @ [''ExampleComponent.test.tsx''] then None
             else lookup (files s) q))"
proof (cases tc)
  case None
  with assms(3) have "updateTestFile d name s = (None, s)"
    by (intro updateTestFile_skipped) simp
  with None assms(3,4) show ?thesis by auto
next
  case (Some t)
  with assms have r: "lookup (files s) (d @ [''ExampleComponent.test.tsx'']) = Some (File t)"
    "lookup (files s) d = Some Dir"
    by simp_all
  note run = updateTestFile_runs [OF assms(1,2) r(1) assms(4) r(2) assms(6,7)]
  show ?thesis
    unfolding run using Some assms(7)
    by (simp add: lookup_filter_neq lookup_update)
qed

lemma updateIndexFile_outcome:
  assumes "\<not> hasNul d"
    and "lookup (files s) (d @ [''index.ts'']) = map_option File ic"
  shows "\<exists>s'. updateIndexFile d name s = (None, s')
      \<and> length (history s') = length (history s) + (case ic of None \<Rightarrow> 0 | Some i \<Rightarrow> 1)
      \<and> (\<forall>q. lookup (files s') q =
            (if q = d @ [''index.ts'']
             then map_option (\<lambda>i. File (updateReferences name i)) ic
             else lookup (files s) q))"
proof (cases ic)
  case None
  with assms(2) have "updateIndexFile d name s = (None, s)"
    by (intro updateIndexFile_skipped) simp
  with None assms(2) show ?thesis by auto
next
  case (Some i)
  with assms have r: "lookup (files s) (d @ [''index.ts'']) = Some (File i)" by simp
  note run = updateIndexFile_runs [OF assms(1) r, of name]
  show ?thesis
    unfolding run using Some by (simp add: lookup_update)
qed

subsection \<open>What a literal replacement leaves of the pattern\<close>





subsection \<open>The first character of a component name\<close>







subsection \<open>The file system of a run does not depend on the output\<close>

lemma regularI:
  assumes "\<And>s. (case f s of (r, s') \<Rightarrow> (r, files s')) = g (files s)"
  shows "regular f"
  unfolding regular_def onFiles_def using assms by simp

lemma regularD: "regular f \<Longrightarrow> f s = (r, s') \<Longrightarrow> onFiles f (files s) = (r, files s')"
  by (auto simp: regular_def dest!: spec [where x = s])

lemma regular_consoleLog [simp]: "regular (consoleLog l)"
  by (rule regularI [where g = "\<lambda>fs. (None, fs)"]) (simp add: consoleLog_def)

lemma onFiles_consoleLog [simp]: "onFiles (consoleLog l) fs = (None, fs)"
  by (simp add: onFiles_def consoleLog_def)

lemma regular_templateLog [simp]: "regular (templateLog line v)"
  by (rule regularI [where g = "\<lambda>fs. case jsToString v of Inl e \<Rightarrow> (Some e, fs) | Inr t \<Rightarrow> (None, fs)"])
    (simp add: templateLog_def consoleLog_def split: sum.splits)

lemma onFiles_templateLog [simp]:
  "onFiles (templateLog line v) fs
     = (case jsToString v of Inl e \<Rightarrow> (Some e, fs) | Inr t \<Rightarrow> (None, fs))"
  by (simp add: onFiles_def templateLog_def consoleLog_def split: sum.splits)

lemma regular_fsCall [simp]: "regular (fsCall g)"
  by (rule regularI [where g = "\<lambda>fs. case g fs of Inl e \<Rightarrow> (Some e, fs) | Inr fs' \<Rightarrow> (None, fs')"])
    (simp add: fsCall_def split: sum.splits)

lemma onFiles_fsCall [simp]:
  "onFiles (fsCall g) fs = (case g fs of Inl e \<Rightarrow> (Some e, fs) | Inr fs' \<Rightarrow> (None, fs'))"
  by (simp add: onFiles_def fsCall_def split: sum.splits)

lemma onFiles_steps_Nil [simp]: "onFiles (steps []) fs = (None, fs)"
  by (simp add: onFiles_def)

lemma onFiles_steps_Cons:
  assumes "regular (steps fs)"
  shows "onFiles (steps (f # fs)) fs0 =
     (case onFiles f fs0 of (None, fs1) \<Rightarrow> onFiles (steps fs) fs1 | (Some e, fs1) \<Rightarrow> (Some e, fs1))"
proof -
  let ?s = "\<lparr>files = fs0, stdout = [], history = []\<rparr>"
  obtain r s' where f: "f ?s = (r, s')" by (cases "f ?s")
  show ?thesis
  proof (cases r)
    case None
    obtain r2 s2 where g: "steps fs s' = (r2, s2)" by (cases "steps fs s'")
    from regularD [OF assms g] f None g show ?thesis
      by (simp add: onFiles_def)
  next
    case (Some e)
    with f show ?thesis by (simp add: onFiles_def)
  qed
qed

lemma regular_steps: "list_all regular fs \<Longrightarrow> regular (steps fs)"
proof (induction fs)
  case Nil
  show ?case by (rule regularI [where g = "\<lambda>fs. (None, fs)"]) simp
next
  case (Cons f fs)
  then have rf: "regular f" and rs: "regular (steps fs)" by simp_all
  show ?case
    unfolding regular_def
  proof
    fix s
    obtain r s' where f: "f s = (r, s')" by (cases "f s")
    note a = regularD [OF rf f]
    show "(case steps (f # fs) s of (r, s') \<Rightarrow> (r, files s')) = onFiles (steps (f # fs)) (files s)"
    proof (cases r)
      case None
      obtain r2 s2 where g: "steps fs s' = (r2, s2)" by (cases "steps fs s'")
      from regularD [OF rs g] a f None g show ?thesis
        by (simp add: onFiles_steps_Cons [OF rs])
    next
      case (Some e)
      with a f show ?thesis by (simp add: onFiles_steps_Cons [OF rs])
    qed
  qed
qed

lemma regular_ifExists: "regular body \<Longrightarrow> regular (ifExists p body)"
  unfolding regular_def onFiles_def ifExists_def by simp

lemma onFiles_ifExists:
  "onFiles (ifExists p body) fs = (if existsSync fs p then onFiles body fs else (None, fs))"
  by (simp add: onFiles_def ifExists_def)

lemma regular_withFile: "(\<And>c. regular (body c)) \<Longrightarrow> regular (withFile p body)"
  unfolding regular_def onFiles_def withFile_def by (simp split: sum.splits)

lemma onFiles_withFile:
  "onFiles (withFile p body) fs =
     (case readFileSync fs p of Inl e \<Rightarrow> (Some e, fs) | Inr c \<Rightarrow> onFiles (body c) fs)"
  by (simp add: onFiles_def withFile_def split: sum.splits)

lemma regular_cleanupFrontend: "regular (cleanupFrontend root name)"
  unfolding cleanupFrontend_def removeExampleFetch_def renameComponent_def updateComponentFile_def
    updateTestFile_def updateIndexFile_def updatePluginFile_def removeDevDir_def
    removePluginTest_def
  by (simp add: regular_steps regular_ifExists regular_withFile)

lemma regular_cleanupBackend: "regular (cleanupBackend root pluginId)"
  unfolding cleanupBackend_def removeServicesDir_def simplifyRouter_def updateBackendPluginFile_def
    removeRouterTest_def removeDevDir_def removePluginTest_def
  by (simp add: regular_steps regular_ifExists regular_withFile)

lemma regular_fst: "regular f \<Longrightarrow> fst (f s) = fst (onFiles f (files s))"
  by (cases "f s") (auto dest: regularD)

lemma regular_files: "regular f \<Longrightarrow> files (snd (f s)) = snd (onFiles f (files s))"
  by (cases "f s") (auto dest: regularD)

subsection \<open>The derived component name\<close>

text \<open>
  C4.  The component name of \<^verbatim>\<open>my-service\<close> is \<^verbatim>\<open>MyServicePage\<close>, that of \<^verbatim>\<open>data-ingest\<close> is
  \<^verbatim>\<open>DataIngestPage\<close>, and in general the name derived from ASCII words joined by hyphens
  (no word containing a hyphen) is the words, each with its first letter in upper case,
  one after the other, followed by \<^verbatim>\<open>Page\<close>.  The name is a function of the identifier
  alone.  (Identifiers with characters beyond ASCII are left out: their upper-casing is
  that of Unicode, which is not modelled.)
\<close>

theorem componentName_derivation:
  "componentName ''my-service'' = ''MyServicePage''
   \<and> componentName ''data-ingest'' = ''DataIngestPage''
   \<and> (\<forall>ws. list_all (\<lambda>w. ascii w \<and> CHR ''-'' \<notin> set w) ws \<longrightarrow>
         componentName (joinWith ''-'' ws) = concat (map capitalize ws) @ ''Page'')"
proof (intro conjI allI impI)
  show "componentName ''my-service'' = ''MyServicePage''"
    by (simp add: componentName_def toPascalCase_def toUpperCaseChar_def)
  show "componentName ''data-ingest'' = ''DataIngestPage''"
    by (simp add: componentName_def toPascalCase_def toUpperCaseChar_def)
next
  fix ws :: "string list"
  assume "list_all (\<lambda>w. ascii w \<and> CHR ''-'' \<notin> set w) ws"
  then have h: "list_all (\<lambda>w. CHR ''-'' \<notin> set w) ws"
    by (simp add: list_all_iff)
  show "componentName (joinWith ''-'' ws) = concat (map capitalize ws) @ ''Page''"
  proof (cases "ws = []")
    case True
    then show ?thesis by (simp add: componentName_def toPascalCase_def)
  next
    case False
    with h have "splitOn (CHR ''-'') (joinWith ''-'' ws) = ws"
      by (rule splitOn_joinWith)
    then show ?thesis by (simp add: componentName_def toPascalCase_def)
  qed
qed

theorem componentName_derivation_witness:
  "list_all (\<lambda>w. ascii w \<and> CHR ''-'' \<notin> set w) [''data'', ''ingest'']
   \<and> componentName (joinWith ''-'' [''data'', ''ingest''])
       = concat (map capitalize [''data'', ''ingest'']) @ ''Page''"
proof -
  have h: "list_all (\<lambda>w. ascii w \<and> CHR ''-'' \<notin> set w) [''data'', ''ingest'']"
    by (simp add: ascii_def)
  from componentName_derivation have
    "list_all (\<lambda>w. ascii w \<and> CHR ''-'' \<notin> set w) [''data'', ''ingest''] \<longrightarrow>
       componentName (joinWith ''-'' [''data'', ''ingest''])
         = concat (map capitalize [''data'', ''ingest'']) @ ''Page''"
    by blast
  with h show ?thesis by blast
qed

subsection \<open>Validation comes before every change\<close>

text \<open>
  C2.  When the plugin directory exists and either has no \<^verbatim>\<open>package.json\<close>, or its
  \<^verbatim>\<open>package.json\<close> parses and yields no plugin identifier that passes \<^verbatim>\<open>!pluginId\<close> (the
  member is absent, or the empty text, among others), both scripts exit with code 1, the
  file system is the one they started with and no \<^verbatim>\<open>fs\<close> call has changed anything on the
  way.
\<close>

theorem invalid_manifest_no_mutation:
  assumes "existsSync (files s) pluginPath"
    and "\<not> existsSync (files s) (packageJsonPath pluginPath)
         \<or> (\<exists>text manifest pluginId.
               readFileSync (files s) (packageJsonPath pluginPath) = Inr text
               \<and> parse text = Some manifest
               \<and> pluginIdOf manifest = Inr pluginId
               \<and> (pluginId = None \<or> pluginId = Some (JStr []) \<or> \<not> truthy pluginId))"
  shows "fst (runFrontend parse (Some pluginPath) s) = 1
         \<and> files (snd (runFrontend parse (Some pluginPath) s)) = files s
         \<and> history (snd (runFrontend parse (Some pluginPath) s)) = history s
         \<and> fst (runBackend parse (Some pluginPath) s) = 1
         \<and> files (snd (runBackend parse (Some pluginPath) s)) = files s
         \<and> history (snd (runBackend parse (Some pluginPath) s)) = history s"
  using assms
  by (auto simp: runFrontend_def runBackend_def afterBanner_def Let_def)

theorem invalid_manifest_no_mutation_witness:
  "existsSync (files (startState bareTree)) demoPath
   \<and> \<not> existsSync (files (startState bareTree)) (packageJsonPath demoPath)
   \<and> fst (runFrontend parseExample (Some demoPath) (startState bareTree)) = 1
   \<and> files (snd (runFrontend parseExample (Some demoPath) (startState bareTree))) = bareTree
   \<and> fst (runBackend parseExample (Some demoPath) (startState bareTree)) = 1
   \<and> files (snd (runBackend parseExample (Some demoPath) (startState bareTree))) = bareTree
   \<and> readFileSync (withManifest manifestNoIdentifier bareTree) (packageJsonPath demoPath)
       = Inr manifestNoIdentifier
   \<and> parseExample manifestNoIdentifier = Some (JObj [(''name'', JStr ''my-service'')])
   \<and> pluginIdOf (JObj [(''name'', JStr ''my-service'')]) = Inr None
   \<and> fst (runFrontend parseExample (Some demoPath)
            (startState (withManifest manifestNoIdentifier bareTree))) = 1
   \<and> files (snd (runFrontend parseExample (Some demoPath)
                   (startState (withManifest manifestNoIdentifier bareTree))))
       = withManifest manifestNoIdentifier bareTree
   \<and> fst (runBackend parseExample (Some demoPath)
            (startState (withManifest manifestNoIdentifier bareTree))) = 1
   \<and> files (snd (runBackend parseExample (Some demoPath)
                   (startState (withManifest manifestNoIdentifier bareTree))))
       = withManifest manifestNoIdentifier bareTree"
proof -
  have e: "existsSync (files (startState bareTree)) demoPath"
    by (simp add: example_defs existsSync_def hasNul_def lookup_def)
  have m: "\<not> existsSync (files (startState bareTree)) (packageJsonPath demoPath)"
    by (simp add: example_defs existsSync_def hasNul_def lookup_def packageJsonPath_def)
  have e': "existsSync (files (startState (withManifest manifestNoIdentifier bareTree))) demoPath"
    by (simp add: example_defs existsSync_def hasNul_def lookup_def)
  have r: "readFileSync (files (startState (withManifest manifestNoIdentifier bareTree)))
             (packageJsonPath demoPath) = Inr manifestNoIdentifier"
    by (simp add: example_defs readFileSync_def hasNul_def lookup_def packageJsonPath_def)
  have p: "parseExample manifestNoIdentifier
             = Some (JObj [(''name'', JStr ''my-service'')])"
    by (simp add: example_defs)
  have i: "pluginIdOf (JObj [(''name'', JStr ''my-service'')]) = Inr None"
    by (simp add: pluginIdOf_def)
  from invalid_manifest_no_mutation [of "startState bareTree" demoPath parseExample] e m
    invalid_manifest_no_mutation [of "startState (withManifest manifestNoIdentifier bareTree)"
      demoPath parseExample] e' r p i
  show ?thesis by (simp add: startState_def)
qed

subsection \<open>The manifest is only read\<close>

lemma manifestKept_stdout [simp]:
  "manifestKept root m (s\<lparr>stdout := out\<rparr>) = manifestKept root m s"
  by (simp add: manifestKept_def)

lemma kept_consoleLog: "invariant (manifestKept root m) (consoleLog l)"
  by (rule invariant_consoleLog) simp

lemma kept_templateLog: "invariant (manifestKept root m) (templateLog line v)"
  by (rule invariant_templateLog) simp

lemma kept_writeFileSync:
  assumes "p \<noteq> packageJsonPath root"
  shows "invariant (manifestKept root m) (fsCall (writeFileSync p c))"
proof (rule invariant_fsCall)
  fix s fs'
  assume k: "manifestKept root m s" and w: "writeFileSync p c (files s) = Inr fs'"
  from k w have "p \<noteq> root"
    using writeFileSync_parent [OF w] by (auto simp: manifestKept_def)
  with k assms show "manifestKept root m (s\<lparr>files := fs', history := history s @ [fs']\<rparr>)"
    by (simp add: manifestKept_def lookup_writeFileSync [OF w])
qed

lemma unlinkSync_file: "unlinkSync p fs = Inr fs' \<Longrightarrow> \<exists>c. lookup fs p = Some (File c)"
  by (auto simp: unlinkSync_def split: if_splits option.splits node.splits)

lemma kept_unlinkSync:
  assumes "p \<noteq> packageJsonPath root"
  shows "invariant (manifestKept root m) (fsCall (unlinkSync p))"
proof (rule invariant_fsCall)
  fix s fs'
  assume k: "manifestKept root m s" and u: "unlinkSync p (files s) = Inr fs'"
  from k unlinkSync_file [OF u] have "p \<noteq> root"
    by (auto simp: manifestKept_def)
  with k assms show "manifestKept root m (s\<lparr>files := fs', history := history s @ [fs']\<rparr>)"
    by (simp add: manifestKept_def lookup_unlinkSync [OF u])
qed

lemma kept_rmSync:
  assumes "\<not> prefix d (packageJsonPath root)" "\<not> prefix d root"
  shows "invariant (manifestKept root m) (fsCall (rmSync d))"
proof (rule invariant_fsCall)
  fix s fs'
  assume k: "manifestKept root m s" and r: "rmSync d (files s) = Inr fs'"
  with assms show "manifestKept root m (s\<lparr>files := fs', history := history s @ [fs']\<rparr>)"
    by (simp add: manifestKept_def lookup_rmSync [OF r])
qed

lemma kept_renameSync:
  assumes "endsWith ''Page'' new"
  shows "holds (\<lambda>s. wellFormed (files s) \<and> manifestKept root m s)
           (fsCall (renameSync (exampleComponentDir root) new))
           (manifestKept root m) (manifestKept root m)"
proof (rule holds_fsCall)
  fix s fs'
  let ?old = "exampleComponentDir root"
  assume pre: "wellFormed (files s) \<and> manifestKept root m s"
    and ok: "renameSync ?old new (files s) = Inr fs'"
  have ne: "?old \<noteq> new"
    using assms by (auto simp: exampleComponentDir_def componentsDir_def endsWith_def
        suffix_to_prefix)
  from pre ok ne have nn: "\<not> prefix new ?old"
    by (auto dest: renameSync_not_nested)
  have old_root: "prefix root ?old"
    by (simp add: exampleComponentDir_def componentsDir_def)
  have nr: "\<not> prefix new root"
    using nn old_root by (meson prefix_order.trans)
  have nm: "\<not> prefix new (packageJsonPath root)"
    using nr assms by (auto simp: packageJsonPath_def prefix_snoc endsWith_def suffix_to_prefix)
  have "\<not> prefix ?old root" "\<not> prefix ?old (packageJsonPath root)"
    by (simp_all add: exampleComponentDir_def componentsDir_def packageJsonPath_def)
  with nr nm pre show "manifestKept root m (s\<lparr>files := fs', history := history s @ [fs']\<rparr>)"
    by (simp add: manifestKept_def lookup_renameSync_other [OF ok])
qed simp

lemma new_paths_endsWith:
  "endsWith ''Page'' (newComponentDir root (componentName ident))"
  "endsWith ''.tsx'' (newComponentFilePath new name)"
  "endsWith ''.test.tsx'' (newTestFilePath new name)"
  by (simp_all add: newComponentDir_def componentName_def newComponentFilePath_def
      newTestFilePath_def joinPath_endsWith)

lemma kept_updateComponentFile: "invariant (manifestKept root m) (updateComponentFile new name)"
  unfolding updateComponentFile_def
  apply (intro invariant_ifExists invariant_withFile invariant_steps)
  using new_paths_endsWith(2) [of new name]
  apply (auto intro!: kept_consoleLog kept_writeFileSync kept_unlinkSync
      simp: packageJsonPath_def componentFilePath_def endsWith_def suffix_to_prefix)
  done

lemma kept_updateTestFile: "invariant (manifestKept root m) (updateTestFile new name)"
  unfolding updateTestFile_def
  apply (intro invariant_ifExists invariant_withFile invariant_steps)
  using new_paths_endsWith(3) [of new name]
  apply (auto intro!: kept_consoleLog kept_writeFileSync kept_unlinkSync
      simp: packageJsonPath_def testFilePath_def endsWith_def suffix_to_prefix)
  done

lemma kept_updateIndexFile: "invariant (manifestKept root m) (updateIndexFile new name)"
  unfolding updateIndexFile_def
  apply (intro invariant_ifExists invariant_withFile invariant_steps)
  apply (auto intro!: kept_consoleLog kept_writeFileSync
      simp: packageJsonPath_def indexPath_def)
  done

lemma kept_updatePluginFile: "invariant (manifestKept root m) (updatePluginFile root name)"
  unfolding updatePluginFile_def
  apply (intro invariant_ifExists invariant_withFile invariant_steps)
  apply (auto intro!: kept_consoleLog kept_writeFileSync
      simp: packageJsonPath_def pluginFilePath_def)
  done

lemma kept_removeDevDir: "invariant (manifestKept root m) (removeDevDir root)"
  unfolding removeDevDir_def
  apply (intro invariant_ifExists invariant_steps)
  apply (auto intro!: kept_consoleLog kept_rmSync simp: packageJsonPath_def devDir_def)
  done

lemma kept_removePluginTest: "invariant (manifestKept root m) (removePluginTest root)"
  unfolding removePluginTest_def
  apply (intro invariant_ifExists invariant_steps)
  apply (auto intro!: kept_consoleLog kept_unlinkSync simp: packageJsonPath_def pluginTestPath_def)
  done

lemma kept_removeExampleFetch:
  "invariant (\<lambda>s. wellFormed (files s) \<and> manifestKept root m s) (removeExampleFetch root)"
  unfolding removeExampleFetch_def
proof (intro invariant_ifExists invariant_steps, simp, intro conjI)
  show "invariant (\<lambda>s. wellFormed (files s) \<and> manifestKept root m s)
          (consoleLog ''  - Removing ExampleFetchComponent/ (mock data junk)'')"
    by (rule invariant_consoleLog) simp
  have k: "invariant (manifestKept root m) (fsCall (rmSync (exampleFetchDir root)))"
    by (rule kept_rmSync) (simp_all add: path_defs)
  show "invariant (\<lambda>s. wellFormed (files s) \<and> manifestKept root m s)
          (fsCall (rmSync (exampleFetchDir root)))"
  proof (rule invariant_fsCall)
    fix s fs'
    assume pre: "wellFormed (files s) \<and> manifestKept root m s"
      and r: "rmSync (exampleFetchDir root) (files s) = Inr fs'"
    from pre r have "wellFormed fs'" by (auto intro: wellFormed_rmSync)
    moreover from invariantD [OF k, of s] pre r
    have "manifestKept root m (s\<lparr>files := fs', history := history s @ [fs']\<rparr>)"
      by (simp add: fsCall_def)
    ultimately show "wellFormed (files (s\<lparr>files := fs', history := history s @ [fs']\<rparr>)) \<and>
        manifestKept root m (s\<lparr>files := fs', history := history s @ [fs']\<rparr>)"
      by simp
  qed
qed

lemma invariant_holds: "invariant I f \<Longrightarrow> holds I f I I"
  by (simp add: invariant_def)

lemma invariant_holds_weak:
  "invariant I f \<Longrightarrow> (\<And>s. P s \<Longrightarrow> I s) \<Longrightarrow> holds P f I I"
  by (auto simp: invariant_def elim: holds_weaken)

lemma kept_renameComponent:
  "holds (\<lambda>s. wellFormed (files s) \<and> manifestKept root m s)
     (renameComponent root (componentName ident))
     (manifestKept root m) (manifestKept root m)"
  unfolding renameComponent_def
proof (rule holds_ifExists)
  let ?P = "\<lambda>s. wellFormed (files s) \<and> manifestKept root m s"
  let ?name = "componentName ident"
  have tail: "holds (manifestKept root m)
      (steps [consoleLog ''  - Updating component file...'',
              updateComponentFile (newComponentDir root ?name) ?name,
              updateTestFile (newComponentDir root ?name) ?name,
              updateIndexFile (newComponentDir root ?name) ?name])
      (manifestKept root m) (manifestKept root m)"
    by (intro invariant_holds invariant_steps)
      (simp add: kept_consoleLog kept_updateComponentFile kept_updateTestFile
        kept_updateIndexFile)
  have rn: "holds ?P
      (fsCall (renameSync (exampleComponentDir root) (newComponentDir root ?name)))
      (manifestKept root m) (manifestKept root m)"
    by (rule kept_renameSync) (rule new_paths_endsWith)
  have lg: "holds ?P
      (consoleLog (''  - Renaming ExampleComponent/ '' @ rightArrow @ '' '' @ ?name @ ''/''))
      ?P (manifestKept root m)"
    by (rule holds_consoleLog) simp
  have "holds ?P
      (steps [consoleLog (''  - Renaming ExampleComponent/ '' @ rightArrow @ '' '' @ ?name @ ''/''),
              fsCall (renameSync (exampleComponentDir root) (newComponentDir root ?name)),
              consoleLog ''  - Updating component file...'',
              updateComponentFile (newComponentDir root ?name) ?name,
              updateTestFile (newComponentDir root ?name) ?name,
              updateIndexFile (newComponentDir root ?name) ?name])
      (manifestKept root m) (manifestKept root m)"
    by (rule holds_steps_Cons [OF lg]) (rule holds_steps_Cons [OF rn tail])
  then show "holds (\<lambda>s. ?P s \<and> existsSync (files s) (exampleComponentDir root))
      (steps [consoleLog (''  - Renaming ExampleComponent/ '' @ rightArrow @ '' '' @ ?name @ ''/''),
              fsCall (renameSync (exampleComponentDir root) (newComponentDir root ?name)),
              consoleLog ''  - Updating component file...'',
              updateComponentFile (newComponentDir root ?name) ?name,
              updateTestFile (newComponentDir root ?name) ?name,
              updateIndexFile (newComponentDir root ?name) ?name])
      (manifestKept root m) (manifestKept root m)"
    by (rule holds_weaken) auto
qed simp

lemma kept_cleanupFrontend:
  "holds (\<lambda>s. wellFormed (files s) \<and> manifestKept root m s)
     (cleanupFrontend root (componentName ident))
     (manifestKept root m) (manifestKept root m)"
proof -
  let ?P = "\<lambda>s. wellFormed (files s) \<and> manifestKept root m s"
  let ?K = "manifestKept root m"
  have lg: "holds ?P (consoleLog l) ?P ?K" for l
    by (rule holds_consoleLog) simp
  have rm: "holds ?P (removeExampleFetch root) ?P ?K"
    by (rule holds_weaken [OF invariant_holds [OF kept_removeExampleFetch]]) auto
  have rest: "holds ?K (steps fs) ?K ?K"
    if "list_all (invariant ?K) fs" for fs
    using that by (intro invariant_holds invariant_steps)
  show ?thesis
    unfolding cleanupFrontend_def
    by (intro holds_steps_Cons [OF lg] holds_steps_Cons [OF rm]
        holds_steps_Cons [OF kept_renameComponent] rest)
      (simp add: kept_consoleLog kept_updatePluginFile kept_removeDevDir kept_removePluginTest)
qed

lemma kept_removeServicesDir: "invariant (manifestKept root m) (removeServicesDir root)"
  unfolding removeServicesDir_def
  apply (intro invariant_ifExists invariant_steps)
  apply (auto intro!: kept_consoleLog kept_rmSync simp: packageJsonPath_def servicesDir_def)
  done

lemma kept_simplifyRouter: "invariant (manifestKept root m) (simplifyRouter root)"
  unfolding simplifyRouter_def
  apply (intro invariant_ifExists invariant_steps)
  apply (auto intro!: kept_consoleLog kept_writeFileSync simp: packageJsonPath_def routerPath_def)
  done

lemma kept_updateBackendPluginFile:
  "invariant (manifestKept root m) (updateBackendPluginFile root)"
  unfolding updateBackendPluginFile_def
  apply (intro invariant_ifExists invariant_withFile invariant_steps)
  apply (auto intro!: kept_consoleLog kept_writeFileSync
      simp: packageJsonPath_def pluginFilePath_def)
  done

lemma kept_removeRouterTest: "invariant (manifestKept root m) (removeRouterTest root)"
  unfolding removeRouterTest_def
  apply (intro invariant_ifExists invariant_steps)
  apply (auto intro!: kept_consoleLog kept_unlinkSync simp: packageJsonPath_def routerTestPath_def)
  done

lemma kept_cleanupBackend: "invariant (manifestKept root m) (cleanupBackend root pluginId)"
  unfolding cleanupBackend_def
  by (intro invariant_steps)
    (simp add: kept_consoleLog kept_templateLog kept_removeServicesDir kept_simplifyRouter
      kept_updateBackendPluginFile kept_removePluginTest kept_removeRouterTest kept_removeDevDir)

lemma snd_exitWith [simp]: "snd (exitWith r) = snd r"
  by (cases r) (auto simp: exitWith_def split: option.splits)

lemma fst_exitWith [simp]: "fst (exitWith r) = (if fst r = None then 0 else 1)"
  by (cases r) (auto simp: exitWith_def split: option.splits)

lemma holds_snd: "holds P f Q Q \<Longrightarrow> P s \<Longrightarrow> Q (snd (f s))"
  by (cases "f s") (auto dest: holdsD)

lemma manifestKept_start:
  assumes "wellFormed (files s)" "history s = []"
    "existsSync (files s) (packageJsonPath root)"
  shows "manifestKept root (lookup (files s) (packageJsonPath root)) (afterBanner root b s)"
proof -
  from assms(3) have "lookup (files s) (packageJsonPath root) \<noteq> None"
    by (simp add: existsSync_def)
  with assms(1) have "lookup (files s) (butlast (packageJsonPath root)) = Some Dir"
    by (rule wellFormed_parent)
  with assms(2) show ?thesis
    by (simp add: manifestKept_def afterBanner_def packageJsonPath_def butlast_append)
qed

lemma files_afterBanner [simp]: "files (afterBanner root b s) = files s"
  and history_afterBanner [simp]: "history (afterBanner root b s) = history s"
  by (simp_all add: afterBanner_def)

text \<open>
  C10.  Neither script writes or deletes \<^verbatim>\<open>package.json\<close>: in a well-formed tree, whatever
  the manifest is and however the run ends, the manifest is after the run what it was
  before (the same node with the same content, or as absent as before), and it was so
  after every single change the run made.
\<close>

theorem manifest_only_read:
  assumes wf: "wellFormed (files s)" and h: "history s = []"
  shows "lookup (files (snd (runFrontend parse (Some pluginPath) s))) (packageJsonPath pluginPath)
           = lookup (files s) (packageJsonPath pluginPath)
         \<and> list_all (\<lambda>f. lookup f (packageJsonPath pluginPath)
                            = lookup (files s) (packageJsonPath pluginPath))
             (history (snd (runFrontend parse (Some pluginPath) s)))
         \<and> lookup (files (snd (runBackend parse (Some pluginPath) s))) (packageJsonPath pluginPath)
           = lookup (files s) (packageJsonPath pluginPath)
         \<and> list_all (\<lambda>f. lookup f (packageJsonPath pluginPath)
                            = lookup (files s) (packageJsonPath pluginPath))
             (history (snd (runBackend parse (Some pluginPath) s)))"
proof -
  let ?m = "lookup (files s) (packageJsonPath pluginPath)"
  let ?K = "manifestKept pluginPath ?m"
  have front: "?K (snd (runFrontend parse (Some pluginPath) s)) \<or>
      snd (runFrontend parse (Some pluginPath) s)
        = afterBanner pluginPath '' Cleaning up scaffolding junk from plugin...'' s"
  proof (cases "existsSync (files s) (packageJsonPath pluginPath)")
    case False
    then show ?thesis by (simp add: runFrontend_def Let_def)
  next
    case True
    let ?s = "afterBanner pluginPath '' Cleaning up scaffolding junk from plugin...'' s"
    have k: "wellFormed (files ?s) \<and> ?K ?s"
      using wf manifestKept_start [OF wf h True] by simp
    have "?K (snd (steps [consoleLog (wrench @ '' Plugin ID: '' @ ident),
                          consoleLog (memo @ '' Component name: '' @ componentName ident),
                          cleanupFrontend pluginPath (componentName ident)] ?s))" for ident
      apply (rule holds_snd [where P = "\<lambda>s. wellFormed (files s) \<and> ?K s"])
       apply (rule holds_steps_Cons [where R = "\<lambda>s. wellFormed (files s) \<and> ?K s"])
        apply (rule holds_consoleLog, simp)
       apply (rule holds_steps_Cons [where R = "\<lambda>s. wellFormed (files s) \<and> ?K s"])
        apply (rule holds_consoleLog, simp)
       apply (rule holds_steps_Cons [OF kept_cleanupFrontend])
       apply (rule holds_steps_Nil, simp)
      apply (rule k)
      done
    then show ?thesis
      by (auto simp: runFrontend_def Let_def split: sum.splits option.splits json.splits)
  qed
  have backend: "?K (snd (runBackend parse (Some pluginPath) s)) \<or>
      snd (runBackend parse (Some pluginPath) s)
        = afterBanner pluginPath '' Cleaning up backend scaffolding junk...'' s"
  proof (cases "existsSync (files s) (packageJsonPath pluginPath)")
    case False
    then show ?thesis by (simp add: runBackend_def Let_def)
  next
    case True
    let ?s = "afterBanner pluginPath '' Cleaning up backend scaffolding junk...'' s"
    have k: "?K ?s"
      using manifestKept_start [OF wf h True] by simp
    have "?K (snd (steps [templateLog (\<lambda>text. wrench @ '' Plugin ID: '' @ text) ident,
                          cleanupBackend pluginPath ident] ?s))" for ident
      by (rule invariantD [where I = "?K", OF _ k], intro invariant_steps)
        (simp add: kept_templateLog kept_cleanupBackend)
    then show ?thesis
      by (auto simp: runBackend_def Let_def split: sum.splits option.splits)
  qed
  from front backend h show ?thesis
    by (auto simp: manifestKept_def)
qed

theorem manifest_only_read_witness:
  "wellFormed (files (startState (frontendTree manifestMyService componentSource pluginSource)))
   \<and> history (startState (frontendTree manifestMyService componentSource pluginSource)) = []
   \<and> lookup (files (snd (runFrontend parseExample (Some demoPath)
                 (startState (frontendTree manifestMyService componentSource pluginSource)))))
         (packageJsonPath demoPath)
       = Some (File manifestMyService)
   \<and> lookup (files (snd (runBackend parseExample (Some demoPath)
                 (startState (frontendTree manifestMyService componentSource pluginSource)))))
         (packageJsonPath demoPath)
       = Some (File manifestMyService)"
proof -
  let ?s = "startState (frontendTree manifestMyService componentSource pluginSource)"
  have wf: "wellFormed (files ?s)"
    by (simp add: startState_def frontendTree_def wellFormed_def lookup_def)
  have h: "history ?s = []"
    by (simp add: startState_def)
  have m: "lookup (files ?s) (packageJsonPath demoPath) = Some (File manifestMyService)"
    by (simp add: startState_def frontendTree_def lookup_def packageJsonPath_def demoPath_def)
  from manifest_only_read [OF wf h, of parseExample demoPath] wf h m
  show ?thesis by simp
qed

subsection \<open>The router of a backend plugin\<close>

lemma router_simplifyRouter:
  assumes "\<not> hasNul root"
  shows "holds (nodeIs (routerPath root) (Some (File c))) (simplifyRouter root)
           (nodeIs (routerPath root) (Some (File simpleRouter)))
           (nodeIs (routerPath root) (Some (File simpleRouter)))"
  unfolding simplifyRouter_def
proof (rule holds_ifExists)
  let ?r = "routerPath root"
  have nn: "\<not> hasNul ?r" using assms by (simp add: routerPath_def)
  show "holds (\<lambda>s. nodeIs ?r (Some (File c)) s \<and> existsSync (files s) ?r)
      (steps [fsCall (writeFileSync ?r simpleRouter),
              consoleLog (''  '' @ checkMark @ '' Replaced with simple /health endpoint'')])
      (nodeIs ?r (Some (File simpleRouter))) (nodeIs ?r (Some (File simpleRouter)))"
  proof (rule holds_steps_Cons [where R = "nodeIs ?r (Some (File simpleRouter))"])
    show "holds (\<lambda>s. nodeIs ?r (Some (File c)) s \<and> existsSync (files s) ?r)
        (fsCall (writeFileSync ?r simpleRouter))
        (nodeIs ?r (Some (File simpleRouter))) (nodeIs ?r (Some (File simpleRouter)))"
    proof (rule holds_fsCall)
      fix s :: state and fs'
      assume "writeFileSync ?r simpleRouter (files s) = Inr fs'"
      then show "nodeIs ?r (Some (File simpleRouter))
          (s\<lparr>files := fs', history := history s @ [fs']\<rparr>)"
        by (simp add: nodeIs_def lookup_writeFileSync)
    next
      fix s :: state and e
      assume "nodeIs ?r (Some (File c)) s \<and> existsSync (files s) ?r"
        and "writeFileSync ?r simpleRouter (files s) = Inl e"
      with nn show "nodeIs ?r (Some (File simpleRouter)) s"
        by (simp add: nodeIs_def writeFileSync_def)
    qed
    show "holds (nodeIs ?r (Some (File simpleRouter)))
        (steps [consoleLog (''  '' @ checkMark @ '' Replaced with simple /health endpoint'')])
        (nodeIs ?r (Some (File simpleRouter))) (nodeIs ?r (Some (File simpleRouter)))"
      by (intro invariant_holds invariant_steps) (simp add: nodeIs_consoleLog)
  qed
  show "\<And>s. nodeIs ?r (Some (File c)) s \<Longrightarrow> \<not> existsSync (files s) ?r \<Longrightarrow>
      nodeIs ?r (Some (File simpleRouter)) s"
    using nn by (simp add: nodeIs_def existsSync_def)
qed

lemma router_cleanupBackend:
  assumes "\<not> hasNul root"
  shows "holds (nodeIs (routerPath root) (Some (File c))) (cleanupBackend root pluginId)
           (nodeIs (routerPath root) (Some (File simpleRouter)))
           (nodeIs (routerPath root) (Some (File simpleRouter)))"
proof -
  let ?r = "routerPath root"
  let ?A = "nodeIs ?r (Some (File c))"
  let ?B = "nodeIs ?r (Some (File simpleRouter))"
  have lg: "holds ?A (consoleLog l) ?A ?B" for l
    by (rule holds_consoleLog) simp
  have "invariant ?A (removeServicesDir root)"
    unfolding removeServicesDir_def
    by (intro invariant_ifExists invariant_steps)
      (simp add: nodeIs_consoleLog nodeIs_rmSync servicesDir_def routerPath_def)
  moreover have "holds ?A (removeServicesDir root) ?A ?A \<Longrightarrow> holds ?A (removeServicesDir root) ?A ?B"
    unfolding removeServicesDir_def ifExists_def holds_def rmSync_def fsCall_def consoleLog_def
    by (auto split: option.splits prod.splits)
  ultimately have rm: "holds ?A (removeServicesDir root) ?A ?B"
    by (simp add: invariant_def)
  have rest: "holds ?B (steps fs) ?B ?B" if "list_all (invariant ?B) fs" for fs
    using that by (intro invariant_holds invariant_steps)
  have upd: "invariant ?B (updateBackendPluginFile root)"
    unfolding updateBackendPluginFile_def
    by (intro invariant_ifExists invariant_withFile invariant_steps)
      (simp add: nodeIs_consoleLog nodeIs_writeFileSync pluginFilePath_def routerPath_def)
  have t1: "invariant ?B (removePluginTest root)"
    unfolding removePluginTest_def
    by (intro invariant_ifExists invariant_steps)
      (simp add: nodeIs_consoleLog nodeIs_unlinkSync pluginTestPath_def routerPath_def)
  have t2: "invariant ?B (removeRouterTest root)"
    unfolding removeRouterTest_def
    by (intro invariant_ifExists invariant_steps)
      (simp add: nodeIs_consoleLog nodeIs_unlinkSync routerTestPath_def routerPath_def)
  have dv: "invariant ?B (removeDevDir root)"
    unfolding removeDevDir_def
    by (intro invariant_ifExists invariant_steps)
      (simp add: nodeIs_consoleLog nodeIs_rmSync devDir_def routerPath_def)
  show ?thesis
    unfolding cleanupBackend_def
    by (intro holds_steps_Cons [OF lg] holds_steps_Cons [OF rm]
        holds_steps_Cons [OF router_simplifyRouter [OF assms]] rest)
      (simp add: nodeIs_consoleLog nodeIs_templateLog upd t1 t2 dv)
qed

text \<open>
  C9.  When the manifest is valid (its identifier passes \<^verbatim>\<open>!pluginId\<close> and can be printed)
  and \<^verbatim>\<open>src/router.ts\<close> is a file, then after the backend script, however the run ends,
  \<^verbatim>\<open>src/router.ts\<close> is a file whose content is the constant router text with the single
  \<^verbatim>\<open>/health\<close> route, whatever its content was before: the content is replaced as a whole, it
  is not read.
\<close>

theorem router_replaced_by_constant:
  assumes "existsSync (files s) pluginPath"
    and "readFileSync (files s) (packageJsonPath pluginPath) = Inr text"
    and "parse text = Some manifest"
    and "pluginIdOf manifest = Inr (Some pluginId)"
    and "truthy (Some pluginId)"
    and "jsToString pluginId = Inr shown"
    and "lookup (files s) (routerPath pluginPath) = Some (File content)"
  shows "lookup (files (snd (runBackend parse (Some pluginPath) s))) (routerPath pluginPath)
           = Some (File simpleRouter)"
proof -
  let ?s = "afterBanner pluginPath '' Cleaning up backend scaffolding junk...'' s"
  let ?B = "nodeIs (routerPath pluginPath) (Some (File simpleRouter))"
  let ?run = "steps [consoleLog (wrench @ '' Plugin ID: '' @ shown),
                     cleanupBackend pluginPath pluginId]"
  from assms(1) have nn: "\<not> hasNul pluginPath" by (simp add: existsSync_def)
  from assms(2) have ex: "existsSync (files s) (packageJsonPath pluginPath)"
    by (auto simp: readFileSync_def existsSync_def split: if_splits option.splits)
  have a: "nodeIs (routerPath pluginPath) (Some (File content)) ?s"
    using assms(7) by (simp add: nodeIs_def)
  have "holds (nodeIs (routerPath pluginPath) (Some (File content))) ?run ?B ?B"
    by (intro holds_steps_Cons [OF _ holds_steps_Cons [OF router_cleanupBackend [OF nn]]]
        holds_steps_Nil holds_consoleLog) simp_all
  from holds_snd [OF this a] have "?B (snd (?run ?s))" .
  moreover have "runBackend parse (Some pluginPath) s = exitWith (?run ?s)"
    using assms ex by (simp add: runBackend_def Let_def templateLog_shown)
  ultimately show ?thesis
    by (simp add: nodeIs_def)
qed

text \<open>
  The identifier of the witness is a text.  An identifier that cannot be printed, such as
  an object with a member \<^verbatim>\<open>toString\<close>, ends the script before its first change.
\<close>

theorem router_replaced_by_constant_witness:
  "existsSync (files (startState (backendTree manifestMyService ''// edited by hand'' []))) demoPath
   \<and> readFileSync (files (startState (backendTree manifestMyService ''// edited by hand'' [])))
         (packageJsonPath demoPath) = Inr manifestMyService
   \<and> parseExample manifestMyService
       = Some (JObj [(''backstage'', JObj [(''pluginId'', JStr ''my-service'')])])
   \<and> pluginIdOf (JObj [(''backstage'', JObj [(''pluginId'', JStr ''my-service'')])])
       = Inr (Some (JStr ''my-service''))
   \<and> truthy (Some (JStr ''my-service''))
   \<and> jsToString (JStr ''my-service'') = Inr ''my-service''
   \<and> lookup (files (startState (backendTree manifestMyService ''// edited by hand'' [])))
         (routerPath demoPath) = Some (File ''// edited by hand'')
   \<and> lookup (files (snd (runBackend parseExample (Some demoPath)
                 (startState (backendTree manifestMyService ''// edited by hand'' [])))))
         (routerPath demoPath) = Some (File simpleRouter)"
proof -
  let ?s = "startState (backendTree manifestMyService ''// edited by hand'' [])"
  have e: "existsSync (files ?s) demoPath"
    by (simp add: startState_def backendTree_def demoPath_def existsSync_def lookup_def)
  have r: "readFileSync (files ?s) (packageJsonPath demoPath) = Inr manifestMyService"
    by (simp add: startState_def backendTree_def demoPath_def readFileSync_def lookup_def
        packageJsonPath_def)
  have p: "parseExample manifestMyService
      = Some (JObj [(''backstage'', JObj [(''pluginId'', JStr ''my-service'')])])"
    by (simp add: parseExample_def)
  have i: "pluginIdOf (JObj [(''backstage'', JObj [(''pluginId'', JStr ''my-service'')])])
      = Inr (Some (JStr ''my-service''))"
    by (simp add: pluginIdOf_def)
  have t: "truthy (Some (JStr ''my-service''))" by simp
  have j: "jsToString (JStr ''my-service'') = Inr ''my-service''" by simp
  have l: "lookup (files ?s) (routerPath demoPath) = Some (File ''// edited by hand'')"
    by (simp add: startState_def backendTree_def demoPath_def lookup_def routerPath_def)
  from router_replaced_by_constant [where parse = parseExample, OF e r p i t j l] e r p i t j l
  show ?thesis by simp
qed

subsection \<open>What the substitution of the placeholder name matches\<close>

lemma placeholder_in_context:
  assumes "CHR ''$'' \<notin> set name" "CHR ''E'' \<notin> set pre" "CHR ''f'' \<notin> set pre"
  shows "updateReferences name (pre @ ''ExampleComponent'' @ post)
           = pre @ name @ updateReferences name post"
proof -
  let ?t = "''from '' @ [CHR 0x27] @ ''./'' @ name @ [CHR 0x27]"
  have d: "CHR ''$'' \<notin> set ?t" using assms(1) by simp
  have f: "fromImportPattern = ([[CHR ''f'']], One) # tl fromImportPattern"
    by (simp add: fromImportPattern_def lit_def)
  have e: "placeholderPattern = ([[CHR ''E'']], One) # tl placeholderPattern"
    by (simp add: placeholderPattern_def lit_def)
  have "replaceAll fromImportPattern ?t ((pre @ ''ExampleComponent'') @ post)
      = (pre @ ''ExampleComponent'') @ replaceAll fromImportPattern ?t post"
    using assms(3) by (subst (1 2) f, intro replaceAll_skip_other [OF d]) simp
  moreover have "replaceAll placeholderPattern name
        (pre @ ''ExampleComponent'' @ replaceAll fromImportPattern ?t post)
      = pre @ replaceAll placeholderPattern name
          (''ExampleComponent'' @ replaceAll fromImportPattern ?t post)"
    using assms(2) by (subst (1 2) e, intro replaceAll_skip_other [OF assms(1)]) simp
  ultimately show ?thesis
    using replaceAll_lit_match [OF assms(1), of "''ExampleComponent''"]
    by (simp add: updateReferences_def placeholderPattern_def)
qed

text \<open>
  C5 (as the code has it).  The substitutions for the test file and for \<^verbatim>\<open>index.ts\<close> have no
  word boundary.  The second one, \<^verbatim>\<open>.replace(/ExampleComponent/g, componentName)\<close>, is applied
  to the text that the first one leaves and scans it from the left: where the text goes on
  with \<^verbatim>\<open>ExampleComponent\<close> it writes the component name and goes on behind the match,
  whatever follows; elsewhere it copies a character.  So a longer identifier that begins
  with the placeholder name does not stay as it is: of a text \<open>pre @ ''ExampleComponent'' @ post\<close>
  whose part \<open>pre\<close> has no \<^verbatim>\<open>E\<close> and no \<^verbatim>\<open>f\<close> (no match of either substitution begins in it),
  the result is \<open>pre\<close>, the component name, and the result of \<open>post\<close>.  (The component name is
  taken without a dollar sign, which the replacement text would expand.)
\<close>

theorem placeholder_replaced_inside_identifiers:
  assumes "CHR ''$'' \<notin> set name" "CHR ''E'' \<notin> set pre" "CHR ''f'' \<notin> set pre"
  shows "updateReferences name (pre @ ''ExampleComponent'' @ post)
           = pre @ name @ updateReferences name post
         \<and> updateReferences name content
           = replaceAll placeholderPattern name
               (replaceAll fromImportPattern (''from '' @ [CHR 0x27] @ ''./'' @ name @ [CHR 0x27])
                  content)
         \<and> replaceAll placeholderPattern name [] = []
         \<and> replaceAll placeholderPattern name (''ExampleComponent'' @ rest)
           = name @ replaceAll placeholderPattern name rest
         \<and> (\<not> prefix ''ExampleComponent'' (c # tail) \<longrightarrow>
              replaceAll placeholderPattern name (c # tail)
                = c # replaceAll placeholderPattern name tail)"
  using placeholder_in_context [OF assms]
    replaceAll_lit_match [OF assms(1), of "''ExampleComponent''" rest]
    replaceAll_lit_no_match [OF assms(1), of "''ExampleComponent''" c tail]
    replaceAll_Nil_lit [of "''ExampleComponent''" name]
  by (simp add: updateReferences_def placeholderPattern_def)

text \<open>
  The claim as stated fails: \<^verbatim>\<open>ExampleComponentWrapper\<close> does not stay as it is.
\<close>

theorem placeholder_replaced_inside_identifiers_counterexample:
  "updateReferences (componentName ''my-service'') ''<ExampleComponentWrapper />''
     = ''<MyServicePageWrapper />''"
  by code_simp

theorem placeholder_replaced_inside_identifiers_witness:
  "CHR ''$'' \<notin> set (componentName ''my-service'')
   \<and> CHR ''E'' \<notin> set ''<'' \<and> CHR ''f'' \<notin> set ''<''
   \<and> \<not> prefix ''ExampleComponent'' (CHR ''W'' # ''rapper />'')
   \<and> updateReferences (componentName ''my-service'') (''<'' @ ''ExampleComponent'' @ ''Wrapper />'')
       = ''<'' @ componentName ''my-service''
         @ updateReferences (componentName ''my-service'') ''Wrapper />''
   \<and> updateReferences (componentName ''my-service'') testSource
       = replaceAll placeholderPattern (componentName ''my-service'')
           (replaceAll fromImportPattern
              (''from '' @ [CHR 0x27] @ ''./'' @ componentName ''my-service'' @ [CHR 0x27])
              testSource)
   \<and> replaceAll placeholderPattern (componentName ''my-service'') [] = []
   \<and> replaceAll placeholderPattern (componentName ''my-service'')
         (''ExampleComponent'' @ ''Wrapper />'')
       = componentName ''my-service''
         @ replaceAll placeholderPattern (componentName ''my-service'') ''Wrapper />''
   \<and> replaceAll placeholderPattern (componentName ''my-service'') (CHR ''W'' # ''rapper />'')
       = CHR ''W'' # replaceAll placeholderPattern (componentName ''my-service'') ''rapper />''"
proof -
  have d: "CHR ''$'' \<notin> set (componentName ''my-service'')"
    by code_simp
  have e: "CHR ''E'' \<notin> set ''<''" and f: "CHR ''f'' \<notin> set ''<''" by simp_all
  have n: "\<not> prefix ''ExampleComponent'' (CHR ''W'' # ''rapper />'')" by simp
  from placeholder_replaced_inside_identifiers [where post = "''Wrapper />''"
      and content = testSource and rest = "''Wrapper />''" and c = "CHR ''W''"
      and tail = "''rapper />''", OF d e f] d e f n
  show ?thesis by blast
qed

subsection \<open>The renamed files are written before the originals are removed\<close>

lemma renamed_paths_endsWith:
  "endsWith ''Page.tsx'' (newComponentFilePath d (componentName ident))"
  "endsWith ''Page.test.tsx'' (newTestFilePath d (componentName ident))"
  using joinPath_endsWith [of "''Page.tsx''" d "toPascalCase ident"]
    joinPath_endsWith [of "''Page.test.tsx''" d "toPascalCase ident"]
  by (simp_all add: newComponentFilePath_def newTestFilePath_def componentName_def)

lemma renamed_paths_differ:
  "newComponentFilePath d (componentName ident) \<noteq> componentFilePath d'"
  "newComponentFilePath d (componentName ident) \<noteq> testFilePath d'"
  "newTestFilePath d (componentName ident) \<noteq> componentFilePath d'"
  "newTestFilePath d (componentName ident) \<noteq> testFilePath d'"
  "componentFilePath d \<noteq> testFilePath d'"
  using renamed_paths_endsWith [of d ident]
  by (auto simp: endsWith_def componentFilePath_def testFilePath_def suffix_to_prefix)

lemma exampleComponentDir_not_new:
  "exampleComponentDir root \<noteq> newComponentDir root (componentName ident)"
proof
  assume eq: "exampleComponentDir root = newComponentDir root (componentName ident)"
  have "endsWith ''Page'' (exampleComponentDir root)"
    unfolding eq by (rule new_paths_endsWith)
  then show False
    by (simp add: endsWith_def exampleComponentDir_def componentsDir_def suffix_to_prefix)
qed

lemma tracked_renameComponent:
  assumes old: "old = componentFilePath (newComponentDir root (componentName ident))
                 \<and> new = newComponentFilePath (newComponentDir root (componentName ident))
                           (componentName ident)
                 \<and> f = updateComponentContent (componentName ident)
               \<or> old = testFilePath (newComponentDir root (componentName ident))
                 \<and> new = newTestFilePath (newComponentDir root (componentName ident))
                           (componentName ident)
                 \<and> f = updateReferences (componentName ident)"
  shows "holds (\<lambda>s. wellFormed (files s) \<and> tracked old new f fs0 n0 s)
           (renameComponent root (componentName ident))
           (tracked old new f fs0 n0) (tracked old new f fs0 n0)"
proof -
  let ?name = "componentName ident"
  let ?d = "newComponentDir root ?name"
  let ?T = "tracked old new f fs0 n0"
  let ?P = "\<lambda>s. wellFormed (files s) \<and> ?T s"
  from old obtain x where x: "old = ?d @ [x]"
    by (auto simp: componentFilePath_def testFilePath_def)
  have lg: "holds ?P (consoleLog l) ?P ?T" for l
    by (rule holds_consoleLog) simp
  have rn: "holds ?P (fsCall (renameSync (exampleComponentDir root) ?d)) ?T ?T"
  proof (rule holds_fsCall)
    fix s :: state and fs'
    assume pre: "?P s" and ok: "renameSync (exampleComponentDir root) ?d (files s) = Inr fs'"
    from pre have wf: "wellFormed (files s)" by simp
    have "removalOK old new f (files s) fs'"
      unfolding x by (rule removalOK_renameSync [OF wf ok exampleComponentDir_not_new])
    with pre show "?T (s\<lparr>files := fs', history := history s @ [fs']\<rparr>)"
      by (auto intro: tracked_step)
  qed simp
  have c: "invariant ?T (updateComponentFile ?d ?name)"
    using old
  proof (elim disjE conjE)
    assume "old = componentFilePath ?d" "new = newComponentFilePath ?d ?name"
      "f = updateComponentContent ?name"
    then show ?thesis
      unfolding updateComponentFile_def
      by (simp add: tracked_own_rewrite renamed_paths_differ)
  next
    assume "old = testFilePath ?d"
    then show ?thesis
      unfolding updateComponentFile_def
      by (simp add: tracked_other_rewrite renamed_paths_differ)
  qed
  have t: "invariant ?T (updateTestFile ?d ?name)"
    using old
  proof (elim disjE conjE)
    assume "old = componentFilePath ?d"
    then show ?thesis
      unfolding updateTestFile_def
      using renamed_paths_differ(5) [of ?d ?d]
      by (intro tracked_other_rewrite) auto
  next
    assume "old = testFilePath ?d" "new = newTestFilePath ?d ?name"
      "f = updateReferences ?name"
    then show ?thesis
      unfolding updateTestFile_def
      by (simp add: tracked_own_rewrite renamed_paths_differ)
  qed
  have rest: "holds ?T
      (steps [consoleLog ''  - Updating component file...'', updateComponentFile ?d ?name,
              updateTestFile ?d ?name, updateIndexFile ?d ?name]) ?T ?T"
    by (intro invariant_holds invariant_steps)
      (simp add: tracked_consoleLog c t tracked_updateIndexFile)
  have "holds ?P
      (steps [consoleLog (''  - Renaming ExampleComponent/ '' @ rightArrow @ '' '' @ ?name @ ''/''),
              fsCall (renameSync (exampleComponentDir root) ?d),
              consoleLog ''  - Updating component file...'', updateComponentFile ?d ?name,
              updateTestFile ?d ?name, updateIndexFile ?d ?name]) ?T ?T"
    by (rule holds_steps_Cons [OF lg holds_steps_Cons [OF rn rest]])
  then show ?thesis
    unfolding renameComponent_def
    by (intro holds_ifExists) (auto elim: holds_weaken)
qed

text \<open>
  C7.  In the rename block of the frontend script, started on a well-formed tree, the
  changes satisfy write before delete for the component file and for the test file: at
  the change that removes \<^verbatim>\<open>ExampleComponent.tsx\<close> (or \<^verbatim>\<open>ExampleComponent.test.tsx\<close>) from the
  renamed directory, the file under the new name, with the rewritten content of the
  original, is on disk before the change and after it.  This holds for every prefix of
  the block's changes, so also when a later call throws.
\<close>

theorem written_before_removed:
  assumes "wellFormed (files s)"
  shows "writtenBeforeRemoved
           (componentFilePath (newComponentDir pluginPath (componentName ident)))
           (newComponentFilePath (newComponentDir pluginPath (componentName ident))
              (componentName ident))
           (updateComponentContent (componentName ident))
           (files s # drop (length (history s))
              (history (snd (renameComponent pluginPath (componentName ident) s))))
         \<and> writtenBeforeRemoved
           (testFilePath (newComponentDir pluginPath (componentName ident)))
           (newTestFilePath (newComponentDir pluginPath (componentName ident))
              (componentName ident))
           (updateReferences (componentName ident))
           (files s # drop (length (history s))
              (history (snd (renameComponent pluginPath (componentName ident) s))))"
proof -
  have "tracked old new f (files s) (length (history s))
          (snd (renameComponent pluginPath (componentName ident) s))"
    if "old = componentFilePath (newComponentDir pluginPath (componentName ident))
          \<and> new = newComponentFilePath (newComponentDir pluginPath (componentName ident))
                    (componentName ident)
          \<and> f = updateComponentContent (componentName ident)
        \<or> old = testFilePath (newComponentDir pluginPath (componentName ident))
          \<and> new = newTestFilePath (newComponentDir pluginPath (componentName ident))
                    (componentName ident)
          \<and> f = updateReferences (componentName ident)" for old new f
    using assms tracked_start [of old new f s]
    by (intro holds_snd [OF tracked_renameComponent [OF that]]) simp
  then show ?thesis
    by (simp add: tracked_def)
qed

theorem written_before_removed_witness:
  "wellFormed (files (startState (frontendTree manifestMyService componentSource pluginSource)))
   \<and> length (history (snd (renameComponent demoPath (componentName ''my-service'')
         (startState (frontendTree manifestMyService componentSource pluginSource))))) = 6
   \<and> writtenBeforeRemoved
         (componentFilePath (newComponentDir demoPath (componentName ''my-service'')))
         (newComponentFilePath (newComponentDir demoPath (componentName ''my-service''))
            (componentName ''my-service''))
         (updateComponentContent (componentName ''my-service''))
         (files (startState (frontendTree manifestMyService componentSource pluginSource))
          # drop (length (history (startState
                (frontendTree manifestMyService componentSource pluginSource))))
              (history (snd (renameComponent demoPath (componentName ''my-service'')
                 (startState (frontendTree manifestMyService componentSource pluginSource))))))
   \<and> writtenBeforeRemoved
         (testFilePath (newComponentDir demoPath (componentName ''my-service'')))
         (newTestFilePath (newComponentDir demoPath (componentName ''my-service''))
            (componentName ''my-service''))
         (updateReferences (componentName ''my-service''))
         (files (startState (frontendTree manifestMyService componentSource pluginSource))
          # drop (length (history (startState
                (frontendTree manifestMyService componentSource pluginSource))))
              (history (snd (renameComponent demoPath (componentName ''my-service'')
                 (startState (frontendTree manifestMyService componentSource pluginSource))))))"
proof -
  let ?s = "startState (frontendTree manifestMyService componentSource pluginSource)"
  have wf: "wellFormed (files ?s)"
    by (simp add: startState_def frontendTree_def wellFormed_def lookup_def)
  have n: "length (history (snd (renameComponent demoPath (componentName ''my-service'') ?s))) = 6"
    by code_simp
  from written_before_removed [OF wf, of demoPath "''my-service''"] wf n
  show ?thesis by simp
qed

subsection \<open>The rename block skips what is missing\<close>

text \<open>
  C8.  When the placeholder directory does not exist, the rename block does nothing: it
  completes and the state (files, output, history) is the one it started with.  When
  the directory exists in a well-formed tree and is renamed, but holds no
  \<^verbatim>\<open>ExampleComponent.tsx\<close>, only the component step is skipped, and each of the two other
  steps depends on its own file alone.  Whether or not the test file is there and
  whether or not \<^verbatim>\<open>index.ts\<close> is there (\<open>testContent\<close> and \<open>indexContent\<close> are \<open>None\<close> for a
  file that is missing): the block completes; the test file, if there, is written under
  the new name with its references updated and the original removed (two changes), and
  otherwise nothing is written for it; \<^verbatim>\<open>index.ts\<close>, if there, is rewritten (one change), and
  otherwise stays missing; with the rename these are all the changes.  Nothing is written
  for the component file: what the directory held under the new name of the component
  file it still holds, and so for the new name of the test file when there is no test
  file.  (The component name has no slash, so the new names lie in the renamed directory,
  and the new name of the test file is not the name of a directory in it.)
\<close>

theorem missing_component_file_skips_one_step:
  assumes wf: "wellFormed (files s)"
    and slash: "CHR ''/'' \<notin> set (componentName ident)"
    and rn: "renameSync (exampleComponentDir pluginPath)
               (newComponentDir pluginPath (componentName ident)) (files s) = Inr fs1"
    and nocomp: "lookup (files s) (exampleComponentDir pluginPath @ [''ExampleComponent.tsx''])
                   = None"
    and test: "lookup (files s) (exampleComponentDir pluginPath @ [''ExampleComponent.test.tsx''])
                 = map_option File testContent"
    and index: "lookup (files s) (exampleComponentDir pluginPath @ [''index.ts''])
                  = map_option File indexContent"
    and free: "lookup (files s)
                 (exampleComponentDir pluginPath @ [componentName ident @ ''.test.tsx''])
                 \<noteq> Some Dir"
  shows "(\<forall>s0. \<not> existsSync (files s0) (exampleComponentDir pluginPath) \<longrightarrow>
            renameComponent pluginPath (componentName ident) s0 = (None, s0))
         \<and> fst (renameComponent pluginPath (componentName ident) s) = None
         \<and> length (history (snd (renameComponent pluginPath (componentName ident) s)))
             = length (history s) + 1
               + (case testContent of None \<Rightarrow> 0 | Some t \<Rightarrow> 2)
               + (case indexContent of None \<Rightarrow> 0 | Some i \<Rightarrow> 1)
         \<and> lookup (files (snd (renameComponent pluginPath (componentName ident) s)))
              (newComponentDir pluginPath (componentName ident)
               @ [componentName ident @ ''.test.tsx''])
             = (case testContent of
                  None \<Rightarrow>
                    lookup (files s)
                      (exampleComponentDir pluginPath @ [componentName ident @ ''.test.tsx''])
                | Some t \<Rightarrow> Some (File (updateReferences (componentName ident) t)))
         \<and> lookup (files (snd (renameComponent pluginPath (componentName ident) s)))
              (newComponentDir pluginPath (componentName ident) @ [''ExampleComponent.test.tsx''])
             = None
         \<and> lookup (files (snd (renameComponent pluginPath (componentName ident) s)))
              (newComponentDir pluginPath (componentName ident) @ [''index.ts''])
             = map_option (\<lambda>i. File (updateReferences (componentName ident) i)) indexContent
         \<and> lookup (files (snd (renameComponent pluginPath (componentName ident) s)))
              (newComponentDir pluginPath (componentName ident) @ [componentName ident @ ''.tsx''])
             = lookup (files s) (exampleComponentDir pluginPath @ [componentName ident @ ''.tsx''])
         \<and> lookup (files (snd (renameComponent pluginPath (componentName ident) s)))
              (newComponentDir pluginPath (componentName ident) @ [''ExampleComponent.tsx''])
             = None"
proof -
  let ?name = "componentName ident"
  let ?old = "exampleComponentDir pluginPath"
  let ?d = "newComponentDir pluginPath ?name"
  let ?newTest = "?d @ [?name @ ''.test.tsx'']"
  let ?oldTest = "?d @ [''ExampleComponent.test.tsx'']"
  let ?index = "?d @ [''index.ts'']"
  have ne: "?old \<noteq> ?d" by (rule exampleComponentDir_not_new)
  have moved: "lookup fs1 (?d @ r) = lookup (files s) (?old @ r)" for r
    by (rule lookup_renameSync_moved [OF wf rn ne])
  have nul: "\<not> hasNul ?old" "\<not> hasNul ?d"
    using renameSync_noNul [OF rn] by simp_all
  have d: "?d = componentsDir pluginPath @ [?name]"
    using slash by (simp add: newComponentDir_def joinPath_simple componentName_not_dots)
  from nul(2) have nameNul: "CHR 0x00 \<notin> set ?name" by (simp add: d)
  have newTest: "newTestFilePath ?d ?name = ?newTest"
    using slash by (simp add: newTestFilePath_def joinPath_simple componentName_not_dots)
  have names: "?name @ ''.test.tsx'' \<noteq> ''ExampleComponent.test.tsx''"
    "?name @ ''.test.tsx'' \<noteq> ''index.ts''" "?name @ ''.tsx'' \<noteq> ''index.ts''"
    "?name @ ''.tsx'' \<noteq> ''ExampleComponent.test.tsx''"
    "?name @ ''.tsx'' \<noteq> ?name @ ''.test.tsx''"
    "?name @ ''.tsx'' \<noteq> ''ExampleComponent.tsx''"
    "?name @ ''.test.tsx'' \<noteq> ''ExampleComponent.tsx''"
    by (auto simp: componentName_def dest: arg_cong [where f = rev])
  from renameSync_success(4) [OF rn ne] have "lookup (files s) ?old \<noteq> None" .
  with nul have ex: "existsSync (files s) ?old"
    by (simp add: existsSync_def)
  have dirOld: "lookup (files s) ?old = Some Dir" if "testContent \<noteq> None"
    using wellFormed_ancestor [OF wf, of ?old "[''ExampleComponent.test.tsx'']"] test that
    by auto
  let ?s1 = "s\<lparr>stdout := stdout s
                @ [''  - Renaming ExampleComponent/ '' @ rightArrow @ '' '' @ ?name @ ''/'']\<rparr>"
  let ?s2 = "?s1\<lparr>files := fs1, history := history ?s1 @ [fs1]\<rparr>"
  let ?s3 = "?s2\<lparr>stdout := stdout ?s2 @ [''  - Updating component file...'']\<rparr>"
  have c: "updateComponentFile ?d ?name ?s3 = (None, ?s3)"
    using moved [of "[''ExampleComponent.tsx'']"] nocomp
    by (intro updateComponentFile_skipped) simp
  have "\<exists>s'. updateTestFile ?d ?name ?s3 = (None, s')
      \<and> length (history s') = length (history ?s3)
          + (case testContent of None \<Rightarrow> 0 | Some t \<Rightarrow> 2)
      \<and> (\<forall>q. lookup (files s') q =
            (if q = ?newTest
             then (case testContent of
                     None \<Rightarrow> lookup (files ?s3) q
                   | Some t \<Rightarrow> Some (File (updateReferences ?name t)))
             else if q = ?oldTest then None
             else lookup (files ?s3) q))"
    using moved [of "[''ExampleComponent.test.tsx'']"] moved [of "[?name @ ''.test.tsx'']"]
      moved [of "[]"] test free dirOld
    by (intro updateTestFile_outcome nul nameNul newTest names) simp_all
  then obtain s4 where t: "updateTestFile ?d ?name ?s3 = (None, s4)"
    and h4: "length (history s4) = length (history ?s3)
          + (case testContent of None \<Rightarrow> 0 | Some t \<Rightarrow> 2)"
    and l4: "\<And>q. lookup (files s4) q =
            (if q = ?newTest
             then (case testContent of
                     None \<Rightarrow> lookup (files ?s3) q
                   | Some t \<Rightarrow> Some (File (updateReferences ?name t)))
             else if q = ?oldTest then None
             else lookup (files ?s3) q)"
    by blast
  have idx4: "lookup (files s4) ?index = map_option File indexContent"
    using moved [of "[''index.ts'']"] index names by (simp add: l4)
  from updateIndexFile_outcome [OF nul(2) idx4, of ?name]
  obtain s5 where i: "updateIndexFile ?d ?name s4 = (None, s5)"
    and h5: "length (history s5) = length (history s4)
          + (case indexContent of None \<Rightarrow> 0 | Some i \<Rightarrow> 1)"
    and l5: "\<And>q. lookup (files s5) q =
            (if q = ?index
             then map_option (\<lambda>i. File (updateReferences ?name i)) indexContent
             else lookup (files s4) q)"
    by blast
  have run: "renameComponent pluginPath ?name s = (None, s5)"
    unfolding renameComponent_def ifExists_present [OF ex]
    using c t i by (simp add: consoleLog_def fsCall_def rn)
  have skip: "\<forall>s0. \<not> existsSync (files s0) ?old \<longrightarrow>
      renameComponent pluginPath ?name s0 = (None, s0)"
    by (simp add: renameComponent_def ifExists_def)
  show ?thesis
    unfolding run
    using skip names names [symmetric] h4 h5 moved [of "[?name @ ''.tsx'']"]
      moved [of "[''ExampleComponent.tsx'']"] moved [of "[?name @ ''.test.tsx'']"] nocomp
    by (simp add: l5 l4 split: option.splits)
qed

theorem missing_component_file_skips_one_step_witness:
  "wellFormed (files (startState treeWithIndexOnly))
   \<and> wellFormed (files (startState treeWithTestOnly))
   \<and> CHR ''/'' \<notin> set (componentName ''my-service'')
   \<and> renameSync (exampleComponentDir demoPath)
         (newComponentDir demoPath (componentName ''my-service''))
         (files (startState treeWithIndexOnly))
       = Inr (moveTree (exampleComponentDir demoPath)
                (newComponentDir demoPath (componentName ''my-service'')) treeWithIndexOnly)
   \<and> renameSync (exampleComponentDir demoPath)
         (newComponentDir demoPath (componentName ''my-service''))
         (files (startState treeWithTestOnly))
       = Inr (moveTree (exampleComponentDir demoPath)
                (newComponentDir demoPath (componentName ''my-service'')) treeWithTestOnly)
   \<and> lookup (files (startState treeWithIndexOnly))
         (exampleComponentDir demoPath @ [''ExampleComponent.tsx'']) = None
   \<and> lookup (files (startState treeWithIndexOnly))
         (exampleComponentDir demoPath @ [''ExampleComponent.test.tsx'']) = None
   \<and> lookup (files (startState treeWithIndexOnly))
         (exampleComponentDir demoPath @ [''index.ts'']) = Some (File indexSource)
   \<and> lookup (files (startState treeWithIndexOnly))
         (exampleComponentDir demoPath @ [componentName ''my-service'' @ ''.test.tsx''])
       \<noteq> Some Dir
   \<and> lookup (files (startState treeWithTestOnly))
         (exampleComponentDir demoPath @ [''ExampleComponent.tsx'']) = None
   \<and> lookup (files (startState treeWithTestOnly))
         (exampleComponentDir demoPath @ [''ExampleComponent.test.tsx'']) = Some (File testSource)
   \<and> lookup (files (startState treeWithTestOnly))
         (exampleComponentDir demoPath @ [''index.ts'']) = None
   \<and> lookup (files (startState treeWithTestOnly))
         (exampleComponentDir demoPath @ [componentName ''my-service'' @ ''.test.tsx''])
       \<noteq> Some Dir
   \<and> \<not> existsSync (files (startState bareTree)) (exampleComponentDir demoPath)
   \<and> renameComponent demoPath (componentName ''my-service'') (startState bareTree)
       = (None, startState bareTree)
   \<and> fst (renameComponent demoPath (componentName ''my-service'')
            (startState treeWithIndexOnly)) = None
   \<and> length (history (snd (renameComponent demoPath (componentName ''my-service'')
                 (startState treeWithIndexOnly)))) = 2
   \<and> lookup (files (snd (renameComponent demoPath (componentName ''my-service'')
                 (startState treeWithIndexOnly))))
         (newComponentDir demoPath (componentName ''my-service'')
          @ [componentName ''my-service'' @ ''.test.tsx''])
       = None
   \<and> lookup (files (snd (renameComponent demoPath (componentName ''my-service'')
                 (startState treeWithIndexOnly))))
         (newComponentDir demoPath (componentName ''my-service'') @ [''index.ts''])
       = Some (File (updateReferences (componentName ''my-service'') indexSource))
   \<and> fst (renameComponent demoPath (componentName ''my-service'')
            (startState treeWithTestOnly)) = None
   \<and> length (history (snd (renameComponent demoPath (componentName ''my-service'')
                 (startState treeWithTestOnly)))) = 3
   \<and> lookup (files (snd (renameComponent demoPath (componentName ''my-service'')
                 (startState treeWithTestOnly))))
         (newComponentDir demoPath (componentName ''my-service'')
          @ [componentName ''my-service'' @ ''.test.tsx''])
       = Some (File (updateReferences (componentName ''my-service'') testSource))
   \<and> lookup (files (snd (renameComponent demoPath (componentName ''my-service'')
                 (startState treeWithTestOnly))))
         (newComponentDir demoPath (componentName ''my-service'') @ [''ExampleComponent.test.tsx''])
       = None
   \<and> lookup (files (snd (renameComponent demoPath (componentName ''my-service'')
                 (startState treeWithTestOnly))))
         (newComponentDir demoPath (componentName ''my-service'') @ [''index.ts''])
       = None"
proof -
  let ?a = "startState treeWithIndexOnly"
  let ?b = "startState treeWithTestOnly"
  let ?old = "exampleComponentDir demoPath"
  let ?d = "newComponentDir demoPath (componentName ''my-service'')"
  have wfa: "wellFormed (files ?a)" and wfb: "wellFormed (files ?b)" by code_simp+
  have sl: "CHR ''/'' \<notin> set (componentName ''my-service'')" by code_simp
  have rna: "renameSync ?old ?d (files ?a) = Inr (moveTree ?old ?d treeWithIndexOnly)"
    and rnb: "renameSync ?old ?d (files ?b) = Inr (moveTree ?old ?d treeWithTestOnly)"
    by code_simp+
  have nca: "lookup (files ?a) (?old @ [''ExampleComponent.tsx'']) = None"
    and ta: "lookup (files ?a) (?old @ [''ExampleComponent.test.tsx'']) = None"
    and ia: "lookup (files ?a) (?old @ [''index.ts'']) = Some (File indexSource)"
    and fa: "lookup (files ?a) (?old @ [componentName ''my-service'' @ ''.test.tsx'']) = None"
    and ncb: "lookup (files ?b) (?old @ [''ExampleComponent.tsx'']) = None"
    and tb: "lookup (files ?b) (?old @ [''ExampleComponent.test.tsx'']) = Some (File testSource)"
    and ib: "lookup (files ?b) (?old @ [''index.ts'']) = None"
    and fb: "lookup (files ?b) (?old @ [componentName ''my-service'' @ ''.test.tsx'']) = None"
    by code_simp+
  have b: "\<not> existsSync (files (startState bareTree)) ?old"
    by code_simp
  have h: "history ?a = []" "history ?b = []" by (simp_all add: startState_def)
  from fa fb
  have fa': "lookup (files ?a) (?old @ [componentName ''my-service'' @ ''.test.tsx''])
      \<noteq> Some Dir"
    and fb': "lookup (files ?b) (?old @ [componentName ''my-service'' @ ''.test.tsx''])
      \<noteq> Some Dir"
    by simp_all
  note hyps = wfa wfb sl rna rnb nca ta ia fa fa' ncb tb ib fb fb' b h
  from missing_component_file_skips_one_step [where testContent = None
      and indexContent = "Some indexSource", OF wfa sl rna nca _ _ fa']
    missing_component_file_skips_one_step [where testContent = "Some testSource"
      and indexContent = None, OF wfb sl rnb ncb _ _ fb'] hyps
  show ?thesis by simp
qed

subsection \<open>Removing the targets\<close>

lemma rmSync_block:
  assumes "existsSync (files s) d"
  shows "ifExists d (steps [consoleLog line, fsCall (rmSync d)]) s
     = (None, s\<lparr>stdout := stdout s @ [line],
                 files := filter (\<lambda>(q, n). \<not> prefix d q) (files s),
                 history := history s @ [filter (\<lambda>(q, n). \<not> prefix d q) (files s)]\<rparr>)"
  using assms by (simp add: ifExists_def consoleLog_def fsCall_def rmSync_def)

lemma unlinkSync_block:
  assumes "existsSync (files s) p" "lookup (files s) p = Some (File c)"
  shows "ifExists p (steps [consoleLog line, fsCall (unlinkSync p)]) s
     = (None, s\<lparr>stdout := stdout s @ [line],
                 files := filter (\<lambda>(q, n). q \<noteq> p) (files s),
                 history := history s @ [filter (\<lambda>(q, n). q \<noteq> p) (files s)]\<rparr>)"
  using assms
  by (simp add: ifExists_def consoleLog_def fsCall_def unlinkSync_def existsSync_def)

lemma lookup_filter_prefix:
  "q \<noteq> [] \<Longrightarrow>
   lookup (filter (\<lambda>(k, n). \<not> prefix d k) fs) q = (if prefix d q then None else lookup fs q)"
  by (simp add: lookup_def map_of_filter_key)

text \<open>
  C6 (as the code has it).  When every removal target of a script is absent, its removal
  blocks complete and leave the state as it was: nothing is deleted and nothing is
  printed, so no outcome is reported for an absent target.  A directory target that exists
  (\<^verbatim>\<open>src/services\<close>, \<^verbatim>\<open>src/components/ExampleFetchComponent\<close>, \<^verbatim>\<open>dev\<close>) is removed with
  everything below it, after one line \<^verbatim>\<open>- Removing ...\<close> is printed; a file target that
  exists as a file (\<^verbatim>\<open>src/plugin.test.ts\<close>, \<^verbatim>\<open>src/router.test.ts\<close>) is unlinked after such a
  line, and nothing else changes.
\<close>

theorem remover_outcomes:
  "(\<not> existsSync (files s) (servicesDir pluginPath)
      \<and> \<not> existsSync (files s) (pluginTestPath pluginPath)
      \<and> \<not> existsSync (files s) (routerTestPath pluginPath)
      \<and> \<not> existsSync (files s) (devDir pluginPath)
      \<longrightarrow> removerBackend pluginPath s = (None, s))
   \<and> (\<not> existsSync (files s) (exampleFetchDir pluginPath)
      \<and> \<not> existsSync (files s) (devDir pluginPath)
      \<and> \<not> existsSync (files s) (pluginTestPath pluginPath)
      \<longrightarrow> removerFrontend pluginPath s = (None, s))
   \<and> (existsSync (files s) (servicesDir pluginPath) \<longrightarrow>
        fst (removeServicesDir pluginPath s) = None
        \<and> stdout (snd (removeServicesDir pluginPath s))
            = stdout s @ [''  - Removing services/ (TodoListService with 150+ lines)'']
        \<and> (\<forall>q. q \<noteq> [] \<longrightarrow> lookup (files (snd (removeServicesDir pluginPath s))) q
              = (if prefix (servicesDir pluginPath) q then None else lookup (files s) q)))
   \<and> (existsSync (files s) (exampleFetchDir pluginPath) \<longrightarrow>
        fst (removeExampleFetch pluginPath s) = None
        \<and> stdout (snd (removeExampleFetch pluginPath s))
            = stdout s @ [''  - Removing ExampleFetchComponent/ (mock data junk)'']
        \<and> (\<forall>q. q \<noteq> [] \<longrightarrow> lookup (files (snd (removeExampleFetch pluginPath s))) q
              = (if prefix (exampleFetchDir pluginPath) q then None else lookup (files s) q)))
   \<and> (existsSync (files s) (devDir pluginPath) \<longrightarrow>
        fst (removeDevDir pluginPath s) = None
        \<and> stdout (snd (removeDevDir pluginPath s)) = stdout s @ [''  - Removing dev/'']
        \<and> (\<forall>q. q \<noteq> [] \<longrightarrow> lookup (files (snd (removeDevDir pluginPath s))) q
              = (if prefix (devDir pluginPath) q then None else lookup (files s) q)))
   \<and> (existsSync (files s) (pluginTestPath pluginPath)
        \<and> lookup (files s) (pluginTestPath pluginPath) = Some (File c) \<longrightarrow>
        fst (removePluginTest pluginPath s) = None
        \<and> stdout (snd (removePluginTest pluginPath s))
            = stdout s @ [''  - Removing plugin.test.ts'']
        \<and> (\<forall>q. lookup (files (snd (removePluginTest pluginPath s))) q
              = (if q = pluginTestPath pluginPath then None else lookup (files s) q)))
   \<and> (existsSync (files s) (routerTestPath pluginPath)
        \<and> lookup (files s) (routerTestPath pluginPath) = Some (File c') \<longrightarrow>
        fst (removeRouterTest pluginPath s) = None
        \<and> stdout (snd (removeRouterTest pluginPath s))
            = stdout s @ [''  - Removing router.test.ts'']
        \<and> (\<forall>q. lookup (files (snd (removeRouterTest pluginPath s))) q
              = (if q = routerTestPath pluginPath then None else lookup (files s) q)))"
proof (intro conjI impI)
  assume "\<not> existsSync (files s) (servicesDir pluginPath)
      \<and> \<not> existsSync (files s) (pluginTestPath pluginPath)
      \<and> \<not> existsSync (files s) (routerTestPath pluginPath)
      \<and> \<not> existsSync (files s) (devDir pluginPath)"
  then show "removerBackend pluginPath s = (None, s)"
    by (simp add: removerBackend_def removeServicesDir_def removePluginTest_def
        removeRouterTest_def removeDevDir_def ifExists_def)
next
  assume "\<not> existsSync (files s) (exampleFetchDir pluginPath)
      \<and> \<not> existsSync (files s) (devDir pluginPath)
      \<and> \<not> existsSync (files s) (pluginTestPath pluginPath)"
  then show "removerFrontend pluginPath s = (None, s)"
    by (simp add: removerFrontend_def removeExampleFetch_def removePluginTest_def
        removeDevDir_def ifExists_def)
qed (simp_all add: removeServicesDir_def removeExampleFetch_def removeDevDir_def
    removePluginTest_def removeRouterTest_def rmSync_block unlinkSync_block
    lookup_filter_prefix lookup_filter_neq pluginTestPath_def routerTestPath_def)

text \<open>
  The claim as stated fails: with every target absent, the removal blocks print nothing,
  and the output of the whole backend run has no line about a skipped target (its
  summary says \<^verbatim>\<open>Removed\<close> for each).
\<close>

theorem remover_outcomes_counterexample:
  "stdout (snd (removerBackend demoPath (startState (withManifest manifestMyService bareTree)))) = []
   \<and> stdout (snd (removerFrontend demoPath (startState (withManifest manifestMyService bareTree))))
       = []
   \<and> stdout (snd (runBackend parseExample (Some demoPath)
                (startState (withManifest manifestMyService bareTree))))
       = [broom @ '' Cleaning up backend scaffolding junk...'',
          fileFolder @ '' Plugin path: /plugins/demo'',
          wrench @ '' Plugin ID: my-service'',
          newline @ package @ '' Removing example services...'',
          newline @ wrench @ '' Simplifying router.ts...'',
          newline @ wrench @ '' Updating plugin.ts...'',
          newline @ wastebasket @ ''  Removing example tests...'',
          newline @ sparkles @ '' Cleanup complete!'',
          newline @ memo @ '' What changed:'',
          ''  - Removed services/TodoListService.ts (150+ lines of example code)'',
          ''  - Simplified router.ts to just /health endpoint'',
          ''  - Removed todoList service from plugin.ts'',
          ''  - Removed example tests (plugin.test.ts, router.test.ts)'',
          ''  - Removed dev/ directory'',
          newline @ rocket @ '' Next steps:'',
          ''  1. Add your own routes in src/router.ts'',
          ''  2. Create services if needed in src/services/'',
          ''  3. Follow backstage-backend-plugin/SKILL.md for best practices'',
          newline @ roundPushpin @ '' Test with: curl http://localhost:7007/api/my-service/health'']"
  by code_simp

theorem remover_outcomes_witness:
  "\<not> existsSync (files (startState (withManifest manifestMyService bareTree))) (servicesDir demoPath)
   \<and> \<not> existsSync (files (startState (withManifest manifestMyService bareTree)))
         (pluginTestPath demoPath)
   \<and> \<not> existsSync (files (startState (withManifest manifestMyService bareTree)))
         (routerTestPath demoPath)
   \<and> \<not> existsSync (files (startState (withManifest manifestMyService bareTree))) (devDir demoPath)
   \<and> \<not> existsSync (files (startState (withManifest manifestMyService bareTree)))
         (exampleFetchDir demoPath)
   \<and> removerBackend demoPath (startState (withManifest manifestMyService bareTree))
       = (None, startState (withManifest manifestMyService bareTree))
   \<and> removerFrontend demoPath (startState (withManifest manifestMyService bareTree))
       = (None, startState (withManifest manifestMyService bareTree))
   \<and> existsSync (files (startState (backendTree manifestMyService [] []))) (servicesDir demoPath)
   \<and> fst (removeServicesDir demoPath (startState (backendTree manifestMyService [] []))) = None
   \<and> stdout (snd (removeServicesDir demoPath (startState (backendTree manifestMyService [] []))))
       = [''  - Removing services/ (TodoListService with 150+ lines)'']
   \<and> lookup (files (snd (removeServicesDir demoPath
                 (startState (backendTree manifestMyService [] [])))))
         (servicesDir demoPath @ [''TodoListService'', ''index.ts'']) = None
   \<and> existsSync (files (startState (backendTree manifestMyService [] []))) (devDir demoPath)
   \<and> lookup (files (snd (removeDevDir demoPath (startState (backendTree manifestMyService [] [])))))
         (devDir demoPath @ [''index.ts'']) = None
   \<and> existsSync (files (startState (backendTree manifestMyService [] []))) (pluginTestPath demoPath)
   \<and> lookup (files (startState (backendTree manifestMyService [] []))) (pluginTestPath demoPath)
       = Some (File ''test'')
   \<and> lookup (files (snd (removePluginTest demoPath
                 (startState (backendTree manifestMyService [] [])))))
         (pluginTestPath demoPath) = None
   \<and> existsSync (files (startState (backendTree manifestMyService [] []))) (routerTestPath demoPath)
   \<and> lookup (files (startState (backendTree manifestMyService [] []))) (routerTestPath demoPath)
       = Some (File ''test'')
   \<and> stdout (snd (removeRouterTest demoPath (startState (backendTree manifestMyService [] []))))
       = [''  - Removing router.test.ts'']
   \<and> existsSync (files (startState (frontendTree manifestMyService componentSource pluginSource)))
         (exampleFetchDir demoPath)
   \<and> lookup (files (snd (removeExampleFetch demoPath
                 (startState (frontendTree manifestMyService componentSource pluginSource)))))
         (exampleFetchDir demoPath @ [''ExampleFetchComponent.tsx'']) = None"
proof -
  let ?bare = "startState (withManifest manifestMyService bareTree)"
  let ?b = "startState (backendTree manifestMyService [] [])"
  let ?f = "startState (frontendTree manifestMyService componentSource pluginSource)"
  have a: "\<not> existsSync (files ?bare) (servicesDir demoPath)"
    "\<not> existsSync (files ?bare) (pluginTestPath demoPath)"
    "\<not> existsSync (files ?bare) (routerTestPath demoPath)"
    "\<not> existsSync (files ?bare) (devDir demoPath)"
    "\<not> existsSync (files ?bare) (exampleFetchDir demoPath)"
    by code_simp+
  have p: "existsSync (files ?b) (servicesDir demoPath)"
    "existsSync (files ?b) (devDir demoPath)"
    "existsSync (files ?b) (pluginTestPath demoPath)"
    "lookup (files ?b) (pluginTestPath demoPath) = Some (File ''test'')"
    "existsSync (files ?b) (routerTestPath demoPath)"
    "lookup (files ?b) (routerTestPath demoPath) = Some (File ''test'')"
    "existsSync (files ?f) (exampleFetchDir demoPath)"
    by code_simp+
  have out: "stdout ?b = []" by (simp add: startState_def)
  have pre: "prefix (servicesDir demoPath) (servicesDir demoPath @ [''TodoListService'', ''index.ts''])"
    "prefix (devDir demoPath) (devDir demoPath @ [''index.ts''])"
    "prefix (exampleFetchDir demoPath) (exampleFetchDir demoPath @ [''ExampleFetchComponent.tsx''])"
    by simp_all
  from remover_outcomes [of ?bare demoPath] remover_outcomes [of ?b demoPath "''test''" "''test''"]
    remover_outcomes [of ?f demoPath] a p out pre
  show ?thesis by simp
qed

subsection \<open>Runs of the scripts on the example packages\<close>

lemma invariant_conj:
  "invariant I f \<Longrightarrow> invariant J f \<Longrightarrow> invariant (\<lambda>s. I s \<and> J s) f"
  by (fastforce simp: invariant_def holds_def split: option.splits prod.splits)

lemma invariant_completes: "invariant I f \<Longrightarrow> holds I f I (\<lambda>s. True)"
  unfolding invariant_def by (erule holds_weaken) simp_all

lemma Page_names:
  assumes "suffix ''Page'' name"
  shows "name \<noteq> ''ExampleComponent''" "name \<noteq> ''ExampleFetchComponent''"
    "name @ ''.tsx'' \<noteq> ''ExampleComponent.tsx''"
    "name @ ''.tsx'' \<noteq> ''ExampleComponent.test.tsx''"
    "name @ ''.tsx'' \<noteq> ''index.ts''"
    "name @ ''.test.tsx'' \<noteq> ''ExampleComponent.tsx''"
    "name @ ''.test.tsx'' \<noteq> ''ExampleComponent.test.tsx''"
    "name @ ''.test.tsx'' \<noteq> ''index.ts''"
    "name @ ''.test.tsx'' \<noteq> name @ ''.tsx''"
    "name \<noteq> []" "name \<noteq> ''.''" "name \<noteq> ''..''"
    "name @ ''.tsx'' \<noteq> []" "name @ ''.tsx'' \<noteq> ''.''" "name @ ''.tsx'' \<noteq> ''..''"
    "name @ ''.test.tsx'' \<noteq> []" "name @ ''.test.tsx'' \<noteq> ''.''"
    "name @ ''.test.tsx'' \<noteq> ''..''"
proof -
  from assms obtain u where u: "name = u @ ''Page''" by (auto simp: suffix_def)
  show "name \<noteq> ''ExampleComponent''" "name \<noteq> ''ExampleFetchComponent''"
    "name @ ''.tsx'' \<noteq> ''ExampleComponent.tsx''"
    "name @ ''.tsx'' \<noteq> ''ExampleComponent.test.tsx''"
    "name @ ''.tsx'' \<noteq> ''index.ts''"
    "name @ ''.test.tsx'' \<noteq> ''ExampleComponent.tsx''"
    "name @ ''.test.tsx'' \<noteq> ''ExampleComponent.test.tsx''"
    "name @ ''.test.tsx'' \<noteq> ''index.ts''"
    "name @ ''.test.tsx'' \<noteq> name @ ''.tsx''"
    "name \<noteq> []" "name \<noteq> ''.''" "name \<noteq> ''..''"
    "name @ ''.tsx'' \<noteq> []" "name @ ''.tsx'' \<noteq> ''.''" "name @ ''.tsx'' \<noteq> ''..''"
    "name @ ''.test.tsx'' \<noteq> []" "name @ ''.test.tsx'' \<noteq> ''.''"
    "name @ ''.test.tsx'' \<noteq> ''..''"
    unfolding u by (auto dest: arg_cong [where f = rev])
qed


lemma runFrontend_onFiles:
  assumes "existsSync (files s) root"
    and "readFileSync (files s) (packageJsonPath root) = Inr text"
    and "parse text = Some manifest"
    and "pluginIdOf manifest = Inr (Some (JStr ident))"
    and "ident \<noteq> []"
  shows "fst (runFrontend parse (Some root) s)
           = (case fst (onFiles (cleanupFrontend root (componentName ident)) (files s)) of
                None \<Rightarrow> 0 | Some e \<Rightarrow> 1)"
    and "files (snd (runFrontend parse (Some root) s))
           = snd (onFiles (cleanupFrontend root (componentName ident)) (files s))"
proof -
  let ?s = "afterBanner root '' Cleaning up scaffolding junk from plugin...'' s"
  let ?run = "steps [consoleLog (wrench @ '' Plugin ID: '' @ ident),
                     consoleLog (memo @ '' Component name: '' @ componentName ident),
                     cleanupFrontend root (componentName ident)]"
  from assms(2) have ex: "existsSync (files s) (packageJsonPath root)"
    by (auto simp: readFileSync_def existsSync_def split: if_splits option.splits)
  have run: "runFrontend parse (Some root) s = exitWith (?run ?s)"
    using assms ex by (simp add: runFrontend_def Let_def)
  have r: "regular ?run"
    by (simp add: regular_steps regular_cleanupFrontend)
  have o: "onFiles ?run fs = onFiles (cleanupFrontend root (componentName ident)) fs" for fs
    by (simp add: onFiles_steps_Cons regular_steps regular_cleanupFrontend
        split: prod.splits option.splits)
  have f: "fst (?run ?s) = fst (onFiles (cleanupFrontend root (componentName ident)) (files s))"
    unfolding regular_fst [OF r] o by simp
  have g: "files (snd (?run ?s))
      = snd (onFiles (cleanupFrontend root (componentName ident)) (files s))"
    unfolding regular_files [OF r] o by simp
  show "fst (runFrontend parse (Some root) s)
           = (case fst (onFiles (cleanupFrontend root (componentName ident)) (files s)) of
                None \<Rightarrow> 0 | Some e \<Rightarrow> 1)"
    unfolding run fst_exitWith f by (simp split: option.splits)
  show "files (snd (runFrontend parse (Some root) s))
           = snd (onFiles (cleanupFrontend root (componentName ident)) (files s))"
    unfolding run snd_exitWith g ..
qed

lemma runBackend_onFiles:
  assumes "existsSync (files s) root"
    and "readFileSync (files s) (packageJsonPath root) = Inr text"
    and "parse text = Some manifest"
    and "pluginIdOf manifest = Inr (Some pluginId)"
    and "truthy (Some pluginId)"
    and "jsToString pluginId = Inr shown"
  shows "fst (runBackend parse (Some root) s)
           = (case fst (onFiles (cleanupBackend root pluginId) (files s)) of
                None \<Rightarrow> 0 | Some e \<Rightarrow> 1)"
    and "files (snd (runBackend parse (Some root) s))
           = snd (onFiles (cleanupBackend root pluginId) (files s))"
proof -
  let ?s = "afterBanner root '' Cleaning up backend scaffolding junk...'' s"
  let ?run = "steps [consoleLog (wrench @ '' Plugin ID: '' @ shown),
                     cleanupBackend root pluginId]"
  from assms(2) have ex: "existsSync (files s) (packageJsonPath root)"
    by (auto simp: readFileSync_def existsSync_def split: if_splits option.splits)
  have run: "runBackend parse (Some root) s = exitWith (?run ?s)"
    using assms ex by (simp add: runBackend_def Let_def templateLog_shown)
  have r: "regular ?run"
    by (simp add: regular_steps regular_cleanupBackend)
  have o: "onFiles ?run fs = onFiles (cleanupBackend root pluginId) fs" for fs
    by (simp add: onFiles_steps_Cons regular_steps regular_cleanupBackend
        split: prod.splits option.splits)
  have f: "fst (?run ?s) = fst (onFiles (cleanupBackend root pluginId) (files s))"
    unfolding regular_fst [OF r] o by simp
  have g: "files (snd (?run ?s)) = snd (onFiles (cleanupBackend root pluginId) (files s))"
    unfolding regular_files [OF r] o by simp
  show "fst (runBackend parse (Some root) s)
           = (case fst (onFiles (cleanupBackend root pluginId) (files s)) of
                None \<Rightarrow> 0 | Some e \<Rightarrow> 1)"
    unfolding run fst_exitWith f by (simp split: option.splits)
  show "files (snd (runBackend parse (Some root) s))
           = snd (onFiles (cleanupBackend root pluginId) (files s))"
    unfolding run snd_exitWith g ..
qed

lemmas block_defs =
  cleanupFrontend_def removeExampleFetch_def renameComponent_def updateComponentFile_def
  updateTestFile_def updateIndexFile_def updatePluginFile_def removeDevDir_def
  removePluginTest_def cleanupBackend_def removeServicesDir_def simplifyRouter_def
  updateBackendPluginFile_def removeRouterTest_def

lemmas onFiles_simps =
  onFiles_steps_Cons onFiles_ifExists onFiles_withFile regular_steps regular_ifExists
  regular_withFile

lemma frontendTree_cleaned:
  assumes "CHR ''/'' \<notin> set name" "CHR 0x00 \<notin> set name" "suffix ''Page'' name"
  shows "onFiles (cleanupFrontend demoPath name) (frontendTree manifest component plugin)
     = (None, cleanedFrontendTree name manifest (updateComponentContent name component)
                (updateReferences name testSource) (updateReferences name indexSource)
                (updatePluginContent name plugin))"
proof -
  note ne = Page_names [OF assms(3)]
  show ?thesis
    using assms(1,2)
    by (simp add: block_defs onFiles_simps frontendTree_def cleanedFrontendTree_def demoPath_def
        path_defs existsSync_def lookup_def rmSync_def renameSync_def moveTree_def movePath_def
        hasEntries_def joinPath_simple ne ne [symmetric] readFileSync_def writeFileSync_def
        unlinkSync_def del: replaceAll_def)
qed

lemma cleanedFrontendTree_cleaned:
  assumes "CHR 0x00 \<notin> set name" "suffix ''Page'' name"
  shows "onFiles (cleanupFrontend demoPath name)
       (cleanedFrontendTree name manifest component test index plugin)
     = (None, cleanedFrontendTree name manifest component test index
                (updatePluginContent name plugin))"
proof -
  note ne = Page_names [OF assms(2)]
  show ?thesis
    using assms(1)
    by (simp add: block_defs onFiles_simps cleanedFrontendTree_def demoPath_def
        path_defs existsSync_def lookup_def readFileSync_def writeFileSync_def
        ne ne [symmetric] del: replaceAll_def)
qed

lemma componentName_my_service: "componentName ''my-service'' = ''MyServicePage''"
  by code_simp


lemma holds_conj:
  "holds P f Q E \<Longrightarrow> holds P' f Q' E' \<Longrightarrow>
   holds (\<lambda>s. P s \<and> P' s) f (\<lambda>s. Q s \<and> Q' s) (\<lambda>s. E s \<and> E' s)"
  by (fastforce simp: holds_def split: option.splits prod.splits)

lemma update_same: "q \<noteq> [] \<Longrightarrow> lookup fs q = Some n \<Longrightarrow> AList.update q n fs = fs"
  by (simp add: lookup_def update_triv)

lemma manifest_is_file:
  "readFileSync fs p = Inr text \<Longrightarrow> lookup fs p = Some (File text) \<and> \<not> hasNul p"
  by (auto simp: readFileSync_def split: if_splits option.splits node.splits)

lemma backendTree_cleaned:
  assumes "jsToString pluginId = Inr shown"
  shows "onFiles (cleanupBackend demoPath pluginId) (backendTree manifest router plugin)
     = (None, cleanedBackendTree manifest (updateBackendPluginContent plugin))"
  using assms
  by (simp add: block_defs onFiles_simps backendTree_def cleanedBackendTree_def demoPath_def
      path_defs existsSync_def lookup_def rmSync_def readFileSync_def writeFileSync_def
      unlinkSync_def del: replaceAll_def)

lemma example_manifest:
  assumes "parseExample manifest
      = Some (JObj [(''backstage'', JObj [(''pluginId'', JStr ident)])])"
    and "files s = ([''plugins''], Dir) # ([''plugins'', ''demo''], Dir)
           # ([''plugins'', ''demo'', ''package.json''], File manifest) # rest"
  shows "existsSync (files s) demoPath"
    "readFileSync (files s) (packageJsonPath demoPath) = Inr manifest"
    "pluginIdOf (JObj [(''backstage'', JObj [(''pluginId'', JStr ident)])])
       = Inr (Some (JStr ident))"
  by (simp_all add: assms(2) demoPath_def existsSync_def readFileSync_def lookup_def
      packageJsonPath_def pluginIdOf_def)

lemma frontendTree_run:
  assumes p: "parseExample manifest
      = Some (JObj [(''backstage'', JObj [(''pluginId'', JStr ident)])])"
    and n: "componentName ident = name" and ne: "ident \<noteq> []"
    and c: "CHR ''/'' \<notin> set name" "CHR 0x00 \<notin> set name" "suffix ''Page'' name"
  shows "fst (runFrontend parseExample (Some demoPath)
          (startState (frontendTree manifest component plugin))) = 0"
    "files (snd (runFrontend parseExample (Some demoPath)
          (startState (frontendTree manifest component plugin))))
       = cleanedFrontendTree name manifest (updateComponentContent name component)
           (updateReferences name testSource) (updateReferences name indexSource)
           (updatePluginContent name plugin)"
proof -
  let ?s = "startState (frontendTree manifest component plugin)"
  have f: "files ?s = ([''plugins''], Dir) # ([''plugins'', ''demo''], Dir)
      # ([''plugins'', ''demo'', ''package.json''], File manifest)
      # drop 3 (frontendTree manifest component plugin)"
    by (simp add: startState_def frontendTree_def)
  note m = example_manifest [OF p f]
  note o = runFrontend_onFiles [where parse = parseExample, OF m(1,2) p m(3) ne, unfolded n]
  have fs: "files ?s = frontendTree manifest component plugin" by (simp add: startState_def)
  show "fst (runFrontend parseExample (Some demoPath) ?s) = 0"
    unfolding o(1) fs frontendTree_cleaned [OF c] by simp
  show "files (snd (runFrontend parseExample (Some demoPath) ?s))
       = cleanedFrontendTree name manifest (updateComponentContent name component)
           (updateReferences name testSource) (updateReferences name indexSource)
           (updatePluginContent name plugin)"
    unfolding o(2) fs frontendTree_cleaned [OF c] by simp
qed

lemma cleanedFrontendTree_run:
  assumes p: "parseExample manifest
      = Some (JObj [(''backstage'', JObj [(''pluginId'', JStr ident)])])"
    and n: "componentName ident = name" and ne: "ident \<noteq> []"
    and c: "CHR 0x00 \<notin> set name" "suffix ''Page'' name"
    and fs: "files s = cleanedFrontendTree name manifest component test index plugin"
  shows "fst (runFrontend parseExample (Some demoPath) s) = 0"
    "files (snd (runFrontend parseExample (Some demoPath) s))
       = cleanedFrontendTree name manifest component test index
           (updatePluginContent name plugin)"
proof -
  have f: "files s = ([''plugins''], Dir) # ([''plugins'', ''demo''], Dir)
      # ([''plugins'', ''demo'', ''package.json''], File manifest)
      # drop 3 (cleanedFrontendTree name manifest component test index plugin)"
    by (simp add: fs cleanedFrontendTree_def)
  note m = example_manifest [OF p f]
  note o = runFrontend_onFiles [where parse = parseExample, OF m(1,2) p m(3) ne, unfolded n]
  show "fst (runFrontend parseExample (Some demoPath) s) = 0"
    unfolding o(1) fs cleanedFrontendTree_cleaned [OF c] by simp
  show "files (snd (runFrontend parseExample (Some demoPath) s))
       = cleanedFrontendTree name manifest component test index
           (updatePluginContent name plugin)"
    unfolding o(2) fs cleanedFrontendTree_cleaned [OF c] by simp
qed

lemma backendTree_run:
  assumes p: "parseExample manifest
      = Some (JObj [(''backstage'', JObj [(''pluginId'', JStr ident)])])"
    and ne: "ident \<noteq> []"
  shows "fst (runBackend parseExample (Some demoPath)
          (startState (backendTree manifest router plugin))) = 0"
    "files (snd (runBackend parseExample (Some demoPath)
          (startState (backendTree manifest router plugin))))
       = cleanedBackendTree manifest (updateBackendPluginContent plugin)"
proof -
  let ?s = "startState (backendTree manifest router plugin)"
  have f: "files ?s = ([''plugins''], Dir) # ([''plugins'', ''demo''], Dir)
      # ([''plugins'', ''demo'', ''package.json''], File manifest)
      # drop 3 (backendTree manifest router plugin)"
    by (simp add: startState_def backendTree_def)
  note m = example_manifest [OF p f]
  have t: "truthy (Some (JStr ident))" using ne by simp
  have j: "jsToString (JStr ident) = Inr ident" by simp
  note o = runBackend_onFiles [where parse = parseExample, OF m(1,2) p m(3) t j]
  have fs: "files ?s = backendTree manifest router plugin" by (simp add: startState_def)
  show "fst (runBackend parseExample (Some demoPath) ?s) = 0"
    unfolding o(1) fs backendTree_cleaned [OF j] by simp
  show "files (snd (runBackend parseExample (Some demoPath) ?s))
       = cleanedBackendTree manifest (updateBackendPluginContent plugin)"
    unfolding o(2) fs backendTree_cleaned [OF j] by simp
qed

lemma example_component_name: "componentName ''example-component'' = ''ExampleComponentPage''"
  by code_simp

subsection \<open>The placeholder name after the rename\<close>









subsection \<open>A second run\<close>

lemma absent_updateComponentFile:
  assumes "q = exampleFetchDir root \<or> q = exampleComponentDir root"
  shows "invariant (nodeIs q None) (updateComponentFile d (componentName ident))"
  unfolding updateComponentFile_def
  apply (intro invariant_ifExists invariant_withFile invariant_steps)
  using renamed_paths_endsWith(1) [of d ident] assms
  apply (auto intro!: nodeIs_consoleLog nodeIs_writeFileSync nodeIs_unlinkSync
      simp: path_defs endsWith_def suffix_to_prefix)
  done

lemma absent_updateTestFile:
  assumes "q = exampleFetchDir root \<or> q = exampleComponentDir root"
  shows "invariant (nodeIs q None) (updateTestFile d (componentName ident))"
  unfolding updateTestFile_def
  apply (intro invariant_ifExists invariant_withFile invariant_steps)
  using renamed_paths_endsWith(2) [of d ident] assms
  apply (auto intro!: nodeIs_consoleLog nodeIs_writeFileSync nodeIs_unlinkSync
      simp: path_defs endsWith_def suffix_to_prefix)
  done

lemma absent_updateIndexFile:
  assumes "q = exampleFetchDir root \<or> q = exampleComponentDir root"
  shows "invariant (nodeIs q None) (updateIndexFile d name)"
  unfolding updateIndexFile_def
  apply (intro invariant_ifExists invariant_withFile invariant_steps)
  using assms
  apply (auto intro!: nodeIs_consoleLog nodeIs_writeFileSync simp: path_defs)
  done

lemma absent_renameSync:
  "holds (\<lambda>s. wellFormed (files s) \<and> nodeIs (exampleFetchDir root) None s)
     (fsCall (renameSync (exampleComponentDir root) (newComponentDir root (componentName ident))))
     (\<lambda>s. nodeIs (exampleFetchDir root) None s \<and> nodeIs (exampleComponentDir root) None s)
     (\<lambda>s. True)"
proof (rule holds_fsCall)
  fix s :: state and fs'
  let ?old = "exampleComponentDir root"
  let ?new = "newComponentDir root (componentName ident)"
  assume pre: "wellFormed (files s) \<and> nodeIs (exampleFetchDir root) None s"
    and ok: "renameSync ?old ?new (files s) = Inr fs'"
  then have wf: "wellFormed (files s)" by simp
  note ne = exampleComponentDir_not_new [of root ident]
  have gone: "lookup fs' ?old = None"
    by (rule lookup_renameSync_old [OF wf ok ne])
  have nn: "\<not> prefix ?new ?old"
    by (rule renameSync_not_nested(1) [OF wf ok ne])
  have page: "endsWith ''Page'' ?new" by (rule new_paths_endsWith)
  have "\<not> prefix ?new (exampleFetchDir root)"
  proof
    assume "prefix ?new (exampleFetchDir root)"
    then have "?new = componentsDir root @ [''ExampleFetchComponent'']
        \<or> prefix ?new (componentsDir root)"
      by (simp add: exampleFetchDir_def prefix_snoc)
    then show False
    proof
      assume "?new = componentsDir root @ [''ExampleFetchComponent'']"
      with page show False by (simp add: endsWith_def suffix_to_prefix)
    next
      assume "prefix ?new (componentsDir root)"
      then have "prefix ?new ?old" by (simp add: exampleComponentDir_def)
      with nn show False ..
    qed
  qed
  moreover have "\<not> prefix ?old (exampleFetchDir root)"
    by (simp add: path_defs)
  ultimately have "lookup fs' (exampleFetchDir root) = lookup (files s) (exampleFetchDir root)"
    by (intro lookup_renameSync_other [OF ok])
  with pre gone
  show "nodeIs (exampleFetchDir root) None (s\<lparr>files := fs', history := history s @ [fs']\<rparr>)
      \<and> nodeIs ?old None (s\<lparr>files := fs', history := history s @ [fs']\<rparr>)"
    by (simp add: nodeIs_def)
qed simp

lemma absent_renameComponent:
  assumes nn: "\<not> hasNul root"
  shows "holds (\<lambda>s. wellFormed (files s) \<and> nodeIs (exampleFetchDir root) None s)
     (renameComponent root (componentName ident))
     (\<lambda>s. nodeIs (exampleFetchDir root) None s \<and> nodeIs (exampleComponentDir root) None s)
     (\<lambda>s. True)"
proof -
  let ?name = "componentName ident"
  let ?d = "newComponentDir root ?name"
  let ?P = "\<lambda>s. wellFormed (files s) \<and> nodeIs (exampleFetchDir root) None s"
  let ?Q = "\<lambda>s. nodeIs (exampleFetchDir root) None s \<and> nodeIs (exampleComponentDir root) None s"
  have lg: "holds (\<lambda>s. ?P s \<and> existsSync (files s) (exampleComponentDir root))
      (consoleLog l) ?P (\<lambda>s. True)" for l
    by (rule holds_consoleLog) simp
  have inv: "invariant ?Q f"
    if "\<And>q. q = exampleFetchDir root \<or> q = exampleComponentDir root \<Longrightarrow>
          invariant (nodeIs q None) f" for f
    by (intro invariant_conj that) simp_all
  have tail: "holds ?Q
      (steps [consoleLog ''  - Updating component file...'',
              updateComponentFile ?d ?name, updateTestFile ?d ?name, updateIndexFile ?d ?name])
      ?Q (\<lambda>s. True)"
    by (intro invariant_completes invariant_steps)
      (simp add: inv nodeIs_consoleLog absent_updateComponentFile absent_updateTestFile
        absent_updateIndexFile)
  have body: "holds (\<lambda>s. ?P s \<and> existsSync (files s) (exampleComponentDir root))
      (steps [consoleLog (''  - Renaming ExampleComponent/ '' @ rightArrow @ '' '' @ ?name @ ''/''),
              fsCall (renameSync (exampleComponentDir root) ?d),
              consoleLog ''  - Updating component file...'',
              updateComponentFile ?d ?name, updateTestFile ?d ?name, updateIndexFile ?d ?name])
      ?Q (\<lambda>s. True)"
    by (rule holds_steps_Cons [OF lg]) (rule holds_steps_Cons [OF absent_renameSync tail])
  have absent: "?Q s" if "?P s" "\<not> existsSync (files s) (exampleComponentDir root)" for s
    using that nn by (simp add: nodeIs_def existsSync_def path_defs)
  show ?thesis
    unfolding renameComponent_def
    by (rule holds_ifExists [OF body absent])
qed

lemma absent_cleanupFrontend:
  assumes nn: "\<not> hasNul root"
  shows "holds (\<lambda>s. wellFormed (files s)) (cleanupFrontend root (componentName ident))
     (\<lambda>s. lookup (files s) (exampleFetchDir root) = None
          \<and> lookup (files s) (exampleComponentDir root) = None
          \<and> lookup (files s) (pluginFilePath root) \<noteq> Some Dir
          \<and> lookup (files s) (devDir root) = None
          \<and> lookup (files s) (pluginTestPath root) = None)
     (\<lambda>s. True)"
proof -
  let ?name = "componentName ident"
  let ?W = "\<lambda>s. wellFormed (files s)"
  let ?P1 = "\<lambda>s. wellFormed (files s) \<and> nodeIs (exampleFetchDir root) None s"
  let ?P2 = "\<lambda>s. nodeIs (exampleFetchDir root) None s \<and> nodeIs (exampleComponentDir root) None s"
  let ?P3 = "\<lambda>s. lookup (files s) (exampleFetchDir root) = None
      \<and> lookup (files s) (exampleComponentDir root) = None
      \<and> lookup (files s) (pluginFilePath root) \<noteq> Some Dir"
  let ?P4 = "\<lambda>s. lookup (files s) (exampleFetchDir root) = None
      \<and> lookup (files s) (exampleComponentDir root) = None
      \<and> lookup (files s) (pluginFilePath root) \<noteq> Some Dir
      \<and> lookup (files s) (devDir root) = None"
  let ?P5 = "\<lambda>s. lookup (files s) (exampleFetchDir root) = None
      \<and> lookup (files s) (exampleComponentDir root) = None
      \<and> lookup (files s) (pluginFilePath root) \<noteq> Some Dir
      \<and> lookup (files s) (devDir root) = None
      \<and> lookup (files s) (pluginTestPath root) = None"
  have l0: "holds ?W (consoleLog l) ?W (\<lambda>s. True)" for l
    by (rule holds_consoleLog) simp
  have l1: "holds ?P1 (consoleLog l) ?P1 (\<lambda>s. True)" for l
    by (rule holds_consoleLog) simp
  have l2: "holds ?P2 (consoleLog l) ?P2 (\<lambda>s. True)" for l
    by (rule holds_consoleLog) simp
  have l3: "holds ?P3 (consoleLog l) ?P3 (\<lambda>s. True)" for l
    by (rule holds_consoleLog) simp
  have rf: "holds ?W (removeExampleFetch root) ?P1 (\<lambda>s. True)"
    using nn
    unfolding holds_def removeExampleFetch_def ifExists_def fsCall_def consoleLog_def nodeIs_def
    by (auto simp: lookup_rmSync existsSync_def path_defs intro: wellFormed_rmSync
        split: sum.splits option.splits prod.splits)
  note rc = absent_renameComponent [OF nn, of ident]
  have up: "holds ?P2 (updatePluginFile root ?name) ?P3 (\<lambda>s. True)"
    using nn
    unfolding holds_def updatePluginFile_def ifExists_def withFile_def fsCall_def consoleLog_def
      nodeIs_def
    by (auto simp: lookup_writeFileSync existsSync_def path_defs
        split: sum.splits option.splits prod.splits)
  have dv: "holds ?P3 (removeDevDir root) ?P4 (\<lambda>s. True)"
    using nn
    unfolding holds_def removeDevDir_def ifExists_def fsCall_def consoleLog_def
    by (auto simp: lookup_rmSync existsSync_def path_defs
        split: sum.splits option.splits prod.splits)
  have pt: "holds ?P4 (removePluginTest root) ?P5 (\<lambda>s. True)"
    using nn
    unfolding holds_def removePluginTest_def ifExists_def fsCall_def consoleLog_def
    by (auto simp: lookup_unlinkSync existsSync_def path_defs
        split: sum.splits option.splits prod.splits)
  have q: "invariant ?P5 (consoleLog l)" for l
    by (rule invariant_consoleLog) simp
  have rest: "holds ?P5 (steps fs) ?P5 (\<lambda>s. True)" if "list_all (invariant ?P5) fs" for fs
    using that by (intro invariant_completes invariant_steps)
  show ?thesis
    unfolding cleanupFrontend_def
    by (intro holds_steps_Cons [OF l0] holds_steps_Cons [OF rf] holds_steps_Cons [OF l1]
        holds_steps_Cons [OF rc] holds_steps_Cons [OF l2] holds_steps_Cons [OF up]
        holds_steps_Cons [OF l3] holds_steps_Cons [OF dv] holds_steps_Cons [OF pt] rest)
      (simp add: q)
qed

lemma frontend_first_run:
  assumes wf: "wellFormed fs0" and nn: "\<not> hasNul root"
    and dir: "lookup fs0 root = Some Dir"
    and run: "onFiles (cleanupFrontend root (componentName ident)) fs0 = (None, fs1)"
  shows "lookup fs1 (exampleFetchDir root) = None"
    "lookup fs1 (exampleComponentDir root) = None"
    "lookup fs1 (pluginFilePath root) \<noteq> Some Dir"
    "lookup fs1 (devDir root) = None"
    "lookup fs1 (pluginTestPath root) = None"
    "lookup fs1 (packageJsonPath root) = lookup fs0 (packageJsonPath root)"
    "lookup fs1 root = Some Dir"
proof -
  let ?s0 = "\<lparr>files = fs0, stdout = [], history = []\<rparr>"
  let ?f = "cleanupFrontend root (componentName ident)"
  obtain r s1 where rs: "?f ?s0 = (r, s1)" by (cases "?f ?s0")
  with run have r: "r = None" and fs1: "files s1 = fs1" by (simp_all add: onFiles_def)
  have k: "wellFormed (files ?s0) \<and> manifestKept root (lookup fs0 (packageJsonPath root)) ?s0"
    using wf dir by (simp add: manifestKept_def)
  from holdsD [OF kept_cleanupFrontend k rs] r fs1
  show "lookup fs1 (packageJsonPath root) = lookup fs0 (packageJsonPath root)"
    "lookup fs1 root = Some Dir"
    by (simp_all add: manifestKept_def)
  have "wellFormed (files ?s0)" using wf by simp
  from holdsD [OF absent_cleanupFrontend [OF nn] this rs] r fs1
  show "lookup fs1 (exampleFetchDir root) = None"
    "lookup fs1 (exampleComponentDir root) = None"
    "lookup fs1 (pluginFilePath root) \<noteq> Some Dir"
    "lookup fs1 (devDir root) = None"
    "lookup fs1 (pluginTestPath root) = None"
    by simp_all
qed

lemma frontend_second_run:
  assumes nn: "\<not> hasNul root"
    and "lookup fs1 (exampleFetchDir root) = None"
    and "lookup fs1 (exampleComponentDir root) = None"
    and "lookup fs1 (pluginFilePath root) \<noteq> Some Dir"
    and "lookup fs1 (devDir root) = None"
    and "lookup fs1 (pluginTestPath root) = None"
  shows "onFiles (cleanupFrontend root name) fs1
     = (None, case lookup fs1 (pluginFilePath root) of
                Some (File c) \<Rightarrow>
                  AList.update (pluginFilePath root) (File (updatePluginContent name c)) fs1
              | _ \<Rightarrow> fs1)"
proof (cases "lookup fs1 (pluginFilePath root)")
  case None
  with assms show ?thesis
    by (simp add: block_defs onFiles_simps existsSync_def)
next
  case (Some n)
  with assms(4) obtain c where c: "lookup fs1 (pluginFilePath root) = Some (File c)"
    by (cases n) auto
  have p: "pluginFilePath root \<noteq> []" by (simp add: pluginFilePath_def)
  have d: "devDir root \<noteq> pluginFilePath root" "pluginTestPath root \<noteq> pluginFilePath root"
    by (simp_all add: path_defs)
  have np: "\<not> hasNul (pluginFilePath root)" using nn by (simp add: pluginFilePath_def)
  show ?thesis
    using assms c d np
    by (simp add: block_defs onFiles_simps existsSync_def readFileSync_def writeFileSync_def
        lookup_update [OF p] del: replaceAll_def)
qed

lemma absent_cleanupBackend:
  assumes nn: "\<not> hasNul root"
  shows "holds (\<lambda>s. True) (cleanupBackend root pluginId)
     (\<lambda>s. lookup (files s) (servicesDir root) = None
          \<and> (lookup (files s) (routerPath root) = None
              \<or> lookup (files s) (routerPath root) = Some (File simpleRouter))
          \<and> lookup (files s) (pluginFilePath root) \<noteq> Some Dir
          \<and> lookup (files s) (pluginTestPath root) = None
          \<and> lookup (files s) (routerTestPath root) = None
          \<and> lookup (files s) (devDir root) = None)
     (\<lambda>s. True)"
proof -
  let ?T = "\<lambda>s :: state. True"
  let ?P1 = "\<lambda>s. lookup (files s) (servicesDir root) = None"
  let ?P2 = "\<lambda>s. lookup (files s) (servicesDir root) = None
      \<and> (lookup (files s) (routerPath root) = None
          \<or> lookup (files s) (routerPath root) = Some (File simpleRouter))"
  let ?P3 = "\<lambda>s. lookup (files s) (servicesDir root) = None
      \<and> (lookup (files s) (routerPath root) = None
          \<or> lookup (files s) (routerPath root) = Some (File simpleRouter))
      \<and> lookup (files s) (pluginFilePath root) \<noteq> Some Dir"
  let ?P4 = "\<lambda>s. lookup (files s) (servicesDir root) = None
      \<and> (lookup (files s) (routerPath root) = None
          \<or> lookup (files s) (routerPath root) = Some (File simpleRouter))
      \<and> lookup (files s) (pluginFilePath root) \<noteq> Some Dir
      \<and> lookup (files s) (pluginTestPath root) = None"
  let ?P5 = "\<lambda>s. lookup (files s) (servicesDir root) = None
      \<and> (lookup (files s) (routerPath root) = None
          \<or> lookup (files s) (routerPath root) = Some (File simpleRouter))
      \<and> lookup (files s) (pluginFilePath root) \<noteq> Some Dir
      \<and> lookup (files s) (pluginTestPath root) = None
      \<and> lookup (files s) (routerTestPath root) = None"
  let ?P6 = "\<lambda>s. lookup (files s) (servicesDir root) = None
      \<and> (lookup (files s) (routerPath root) = None
          \<or> lookup (files s) (routerPath root) = Some (File simpleRouter))
      \<and> lookup (files s) (pluginFilePath root) \<noteq> Some Dir
      \<and> lookup (files s) (pluginTestPath root) = None
      \<and> lookup (files s) (routerTestPath root) = None
      \<and> lookup (files s) (devDir root) = None"
  have l0: "holds ?T (consoleLog l) ?T ?T" for l
    by (rule holds_consoleLog) simp
  have l1: "holds ?P1 (consoleLog l) ?P1 ?T" for l
    by (rule holds_consoleLog) simp
  have l2: "holds ?P2 (consoleLog l) ?P2 ?T" for l
    by (rule holds_consoleLog) simp
  have l3: "holds ?P3 (consoleLog l) ?P3 ?T" for l
    by (rule holds_consoleLog) simp
  have sv: "holds ?T (removeServicesDir root) ?P1 ?T"
    using nn
    unfolding holds_def removeServicesDir_def ifExists_def fsCall_def consoleLog_def
    by (auto simp: lookup_rmSync existsSync_def path_defs
        split: sum.splits option.splits prod.splits)
  have ro: "holds ?P1 (simplifyRouter root) ?P2 ?T"
    using nn
    unfolding holds_def simplifyRouter_def ifExists_def fsCall_def consoleLog_def
    by (auto simp: lookup_writeFileSync existsSync_def path_defs
        split: sum.splits option.splits prod.splits)
  have up: "holds ?P2 (updateBackendPluginFile root) ?P3 ?T"
    using nn
    unfolding holds_def updateBackendPluginFile_def ifExists_def withFile_def fsCall_def
      consoleLog_def
    by (auto simp: lookup_writeFileSync existsSync_def path_defs
        split: sum.splits option.splits prod.splits)
  have pt: "holds ?P3 (removePluginTest root) ?P4 ?T"
    using nn
    unfolding holds_def removePluginTest_def ifExists_def fsCall_def consoleLog_def
    by (auto simp: lookup_unlinkSync existsSync_def path_defs
        split: sum.splits option.splits prod.splits)
  have rt: "holds ?P4 (removeRouterTest root) ?P5 ?T"
    using nn
    unfolding holds_def removeRouterTest_def ifExists_def fsCall_def consoleLog_def
    by (auto simp: lookup_unlinkSync existsSync_def path_defs
        split: sum.splits option.splits prod.splits)
  have dv: "holds ?P5 (removeDevDir root) ?P6 ?T"
    using nn
    unfolding holds_def removeDevDir_def ifExists_def fsCall_def consoleLog_def
    by (auto simp: lookup_rmSync existsSync_def path_defs
        split: sum.splits option.splits prod.splits)
  have q: "invariant ?P6 (consoleLog l)" for l
    by (rule invariant_consoleLog) simp
  have q': "invariant ?P6 (templateLog line v)" for line v
    by (rule invariant_templateLog) simp
  have rest: "holds ?P6 (steps fs) ?P6 ?T" if "list_all (invariant ?P6) fs" for fs
    using that by (intro invariant_completes invariant_steps)
  show ?thesis
    unfolding cleanupBackend_def
    by (intro holds_steps_Cons [OF l0] holds_steps_Cons [OF sv] holds_steps_Cons [OF l1]
        holds_steps_Cons [OF ro] holds_steps_Cons [OF l2] holds_steps_Cons [OF up]
        holds_steps_Cons [OF l3] holds_steps_Cons [OF pt] holds_steps_Cons [OF rt]
        holds_steps_Cons [OF dv] rest)
      (simp add: q q')
qed

lemma backend_first_run:
  assumes nn: "\<not> hasNul root"
    and dir: "lookup fs0 root = Some Dir"
    and run: "onFiles (cleanupBackend root pluginId) fs0 = (None, fs1)"
  shows "lookup fs1 (servicesDir root) = None"
    "lookup fs1 (routerPath root) = None
       \<or> lookup fs1 (routerPath root) = Some (File simpleRouter)"
    "lookup fs1 (pluginFilePath root) \<noteq> Some Dir"
    "lookup fs1 (pluginTestPath root) = None"
    "lookup fs1 (routerTestPath root) = None"
    "lookup fs1 (devDir root) = None"
    "lookup fs1 (packageJsonPath root) = lookup fs0 (packageJsonPath root)"
    "lookup fs1 root = Some Dir"
proof -
  let ?s0 = "\<lparr>files = fs0, stdout = [], history = []\<rparr>"
  let ?f = "cleanupBackend root pluginId"
  obtain r s1 where rs: "?f ?s0 = (r, s1)" by (cases "?f ?s0")
  with run have r: "r = None" and fs1: "files s1 = fs1" by (simp_all add: onFiles_def)
  have k: "manifestKept root (lookup fs0 (packageJsonPath root)) ?s0"
    using dir by (simp add: manifestKept_def)
  from holdsD [OF invariant_holds [OF kept_cleanupBackend] k rs] r fs1
  show "lookup fs1 (packageJsonPath root) = lookup fs0 (packageJsonPath root)"
    "lookup fs1 root = Some Dir"
    by (simp_all add: manifestKept_def)
  from holdsD [OF absent_cleanupBackend [OF nn] TrueI rs] r fs1
  show "lookup fs1 (servicesDir root) = None"
    "lookup fs1 (routerPath root) = None
       \<or> lookup fs1 (routerPath root) = Some (File simpleRouter)"
    "lookup fs1 (pluginFilePath root) \<noteq> Some Dir"
    "lookup fs1 (pluginTestPath root) = None"
    "lookup fs1 (routerTestPath root) = None"
    "lookup fs1 (devDir root) = None"
    by simp_all
qed

lemma backend_second_run:
  assumes nn: "\<not> hasNul root"
    and shown: "jsToString pluginId = Inr shown"
    and "lookup fs1 (servicesDir root) = None"
    and router: "lookup fs1 (routerPath root) = None
       \<or> lookup fs1 (routerPath root) = Some (File simpleRouter)"
    and plugin: "lookup fs1 (pluginFilePath root) \<noteq> Some Dir"
    and "lookup fs1 (pluginTestPath root) = None"
    and "lookup fs1 (routerTestPath root) = None"
    and "lookup fs1 (devDir root) = None"
  shows "onFiles (cleanupBackend root pluginId) fs1
     = (None, case lookup fs1 (pluginFilePath root) of
                Some (File c) \<Rightarrow>
                  AList.update (pluginFilePath root) (File (updateBackendPluginContent c)) fs1
              | _ \<Rightarrow> fs1)"
proof -
  have p: "pluginFilePath root \<noteq> []" "routerPath root \<noteq> []"
    by (simp_all add: path_defs)
  have d: "devDir root \<noteq> pluginFilePath root" "pluginTestPath root \<noteq> pluginFilePath root"
    "routerTestPath root \<noteq> pluginFilePath root" "routerPath root \<noteq> pluginFilePath root"
    by (simp_all add: path_defs)
  have np: "\<not> hasNul (pluginFilePath root)" "\<not> hasNul (routerPath root)"
    using nn by (simp_all add: path_defs)
  have r: "onFiles (simplifyRouter root) fs1 = (None, fs1)"
    using router
  proof
    assume "lookup fs1 (routerPath root) = None"
    then show ?thesis
      by (simp add: simplifyRouter_def onFiles_simps existsSync_def)
  next
    assume f: "lookup fs1 (routerPath root) = Some (File simpleRouter)"
    with np show ?thesis
      by (simp add: simplifyRouter_def onFiles_simps existsSync_def writeFileSync_def
          update_same [OF p(2) f])
  qed
  have rg: "regular (simplifyRouter root)"
    by (simp add: simplifyRouter_def regular_steps regular_ifExists)
  show ?thesis
  proof (cases "lookup fs1 (pluginFilePath root)")
    case None
    with assms show ?thesis
      unfolding cleanupBackend_def
      by (simp add: removeServicesDir_def updateBackendPluginFile_def removePluginTest_def
          removeRouterTest_def removeDevDir_def onFiles_simps rg r existsSync_def shown)
  next
    case (Some n)
    with plugin obtain c where c: "lookup fs1 (pluginFilePath root) = Some (File c)"
      by (cases n) auto
    show ?thesis
      unfolding cleanupBackend_def
      using assms c d np
      by (simp add: removeServicesDir_def updateBackendPluginFile_def removePluginTest_def
          removeRouterTest_def removeDevDir_def onFiles_simps rg r existsSync_def shown
          readFileSync_def writeFileSync_def lookup_update [OF p(1)]
          del: replaceAll_def)
  qed
qed

lemma frontend_twice:
  assumes wf: "wellFormed (files s)"
    and root: "existsSync (files s) pluginPath"
    and read: "readFileSync (files s) (packageJsonPath pluginPath) = Inr text"
    and parse: "parse text = Some manifest"
    and ident: "pluginIdOf manifest = Inr (Some (JStr ident))"
    and ok: "fst (runFrontend parse (Some pluginPath) s) = 0"
  shows "fst (runFrontend parse (Some pluginPath) (snd (runFrontend parse (Some pluginPath) s))) = 0"
    "files (snd (runFrontend parse (Some pluginPath)
                   (snd (runFrontend parse (Some pluginPath) s))))
       = rewritten (pluginFilePath pluginPath) (updatePluginContent (componentName ident))
           (files (snd (runFrontend parse (Some pluginPath) s)))"
    "lookup (files (snd (runFrontend parse (Some pluginPath) s))) (exampleFetchDir pluginPath)
       = None"
    "lookup (files (snd (runFrontend parse (Some pluginPath) s))) (exampleComponentDir pluginPath)
       = None"
    "lookup (files (snd (runFrontend parse (Some pluginPath) s))) (devDir pluginPath) = None"
    "lookup (files (snd (runFrontend parse (Some pluginPath) s))) (pluginTestPath pluginPath)
       = None"
proof -
  let ?name = "componentName ident"
  let ?s1 = "snd (runFrontend parse (Some pluginPath) s)"
  from root have nn: "\<not> hasNul pluginPath" by (simp add: existsSync_def)
  note m = manifest_is_file [OF read]
  from read have ex: "existsSync (files s) (packageJsonPath pluginPath)"
    using m by (simp add: existsSync_def)
  have "fst (runFrontend parse (Some pluginPath) s) = 1" if "ident = []"
    using root ex read parse ident that by (simp add: runFrontend_def Let_def)
  with ok have ne: "ident \<noteq> []" by (cases "ident = []") auto
  note o1 = runFrontend_onFiles [where parse = parse, OF root read parse ident ne]
  obtain r fs1 where run1: "onFiles (cleanupFrontend pluginPath ?name) (files s) = (r, fs1)"
    by (cases "onFiles (cleanupFrontend pluginPath ?name) (files s)")
  from o1(1) ok have r: "r = None" by (simp add: run1 split: option.splits)
  from o1(2) have fs1: "files ?s1 = fs1" by (simp add: run1)
  have dir: "lookup (files s) pluginPath = Some Dir"
    using wellFormed_ancestor [OF wf, of pluginPath "[''package.json'']"] m
    by (simp add: packageJsonPath_def)
  note first = frontend_first_run [OF wf nn dir run1 [unfolded r]]
  have root1: "existsSync (files ?s1) pluginPath"
    using first(7) nn by (simp add: fs1 existsSync_def)
  have read1: "readFileSync (files ?s1) (packageJsonPath pluginPath) = Inr text"
    using first(6) m by (simp add: fs1 readFileSync_file)
  note o2 = runFrontend_onFiles [where parse = parse, OF root1 read1 parse ident ne]
  note second = frontend_second_run [OF nn first(1-5), of ?name]
  show "fst (runFrontend parse (Some pluginPath) ?s1) = 0"
    unfolding o2(1) fs1 second by simp
  show "files (snd (runFrontend parse (Some pluginPath) ?s1))
       = rewritten (pluginFilePath pluginPath) (updatePluginContent ?name) (files ?s1)"
    unfolding o2(2) fs1 second by (simp add: rewritten_def)
  show "lookup (files ?s1) (exampleFetchDir pluginPath) = None"
    "lookup (files ?s1) (exampleComponentDir pluginPath) = None"
    "lookup (files ?s1) (devDir pluginPath) = None"
    "lookup (files ?s1) (pluginTestPath pluginPath) = None"
    unfolding fs1 by (rule first)+
qed

lemma backend_twice:
  assumes wf: "wellFormed (files s)"
    and root: "existsSync (files s) pluginPath"
    and read: "readFileSync (files s) (packageJsonPath pluginPath) = Inr text"
    and parse: "parse text = Some manifest"
    and ident: "pluginIdOf manifest = Inr (Some pluginId)"
    and ok: "fst (runBackend parse (Some pluginPath) s) = 0"
  shows "fst (runBackend parse (Some pluginPath) (snd (runBackend parse (Some pluginPath) s))) = 0"
    "files (snd (runBackend parse (Some pluginPath)
                   (snd (runBackend parse (Some pluginPath) s))))
       = rewritten (pluginFilePath pluginPath) updateBackendPluginContent
           (files (snd (runBackend parse (Some pluginPath) s)))"
    "lookup (files (snd (runBackend parse (Some pluginPath) s))) (servicesDir pluginPath) = None"
    "lookup (files (snd (runBackend parse (Some pluginPath) s))) (routerPath pluginPath) = None
       \<or> lookup (files (snd (runBackend parse (Some pluginPath) s))) (routerPath pluginPath)
           = Some (File simpleRouter)"
    "lookup (files (snd (runBackend parse (Some pluginPath) s))) (pluginTestPath pluginPath)
       = None"
    "lookup (files (snd (runBackend parse (Some pluginPath) s))) (routerTestPath pluginPath)
       = None"
    "lookup (files (snd (runBackend parse (Some pluginPath) s))) (devDir pluginPath) = None"
proof -
  let ?s1 = "snd (runBackend parse (Some pluginPath) s)"
  let ?s = "afterBanner pluginPath '' Cleaning up backend scaffolding junk...'' s"
  from root have nn: "\<not> hasNul pluginPath" by (simp add: existsSync_def)
  note m = manifest_is_file [OF read]
  from read have ex: "existsSync (files s) (packageJsonPath pluginPath)"
    using m by (simp add: existsSync_def)
  have "fst (runBackend parse (Some pluginPath) s) = 1" if "\<not> truthy (Some pluginId)"
    using root ex read parse ident that by (simp add: runBackend_def Let_def)
  with ok have tr: "truthy (Some pluginId)" by (cases "truthy (Some pluginId)") auto
  have "fst (runBackend parse (Some pluginPath) s) = 1" if "jsToString pluginId = Inl e" for e
    using root ex read parse ident tr that
    by (simp add: runBackend_def Let_def templateLog_def)
  with ok obtain shown where shown: "jsToString pluginId = Inr shown"
    by (cases "jsToString pluginId") auto
  note o1 = runBackend_onFiles [where parse = parse, OF root read parse ident tr shown]
  obtain r fs1 where run1: "onFiles (cleanupBackend pluginPath pluginId) (files s) = (r, fs1)"
    by (cases "onFiles (cleanupBackend pluginPath pluginId) (files s)")
  from o1(1) ok have r: "r = None" by (simp add: run1 split: option.splits)
  from o1(2) have fs1: "files ?s1 = fs1" by (simp add: run1)
  have dir: "lookup (files s) pluginPath = Some Dir"
    using wellFormed_ancestor [OF wf, of pluginPath "[''package.json'']"] m
    by (simp add: packageJsonPath_def)
  note first = backend_first_run [OF nn dir run1 [unfolded r]]
  have root1: "existsSync (files ?s1) pluginPath"
    using first(8) nn by (simp add: fs1 existsSync_def)
  have read1: "readFileSync (files ?s1) (packageJsonPath pluginPath) = Inr text"
    using first(7) m by (simp add: fs1 readFileSync_file)
  note o2 = runBackend_onFiles [where parse = parse, OF root1 read1 parse ident tr shown]
  note second = backend_second_run [OF nn shown first(1-6)]
  show "fst (runBackend parse (Some pluginPath) ?s1) = 0"
    unfolding o2(1) fs1 second by simp
  show "files (snd (runBackend parse (Some pluginPath) ?s1))
       = rewritten (pluginFilePath pluginPath) updateBackendPluginContent (files ?s1)"
    unfolding o2(2) fs1 second by (simp add: rewritten_def)
  show "lookup (files ?s1) (servicesDir pluginPath) = None"
    "lookup (files ?s1) (routerPath pluginPath) = None
       \<or> lookup (files ?s1) (routerPath pluginPath) = Some (File simpleRouter)"
    "lookup (files ?s1) (pluginTestPath pluginPath) = None"
    "lookup (files ?s1) (routerTestPath pluginPath) = None"
    "lookup (files ?s1) (devDir pluginPath) = None"
    unfolding fs1 by (rule first)+
qed

text \<open>
  C1 (as the code has it).  A package is run twice: a frontend package with an ASCII
  identifier and a backend package, each in a well-formed tree with a valid manifest, and
  the first run of each exits with code 0.  Then the second run exits with code 0 too, and
  the tree it leaves is the tree of the first run except for \<^verbatim>\<open>src/plugin.ts\<close>: when that is a
  file, the second run has rewritten it with the substitutions of the script applied to
  the text that the first run left.  The rest of a second run changes nothing: after the
  first run the targets of the removals and of the rename are absent, so these steps are
  skipped, and \<^verbatim>\<open>src/router.ts\<close> of a backend package is absent or holds the constant text that
  the second run writes again.
\<close>

theorem second_run_rewrites_plugin_file_only:
  assumes "wellFormed (files s)"
    and "existsSync (files s) pluginPath"
    and "readFileSync (files s) (packageJsonPath pluginPath) = Inr text"
    and "parse text = Some manifest"
    and "pluginIdOf manifest = Inr (Some (JStr ident))"
    and "ascii ident"
    and "fst (runFrontend parse (Some pluginPath) s) = 0"
    and "wellFormed (files b)"
    and "existsSync (files b) backendPath"
    and "readFileSync (files b) (packageJsonPath backendPath) = Inr backendText"
    and "parse backendText = Some backendManifest"
    and "pluginIdOf backendManifest = Inr (Some pluginId)"
    and "fst (runBackend parse (Some backendPath) b) = 0"
  shows "fst (runFrontend parse (Some pluginPath) (snd (runFrontend parse (Some pluginPath) s))) = 0
     \<and> files (snd (runFrontend parse (Some pluginPath)
                     (snd (runFrontend parse (Some pluginPath) s))))
         = rewritten (pluginFilePath pluginPath) (updatePluginContent (componentName ident))
             (files (snd (runFrontend parse (Some pluginPath) s)))
     \<and> lookup (files (snd (runFrontend parse (Some pluginPath) s))) (exampleFetchDir pluginPath)
         = None
     \<and> lookup (files (snd (runFrontend parse (Some pluginPath) s)))
           (exampleComponentDir pluginPath) = None
     \<and> lookup (files (snd (runFrontend parse (Some pluginPath) s))) (devDir pluginPath) = None
     \<and> lookup (files (snd (runFrontend parse (Some pluginPath) s))) (pluginTestPath pluginPath)
         = None
     \<and> fst (runBackend parse (Some backendPath) (snd (runBackend parse (Some backendPath) b))) = 0
     \<and> files (snd (runBackend parse (Some backendPath)
                     (snd (runBackend parse (Some backendPath) b))))
         = rewritten (pluginFilePath backendPath) updateBackendPluginContent
             (files (snd (runBackend parse (Some backendPath) b)))
     \<and> lookup (files (snd (runBackend parse (Some backendPath) b))) (servicesDir backendPath)
         = None
     \<and> (lookup (files (snd (runBackend parse (Some backendPath) b))) (routerPath backendPath)
           = None
         \<or> lookup (files (snd (runBackend parse (Some backendPath) b))) (routerPath backendPath)
           = Some (File simpleRouter))
     \<and> lookup (files (snd (runBackend parse (Some backendPath) b))) (pluginTestPath backendPath)
         = None
     \<and> lookup (files (snd (runBackend parse (Some backendPath) b))) (routerTestPath backendPath)
         = None
     \<and> lookup (files (snd (runBackend parse (Some backendPath) b))) (devDir backendPath) = None"
  using frontend_twice [where parse = parse, OF assms(1-5,7)]
    backend_twice [where parse = parse, OF assms(8-13)]
  by (intro conjI)

text \<open>
  The claim as stated fails where the text that the first run writes to \<^verbatim>\<open>src/plugin.ts\<close>
  matches again: for the identifier \<^verbatim>\<open>example-component\<close> the second run changes the file.
\<close>

theorem second_run_rewrites_plugin_file_only_counterexample:
  "fst (runFrontend parseExample (Some demoPath)
          (startState (frontendTree manifestExampleComponent componentSource pluginSource))) = 0
   \<and> lookup (files (snd (runFrontend parseExample (Some demoPath)
          (startState (frontendTree manifestExampleComponent componentSource pluginSource)))))
        [''plugins'', ''demo'', ''src'', ''plugin.ts'']
      = Some (File
          ''import('./components/ExampleComponentPage').then(m => m.ExampleComponentPage)'')
   \<and> fst (runFrontend parseExample (Some demoPath)
          (snd (runFrontend parseExample (Some demoPath)
             (startState (frontendTree manifestExampleComponent componentSource pluginSource)))))
      = 0
   \<and> lookup (files (snd (runFrontend parseExample (Some demoPath)
          (snd (runFrontend parseExample (Some demoPath)
             (startState (frontendTree manifestExampleComponent componentSource pluginSource)))))))
        [''plugins'', ''demo'', ''src'', ''plugin.ts'']
      = Some (File
          ''import('./components/ExampleComponentPage').then(m => m.ExampleComponentPagePage)'')
   \<and> files (snd (runFrontend parseExample (Some demoPath)
          (snd (runFrontend parseExample (Some demoPath)
             (startState (frontendTree manifestExampleComponent componentSource pluginSource))))))
      \<noteq> files (snd (runFrontend parseExample (Some demoPath)
          (startState (frontendTree manifestExampleComponent componentSource pluginSource))))"
proof -
  let ?s = "startState (frontendTree manifestExampleComponent componentSource pluginSource)"
  let ?s1 = "snd (runFrontend parseExample (Some demoPath) ?s)"
  let ?name = "''ExampleComponentPage''"
  have p: "parseExample manifestExampleComponent
      = Some (JObj [(''backstage'', JObj [(''pluginId'', JStr ''example-component'')])])"
    by (simp add: parseExample_def manifestExampleComponent_def manifestMyService_def)
  have c: "CHR ''/'' \<notin> set ?name" "CHR 0x00 \<notin> set ?name" "suffix ''Page'' ?name"
    by (simp_all add: suffix_to_prefix)
  have ne: "''example-component'' \<noteq> []" by simp
  note one = frontendTree_run [OF p example_component_name ne c, of componentSource pluginSource]
  note two = cleanedFrontendTree_run [OF p example_component_name ne c(2,3) one(2)]
  have u1: "updatePluginContent ?name pluginSource
      = ''import('./components/ExampleComponentPage').then(m => m.ExampleComponentPage)''"
    by code_simp
  have u2: "updatePluginContent ?name
        ''import('./components/ExampleComponentPage').then(m => m.ExampleComponentPage)''
      = ''import('./components/ExampleComponentPage').then(m => m.ExampleComponentPagePage)''"
    by code_simp
  show ?thesis
    unfolding one two u1 u2
    by (simp add: cleanedFrontendTree_def lookup_def)
qed

theorem second_run_rewrites_plugin_file_only_witness:
  "wellFormed (files (startState (frontendTree manifestMyService componentSource pluginSource)))
   \<and> existsSync (files
          (startState (frontendTree manifestMyService componentSource pluginSource))) demoPath
   \<and> readFileSync (files
          (startState (frontendTree manifestMyService componentSource pluginSource))) (packageJsonPath demoPath) = Inr manifestMyService
   \<and> parseExample manifestMyService = Some (JObj [(''backstage'', JObj [(''pluginId'', JStr ''my-service'')])])
   \<and> pluginIdOf (JObj [(''backstage'', JObj [(''pluginId'', JStr ''my-service'')])]) = Inr (Some (JStr ''my-service''))
   \<and> ascii ''my-service''
   \<and> fst (runFrontend parseExample (Some demoPath)
          (startState (frontendTree manifestMyService componentSource pluginSource))) = 0
   \<and> wellFormed (files
          (startState (backendTree manifestMyService ''// edited by hand'' backendPluginSource)))
   \<and> existsSync (files
          (startState (backendTree manifestMyService ''// edited by hand'' backendPluginSource))) demoPath
   \<and> readFileSync (files
          (startState (backendTree manifestMyService ''// edited by hand'' backendPluginSource))) (packageJsonPath demoPath) = Inr manifestMyService
   \<and> parseExample manifestMyService = Some (JObj [(''backstage'', JObj [(''pluginId'', JStr ''my-service'')])])
   \<and> pluginIdOf (JObj [(''backstage'', JObj [(''pluginId'', JStr ''my-service'')])]) = Inr (Some (JStr ''my-service''))
   \<and> fst (runBackend parseExample (Some demoPath)
          (startState (backendTree manifestMyService ''// edited by hand'' backendPluginSource))) = 0
   \<and> fst (runFrontend parseExample (Some demoPath) (snd (runFrontend parseExample (Some demoPath)
          (startState (frontendTree manifestMyService componentSource pluginSource))))) = 0
   \<and> files (snd (runFrontend parseExample (Some demoPath)
                     (snd (runFrontend parseExample (Some demoPath)
          (startState (frontendTree manifestMyService componentSource pluginSource))))))
         = rewritten (pluginFilePath demoPath) (updatePluginContent (componentName ''my-service''))
             (files (snd (runFrontend parseExample (Some demoPath)
          (startState (frontendTree manifestMyService componentSource pluginSource)))))
   \<and> lookup (files (snd (runFrontend parseExample (Some demoPath)
          (startState (frontendTree manifestMyService componentSource pluginSource))))) (exampleFetchDir demoPath)
         = None
   \<and> lookup (files (snd (runFrontend parseExample (Some demoPath)
          (startState (frontendTree manifestMyService componentSource pluginSource)))))
           (exampleComponentDir demoPath) = None
   \<and> lookup (files (snd (runFrontend parseExample (Some demoPath)
          (startState (frontendTree manifestMyService componentSource pluginSource))))) (devDir demoPath) = None
   \<and> lookup (files (snd (runFrontend parseExample (Some demoPath)
          (startState (frontendTree manifestMyService componentSource pluginSource))))) (pluginTestPath demoPath)
         = None
   \<and> fst (runBackend parseExample (Some demoPath) (snd (runBackend parseExample (Some demoPath)
          (startState (backendTree manifestMyService ''// edited by hand'' backendPluginSource))))) = 0
   \<and> files (snd (runBackend parseExample (Some demoPath)
                     (snd (runBackend parseExample (Some demoPath)
          (startState (backendTree manifestMyService ''// edited by hand'' backendPluginSource))))))
         = rewritten (pluginFilePath demoPath) updateBackendPluginContent
             (files (snd (runBackend parseExample (Some demoPath)
          (startState (backendTree manifestMyService ''// edited by hand'' backendPluginSource)))))
   \<and> lookup (files (snd (runBackend parseExample (Some demoPath)
          (startState (backendTree manifestMyService ''// edited by hand'' backendPluginSource))))) (servicesDir demoPath)
         = None
   \<and> (lookup (files (snd (runBackend parseExample (Some demoPath)
          (startState (backendTree manifestMyService ''// edited by hand'' backendPluginSource))))) (routerPath demoPath)
           = None
         \<or> lookup (files (snd (runBackend parseExample (Some demoPath)
          (startState (backendTree manifestMyService ''// edited by hand'' backendPluginSource))))) (routerPath demoPath)
           = Some (File simpleRouter))
   \<and> lookup (files (snd (runBackend parseExample (Some demoPath)
          (startState (backendTree manifestMyService ''// edited by hand'' backendPluginSource))))) (pluginTestPath demoPath)
         = None
   \<and> lookup (files (snd (runBackend parseExample (Some demoPath)
          (startState (backendTree manifestMyService ''// edited by hand'' backendPluginSource))))) (routerTestPath demoPath)
         = None
   \<and> lookup (files (snd (runBackend parseExample (Some demoPath)
          (startState (backendTree manifestMyService ''// edited by hand'' backendPluginSource))))) (devDir demoPath) = None"
proof -
  let ?s = "startState (frontendTree manifestMyService componentSource pluginSource)"
  let ?b = "startState (backendTree manifestMyService ''// edited by hand'' backendPluginSource)"
  have p: "parseExample manifestMyService
      = Some (JObj [(''backstage'', JObj [(''pluginId'', JStr ''my-service'')])])"
    by (simp add: parseExample_def)
  have i: "pluginIdOf (JObj [(''backstage'', JObj [(''pluginId'', JStr ''my-service'')])])
      = Inr (Some (JStr ''my-service''))"
    by (simp add: pluginIdOf_def)
  have a: "ascii ''my-service''" by (simp add: ascii_def)
  have ne: "''my-service'' \<noteq> []" by simp
  have c: "CHR ''/'' \<notin> set ''MyServicePage''" "CHR 0x00 \<notin> set ''MyServicePage''"
    "suffix ''Page'' ''MyServicePage''"
    by (simp_all add: suffix_to_prefix)
  have wf: "wellFormed (files ?s)"
    by (simp add: startState_def frontendTree_def wellFormed_def lookup_def)
  have e: "existsSync (files ?s) demoPath"
    by (simp add: startState_def frontendTree_def demoPath_def existsSync_def lookup_def)
  have r: "readFileSync (files ?s) (packageJsonPath demoPath) = Inr manifestMyService"
    by (simp add: startState_def frontendTree_def demoPath_def readFileSync_def lookup_def
        packageJsonPath_def)
  have ok: "fst (runFrontend parseExample (Some demoPath) ?s) = 0"
    by (rule frontendTree_run [OF p componentName_my_service ne c])
  have bwf: "wellFormed (files ?b)"
    by (simp add: startState_def backendTree_def wellFormed_def lookup_def)
  have be: "existsSync (files ?b) demoPath"
    by (simp add: startState_def backendTree_def demoPath_def existsSync_def lookup_def)
  have br: "readFileSync (files ?b) (packageJsonPath demoPath) = Inr manifestMyService"
    by (simp add: startState_def backendTree_def demoPath_def readFileSync_def lookup_def
        packageJsonPath_def)
  have bok: "fst (runBackend parseExample (Some demoPath) ?b) = 0"
    by (rule backendTree_run [OF p ne])
  note hyps = wf e r p i a ok bwf be br p i bok
  from second_run_rewrites_plugin_file_only [where parse = parseExample, OF hyps] hyps
  show ?thesis by (intro conjI) blast+
qed

end
